(* ===== verification/Prelude.thy ===== *)
theory Prelude
  imports Main "HOL-Library.Word"
begin

text \<open>
  Shared vocabulary of the exporter model. Go strings and byte slices are
  \<open>string\<close> (a list of 8-bit \<open>char\<close>s, as Go's strings are byte sequences);
  Go's \<open>int\<close> on the 64-bit platforms the exporter is built for is \<open>go_int\<close>,
  a \<open>64 word\<close> read as two's complement with \<open>sint\<close>. The theory also holds
  the decimal digit helpers that the float parser, the JSON scanner and the
  JSON printer share, with their read/show roundtrip, and the generic lemmas
  those components use.
\<close>

unbundle bit_operations_syntax

named_theorems exporter_simps
  "equations that evaluate the exporter model on concrete inputs"

type_synonym go_int = "64 word"

subsection \<open>Bytes\<close>

text \<open>Byte classes, as Go tests them on the byte's code.\<close>

definition is_digit :: "char \<Rightarrow> bool" where
  "is_digit c \<longleftrightarrow> 48 \<le> (of_char c :: nat) \<and> (of_char c :: nat) \<le> 57"

definition digit_val :: "char \<Rightarrow> nat" where
  "digit_val c = of_char c - 48"

text \<open>
  \<open>go_lower\<close> is strconv's \<open>lower(c) = c | ('x' - 'X')\<close>: it sets bit 5 of the
  byte, which maps an ASCII capital to its small letter. It is compared only
  against codes of small letters, so it returns the code.
\<close>

definition go_lower :: "char \<Rightarrow> nat" where
  "go_lower c = of_char c OR 32"

definition is_hex_letter :: "char \<Rightarrow> bool" where
  "is_hex_letter c \<longleftrightarrow> 97 \<le> go_lower c \<and> go_lower c \<le> 102"

definition hex_letter_val :: "char \<Rightarrow> nat" where
  "hex_letter_val c = go_lower c - 97 + 10"

subsection \<open>Decimal digits\<close>

definition digit_chars :: string where
  "digit_chars = ''0123456789''"

fun decimal_digits :: "nat \<Rightarrow> nat list" where
  "decimal_digits n = (if n < 10 then [n] else decimal_digits (n div 10) @ [n mod 10])"

declare decimal_digits.simps [simp del]

definition show_nat :: "nat \<Rightarrow> string" where
  "show_nat n = map (\<lambda>d. digit_chars ! d) (decimal_digits n)"

definition read_nat :: "string \<Rightarrow> nat" where
  "read_nat s = foldl (\<lambda>acc c. 10 * acc + digit_val c) 0 s"

subsection \<open>Options and first errors\<close>

text \<open>
  Go's decoders keep the first error they record and ignore later ones; the
  model writes that as \<open>first_some\<close>.
\<close>

definition first_some :: "'a option \<Rightarrow> 'a option \<Rightarrow> 'a option" where
  "first_some a b = (case a of None \<Rightarrow> b | Some x \<Rightarrow> Some x)"

subsection \<open>Lemmas on digits and options\<close>

lemma digit_neq: "is_digit c \<Longrightarrow> \<not> is_digit x \<Longrightarrow> c \<noteq> x"
  by auto

lemma non_digits [simp]:
  "\<not> is_digit CHR ''+''" "\<not> is_digit CHR ''-''" "\<not> is_digit CHR ''.''" "\<not> is_digit CHR ''_''"
  "\<not> is_digit CHR ''i''" "\<not> is_digit CHR ''I''" "\<not> is_digit CHR ''n''" "\<not> is_digit CHR ''N''"
  by (simp_all add: is_digit_def)

lemma decimal_digits_lt: "d \<in> set (decimal_digits n) \<Longrightarrow> d < 10"
proof (induction n rule: decimal_digits.induct)
  case (1 n)
  then show ?case
    by (cases "n < 10") (auto simp: decimal_digits.simps [of n])
qed

lemma decimal_digits_ne: "decimal_digits n \<noteq> []"
  by (subst decimal_digits.simps) simp

lemma digit_chars_nth_val: "d < 10 \<Longrightarrow> digit_val (digit_chars ! d) = d"
  by (auto simp: digit_chars_def digit_val_def numeral_eq_Suc less_Suc_eq)

lemma digit_chars_nth_digit: "d < 10 \<Longrightarrow> is_digit (digit_chars ! d)"
  by (auto simp: digit_chars_def is_digit_def numeral_eq_Suc less_Suc_eq)

lemma foldl_decimal_digits:
  "foldl (\<lambda>acc d. 10 * acc + d) a (decimal_digits n) = a * 10 ^ length (decimal_digits n) + n"
proof (induction n arbitrary: a rule: decimal_digits.induct)
  case (1 n)
  show ?case
  proof (cases "n < 10")
    case True
    then show ?thesis by (simp add: decimal_digits.simps [of n])
  next
    case False
    then have "foldl (\<lambda>acc d. 10 * acc + d) a (decimal_digits n)
        = 10 * (a * 10 ^ length (decimal_digits (n div 10)) + n div 10) + n mod 10"
      using "1.IH" by (simp add: decimal_digits.simps [of n])
    also have "\<dots> = a * 10 ^ length (decimal_digits n) + n"
      using False by (simp add: decimal_digits.simps [of n] algebra_simps)
    finally show ?thesis .
  qed
qed

lemma read_nat_show_nat [simp]: "read_nat (show_nat n) = n"
proof -
  have "read_nat (show_nat n) = foldl (\<lambda>acc d. 10 * acc + d) 0 (decimal_digits n)"
    unfolding read_nat_def show_nat_def foldl_map
    by (rule foldl_cong) (simp_all add: digit_chars_nth_val decimal_digits_lt)
  then show ?thesis by (simp add: foldl_decimal_digits)
qed

lemma show_nat_digits: "c \<in> set (show_nat n) \<Longrightarrow> is_digit c"
  by (auto simp: show_nat_def digit_chars_nth_digit decimal_digits_lt)

lemma show_nat_ne [simp]: "show_nat n \<noteq> []"
  by (simp add: show_nat_def decimal_digits_ne)

lemma read_nat_append:
  "read_nat (xs @ ys) = read_nat xs * 10 ^ length ys + read_nat ys"
proof (induction ys arbitrary: xs rule: rev_induct)
  case Nil
  then show ?case by (simp add: read_nat_def)
next
  case (snoc y ys)
  then show ?case by (simp add: read_nat_def algebra_simps)
qed

lemma read_nat_Cons: "read_nat (c # cs) = digit_val c * 10 ^ length cs + read_nat cs"
  using read_nat_append [of "[c]" cs] by (simp add: read_nat_def)

lemma hd_decimal_digits: "0 < n \<Longrightarrow> hd (decimal_digits n) \<noteq> 0"
proof (induction n rule: decimal_digits.induct)
  case (1 n)
  show ?case
  proof (cases "n < 10")
    case True
    with "1.prems" show ?thesis by (simp add: decimal_digits.simps [of n])
  next
    case False
    then have "hd (decimal_digits n) = hd (decimal_digits (n div 10))"
      by (simp add: decimal_digits.simps [of n] decimal_digits_ne)
    with False "1.IH" show ?thesis by simp
  qed
qed

lemma hd_show_nat: "0 < n \<Longrightarrow> hd (show_nat n) \<noteq> CHR ''0''"
proof
  assume n: "0 < n" and h: "hd (show_nat n) = CHR ''0''"
  let ?d = "hd (decimal_digits n)"
  have eq: "hd (show_nat n) = digit_chars ! ?d"
    by (simp add: show_nat_def hd_map decimal_digits_ne)
  have "?d < 10" using decimal_digits_lt hd_in_set decimal_digits_ne by blast
  then have "?d = digit_val (digit_chars ! ?d)" by (simp add: digit_chars_nth_val)
  also have "\<dots> = digit_val (CHR ''0'')" using eq h by simp
  finally have "?d = 0" by (simp add: digit_val_def)
  with hd_decimal_digits [OF n] show False by simp
qed

lemma show_nat_hd_digit: "is_digit (hd (show_nat n))"
  using show_nat_digits hd_in_set show_nat_ne by blast

lemma first_some_simps [simp]:
  "first_some None b = b"
  "first_some (Some x) b = Some x"
  by (simp_all add: first_some_def)

lemma first_some_None_iff [simp]: "first_some a b = None \<longleftrightarrow> a = None \<and> b = None"
  by (cases a) simp_all

end
