(* ===== verification/Descriptors.thy ===== *)
theory Descriptors
  imports Prelude
begin

text \<open>
  The metric descriptor set of \<open>src/exporter/ttn_exporter.go\<close>: the
  \<open>ttnCollector\<close> struct, its constructor \<open>newTtnCollector\<close> and its
  \<open>Describe\<close> method, together with the two helpers of client_golang they call,
  \<open>prometheus.BuildFQName\<close> and \<open>prometheus.NewDesc\<close> (modelled from the
  library's documented behaviour: the metric name is checked against the
  classic name grammar \<open>[a-zA-Z_:][a-zA-Z0-9_:]*\<close>, labels are not checked
  because the exporter passes none).
\<close>

subsection \<open>client_golang: descriptors and fully-qualified names\<close>

record desc =
  fqName :: string
  desc_help :: string
  variableLabels :: "string list"
  constLabels :: "(string \<times> string) list"
  desc_err :: "string option"

definition metric_name_char :: "bool \<Rightarrow> char \<Rightarrow> bool" where
  "metric_name_char first c \<longleftrightarrow>
     (97 \<le> (of_char c :: nat) \<and> (of_char c :: nat) \<le> 122) \<or>
     (65 \<le> (of_char c :: nat) \<and> (of_char c :: nat) \<le> 90) \<or>
     c = CHR ''_'' \<or> c = CHR '':'' \<or> (\<not> first \<and> is_digit c)"

fun valid_metric_name_from :: "bool \<Rightarrow> string \<Rightarrow> bool" where
  "valid_metric_name_from first [] = True"
| "valid_metric_name_from first (c # cs) =
     (metric_name_char first c \<and> valid_metric_name_from False cs)"

definition IsValidMetricName :: "string \<Rightarrow> bool" where
  "IsValidMetricName n \<longleftrightarrow> n \<noteq> [] \<and> valid_metric_name_from True n"

definition BuildFQName :: "string \<Rightarrow> string \<Rightarrow> string \<Rightarrow> string" where
  "BuildFQName ns subsystem name =
     (if name = [] then []
      else (if ns = [] then [] else ns @ ''_'') @
           (if subsystem = [] then [] else subsystem @ ''_'') @ name)"

definition NewDesc ::
  "string \<Rightarrow> string \<Rightarrow> string list \<Rightarrow> (string \<times> string) list \<Rightarrow> desc" where
  "NewDesc fq hlp vls cls =
     \<lparr>fqName = fq, desc_help = hlp, variableLabels = vls, constLabels = cls,
      desc_err = (if IsValidMetricName fq then None
                  else Some (''\"'' @ fq @ ''\" is not a valid metric name''))\<rparr>"

subsection \<open>The collector and its descriptors\<close>

definition namespace :: string where
  "namespace = ''ttn''"

record ttnCollector =
  up :: desc
  uplinkCount :: desc
  downlinkCount :: desc
  metricsAckr :: desc
  metricsLpps :: desc
  metricsRxfw :: desc
  metricsRxin :: desc
  metricsRxok :: desc
  metricsTxin :: desc
  metricsTxok :: desc
  apiToken :: string
  gateway :: string

definition gauge_desc :: "string \<Rightarrow> string \<Rightarrow> desc" where
  "gauge_desc name hlp = NewDesc (BuildFQName namespace [] name) hlp [] []"

definition newTtnCollector :: "string \<Rightarrow> string \<Rightarrow> ttnCollector" where
  "newTtnCollector tok gw =
     \<lparr>up = gauge_desc ''up'' ''Was the last API query successful.'',
      uplinkCount = gauge_desc ''uplink_count'' ''How many uplinks have been done.'',
      downlinkCount = gauge_desc ''downlink_count'' ''How many downlinks have been done.'',
      metricsAckr = gauge_desc ''ackr'' ''How many ackr have been done.'',
      metricsLpps = gauge_desc ''llps'' ''How many llps have been done.'',
      metricsRxfw = gauge_desc ''rxfw'' ''How many rxfw have been done.'',
      metricsRxin = gauge_desc ''rxin'' ''How many rxin have been done.'',
      metricsRxok = gauge_desc ''rxok'' ''How many rxok have been done.'',
      metricsTxin = gauge_desc ''txin'' ''How many txin have been done.'',
      metricsTxok = gauge_desc ''txok'' ''How many txok have been done.'',
      apiToken = tok,
      gateway = gw\<rparr>"

text \<open>\<open>Describe\<close> sends three descriptors on its channel, in this order.\<close>

definition Describe :: "ttnCollector \<Rightarrow> desc list" where
  "Describe c = [up c, uplinkCount c, downlinkCount c]"

text \<open>
  The ten descriptors of the collector in the order \<open>Collect\<close> uses them
  (the struct's field order).
\<close>

definition collector_descs :: "ttnCollector \<Rightarrow> desc list" where
  "collector_descs c =
     [up c, uplinkCount c, downlinkCount c, metricsAckr c, metricsLpps c,
      metricsRxfw c, metricsRxin c, metricsRxok c, metricsTxin c, metricsTxok c]"

subsection \<open>Lemmas on the descriptor set\<close>

lemma collector_descs_newTtnCollector:
  "collector_descs (newTtnCollector tok gw) =
     map (\<lambda>(n, h). gauge_desc n h)
       [(''up'', ''Was the last API query successful.''),
        (''uplink_count'', ''How many uplinks have been done.''),
        (''downlink_count'', ''How many downlinks have been done.''),
        (''ackr'', ''How many ackr have been done.''),
        (''llps'', ''How many llps have been done.''),
        (''rxfw'', ''How many rxfw have been done.''),
        (''rxin'', ''How many rxin have been done.''),
        (''rxok'', ''How many rxok have been done.''),
        (''txin'', ''How many txin have been done.''),
        (''txok'', ''How many txok have been done.'')]"
  by (simp add: collector_descs_def newTtnCollector_def)

lemma Describe_prefix:
  "Describe c = take 3 (collector_descs c)"
  by (simp add: Describe_def collector_descs_def)

lemma newTtnCollector_config [simp]:
  "apiToken (newTtnCollector tok gw) = tok" "gateway (newTtnCollector tok gw) = gw"
  by (simp_all add: newTtnCollector_def)

lemma collector_descs_ok:
  "list_all (\<lambda>d. desc_err d = None \<and> variableLabels d = [])
     (collector_descs (newTtnCollector tok gw))"
  by (simp add: collector_descs_newTtnCollector gauge_desc_def NewDesc_def BuildFQName_def
      namespace_def IsValidMetricName_def metric_name_char_def is_digit_def)

lemma Describe_descs:
  "Describe (newTtnCollector tok gw) =
     [NewDesc ''ttn_up'' ''Was the last API query successful.'' [] [],
      NewDesc ''ttn_uplink_count'' ''How many uplinks have been done.'' [] [],
      NewDesc ''ttn_downlink_count'' ''How many downlinks have been done.'' [] []]"
  by (simp add: Describe_def newTtnCollector_def gauge_desc_def BuildFQName_def namespace_def)

end
