(* ===== verification/GoFloat.thy ===== *)
theory GoFloat
  imports Complex_Main Prelude
begin

text \<open>
  Go's \<open>float64\<close> values and the conversions of the standard library that the
  exporter relies on: \<open>strconv.ParseFloat\<close> (with its \<open>readFloat\<close>,
  \<open>special\<close> and \<open>underscoreOK\<close> helpers), \<open>strconv.ParseInt\<close> in base 10
  (used by encoding/json for integer fields) and the conversion
  \<open>float64(int)\<close>. A finite double is kept as the exact rational it denotes;
  every value is produced by \<open>to_float64\<close>, which rounds an exact rational
  to the nearest binary64 value (ties to even, subnormals down to
  \<open>2^-1074\<close>, overflow to an infinity with a range error), as Go's
  correctly-rounded parser and the hardware conversion do.
\<close>

datatype float64 = Finite rat | NegZero | PosInf | NegInf | NaN

datatype strconv_err = ErrSyntax | ErrRange

subsection \<open>Rounding an exact rational to binary64\<close>

definition pow2 :: "int \<Rightarrow> rat" where
  "pow2 e = (if 0 \<le> e then 2 ^ nat e else 1 / 2 ^ nat (- e))"

fun bit_length :: "nat \<Rightarrow> nat" where
  "bit_length n = (if n = 0 then 0 else Suc (bit_length (n div 2)))"

declare bit_length.simps [simp del]

text \<open>\<open>floor_log2 q\<close> is the exponent \<open>k\<close> with \<open>2^k \<le> q < 2^(k+1)\<close>, for \<open>q > 0\<close>.\<close>

definition floor_log2 :: "rat \<Rightarrow> int" where
  "floor_log2 q =
     (let (a, b) = quotient_of q; k = int (bit_length (nat a)) - int (bit_length (nat b))
      in if pow2 k \<le> q then k else k - 1)"

definition round_half_even :: "rat \<Rightarrow> int" where
  "round_half_even q =
     (let f = \<lfloor>q\<rfloor>; r = q - of_int f
      in if r < 1 / 2 then f else if 1 / 2 < r then f + 1 else if even f then f else f + 1)"

text \<open>
  The binary64 exponent of the last mantissa bit for a positive value: 52 bits
  below the leading bit, but never below the subnormal exponent \<open>-1074\<close>.
\<close>

definition ulp_exp :: "rat \<Rightarrow> int" where
  "ulp_exp q = max (floor_log2 q - 52) (-1074)"

definition round_binary64 :: "rat \<Rightarrow> rat" where
  "round_binary64 q = of_int (round_half_even (q / pow2 (ulp_exp q))) * pow2 (ulp_exp q)"

definition max_float64 :: rat where
  "max_float64 = (2 ^ 53 - 1) * 2 ^ 971"

text \<open>
  \<open>to_float64 neg q\<close> is the double nearest to the exact value \<open>\<plusminus>q\<close>
  (\<open>q \<ge> 0\<close>), with \<open>True\<close> when it overflowed to an infinity (Go's
  \<open>ErrRange\<close>). An underflow to zero keeps the sign and is no error.
\<close>

definition to_float64 :: "bool \<Rightarrow> rat \<Rightarrow> float64 \<times> bool" where
  "to_float64 neg q =
     (if q = 0 then (if neg then NegZero else Finite 0, False)
      else let v = round_binary64 q in
        if max_float64 < v then (if neg then NegInf else PosInf, True)
        else if v = 0 then (if neg then NegZero else Finite 0, False)
        else (Finite (if neg then - v else v), False))"

text \<open>Go's \<open>float64(x)\<close> for an \<open>int\<close> \<open>x\<close>: round to nearest, ties to even.\<close>

definition float64_of_int :: "go_int \<Rightarrow> float64" where
  "float64_of_int x = fst (to_float64 (sint x < 0) (of_int \<bar>sint x\<bar>))"

subsection \<open>strconv.ParseFloat\<close>

text \<open>
  The state of \<open>readFloat\<close>'s digit loop. Go keeps at most 19 decimal (16
  hexadecimal) mantissa digits and a truncation flag and falls back to an
  exact big-decimal conversion when the truncation matters; the model keeps
  the exact mantissa, which gives the value that fallback computes.
\<close>

record rf_state =
  rf_mant :: nat
  rf_nd :: nat
  rf_dp :: int
  rf_sawdot :: bool
  rf_sawdigits :: bool
  rf_underscores :: bool

definition rf_init :: rf_state where
  "rf_init = \<lparr>rf_mant = 0, rf_nd = 0, rf_dp = 0, rf_sawdot = False, rf_sawdigits = False,
              rf_underscores = False\<rparr>"

text \<open>The \<open>loop:\<close> of \<open>readFloat\<close>: digits, underscores and at most one dot.\<close>

fun rf_digits :: "bool \<Rightarrow> rf_state \<Rightarrow> string \<Rightarrow> rf_state \<times> string" where
  "rf_digits hex st [] = (st, [])"
| "rf_digits hex st (c # cs) =
     (if c = CHR ''_'' then rf_digits hex (st\<lparr>rf_underscores := True\<rparr>) cs
      else if c = CHR ''.'' then
        (if rf_sawdot st then (st, c # cs)
         else rf_digits hex (st\<lparr>rf_sawdot := True, rf_dp := int (rf_nd st)\<rparr>) cs)
      else if is_digit c then
        (if c = CHR ''0'' \<and> rf_nd st = 0
         then rf_digits hex (st\<lparr>rf_sawdigits := True, rf_dp := rf_dp st - 1\<rparr>) cs
         else rf_digits hex (st\<lparr>rf_sawdigits := True, rf_nd := Suc (rf_nd st),
                rf_mant := (if hex then 16 else 10) * rf_mant st + digit_val c\<rparr>) cs)
      else if hex \<and> is_hex_letter c then
        rf_digits hex (st\<lparr>rf_sawdigits := True, rf_nd := Suc (rf_nd st),
                rf_mant := 16 * rf_mant st + hex_letter_val c\<rparr>) cs
      else (st, c # cs))"

text \<open>
  The exponent digits: Go stops accumulating once the exponent reaches 10000
  (\<open>if e < 10000 { e = e*10 + ... }\<close>); underscores are skipped and recorded.
\<close>

fun rf_exp_digits :: "nat \<Rightarrow> bool \<Rightarrow> string \<Rightarrow> nat \<times> bool \<times> string" where
  "rf_exp_digits e u [] = (e, u, [])"
| "rf_exp_digits e u (c # cs) =
     (if is_digit c then rf_exp_digits (if e < 10000 then 10 * e + digit_val c else e) u cs
      else if c = CHR ''_'' then rf_exp_digits e True cs
      else (e, u, c # cs))"

datatype saw = SawStart | SawDigit | SawUnderscore | SawOther

fun underscore_loop :: "bool \<Rightarrow> saw \<Rightarrow> string \<Rightarrow> bool" where
  "underscore_loop hex saw [] = (saw \<noteq> SawUnderscore)"
| "underscore_loop hex saw (c # cs) =
     (if is_digit c \<or> (hex \<and> is_hex_letter c) then underscore_loop hex SawDigit cs
      else if c = CHR ''_'' then (saw = SawDigit \<and> underscore_loop hex SawUnderscore cs)
      else if saw = SawUnderscore then False
      else underscore_loop hex SawOther cs)"

definition strip_sign :: "string \<Rightarrow> string" where
  "strip_sign s = (case s of c # cs \<Rightarrow> if c = CHR ''-'' \<or> c = CHR ''+'' then cs else s | [] \<Rightarrow> [])"

definition underscoreOK :: "string \<Rightarrow> bool" where
  "underscoreOK s0 =
     (let s = strip_sign s0 in
      case s of
        c1 # c2 # cs \<Rightarrow>
          if c1 = CHR ''0'' \<and> go_lower c2 \<in> {98, 111, 120}
          then underscore_loop (go_lower c2 = 120) SawDigit cs
          else underscore_loop False SawStart s
      | _ \<Rightarrow> underscore_loop False SawStart s)"

text \<open>
  \<open>readFloat s\<close> returns the exact mantissa, the exponent (of 10, or of 2 for a
  hexadecimal mantissa), the sign, whether the mantissa was hexadecimal, and
  the number of bytes read; \<open>None\<close> is \<open>ok = false\<close>.
\<close>

definition readFloat :: "string \<Rightarrow> (nat \<times> int \<times> bool \<times> bool \<times> nat) option" where
  "readFloat s =
     (if s = [] then None else
      let neg = (hd s = CHR ''-'');
          s1 = (if hd s = CHR ''+'' \<or> hd s = CHR ''-'' then tl s else s);
          hex = (2 < length s1 \<and> s1 ! 0 = CHR ''0'' \<and> go_lower (s1 ! 1) = 120);
          s2 = (if hex then drop 2 s1 else s1);
          (st, s3) = rf_digits hex rf_init s2
      in if \<not> rf_sawdigits st then None else
      let dp0 = (if rf_sawdot st then rf_dp st else int (rf_nd st));
          dp = (if hex then 4 * dp0 else dp0);
          nd = (if hex then 4 * rf_nd st else rf_nd st);
          expc = (if hex then 112 else 101)
      in (case s3 of
            c # s4 \<Rightarrow>
              if go_lower c = expc then
                (let (esign, s5) = (case s4 of
                        d # s6 \<Rightarrow> if d = CHR ''+'' then (1::int, s6)
                                  else if d = CHR ''-'' then (-1, s6) else (1, s4)
                      | [] \<Rightarrow> (1, []))
                 in case s5 of
                      d # _ \<Rightarrow>
                        if is_digit d then
                          (let (e, u, s7) = rf_exp_digits 0 (rf_underscores st) s5;
                               i = length s - length s7
                           in if u \<and> \<not> underscoreOK (take i s) then None
                              else Some (rf_mant st, dp + esign * int e - int nd, neg, hex, i))
                        else None
                    | [] \<Rightarrow> None)
              else if hex then None
              else (let i = length s - length s3
                    in if rf_underscores st \<and> \<not> underscoreOK (take i s) then None
                       else Some (rf_mant st, dp - int nd, neg, hex, i))
          | [] \<Rightarrow>
              if hex then None
              else (let i = length s
                    in if rf_underscores st \<and> \<not> underscoreOK s then None
                       else Some (rf_mant st, dp - int nd, neg, hex, i))))"

text \<open>\<open>special\<close>: the spellings of infinity and NaN, case-insensitive.\<close>

definition ascii_lower_code :: "char \<Rightarrow> nat" where
  "ascii_lower_code c =
     (if 65 \<le> (of_char c :: nat) \<and> (of_char c :: nat) \<le> 90 then of_char c + 32 else of_char c)"

fun common_prefix_len_ic :: "string \<Rightarrow> string \<Rightarrow> nat" where
  "common_prefix_len_ic (c # cs) (p # ps) =
     (if ascii_lower_code c = of_char p then Suc (common_prefix_len_ic cs ps) else 0)"
| "common_prefix_len_ic _ _ = 0"

definition special_inf :: "bool \<Rightarrow> nat \<Rightarrow> string \<Rightarrow> (float64 \<times> nat) option" where
  "special_inf neg nsign s =
     (let n = common_prefix_len_ic s ''infinity'';
          n' = (if 3 < n \<and> n < 8 then 3 else n)
      in if n' = 3 \<or> n' = 8 then Some (if neg then NegInf else PosInf, nsign + n') else None)"

definition special :: "string \<Rightarrow> (float64 \<times> nat) option" where
  "special s =
     (case s of
        [] \<Rightarrow> None
      | c # cs \<Rightarrow>
          if c = CHR ''+'' \<or> c = CHR ''-'' then special_inf (c = CHR ''-'') 1 cs
          else if c = CHR ''i'' \<or> c = CHR ''I'' then special_inf False 0 s
          else if c = CHR ''n'' \<or> c = CHR ''N'' then
            (if common_prefix_len_ic s ''nan'' = 3 then Some (NaN, 3) else None)
          else None)"

text \<open>
  \<open>strconv.ParseFloat(s, 64)\<close> (any \<open>bitSize\<close> other than 32 takes this path,
  the exporter's \<open>8\<close> included): the value and the error. A syntax error
  returns \<open>0\<close>, an overflow returns the signed infinity with \<open>ErrRange\<close>.
\<close>

definition ParseFloat64 :: "string \<Rightarrow> float64 \<times> strconv_err option" where
  "ParseFloat64 s =
     (case special s of
        Some (f, n) \<Rightarrow> if n = length s then (f, None) else (Finite 0, Some ErrSyntax)
      | None \<Rightarrow>
          (case readFloat s of
             None \<Rightarrow> (Finite 0, Some ErrSyntax)
           | Some (m, e, neg, hex, n) \<Rightarrow>
               if n \<noteq> length s then (Finite 0, Some ErrSyntax)
               else
                 let (f, ovf) = to_float64 neg (of_nat m * (if hex then pow2 e else 10 powi e))
                 in (f, if ovf then Some ErrRange else None)))"


subsection \<open>strconv.ParseInt in base 10\<close>

text \<open>
  \<open>ParseUint(s, 10, 64)\<close>'s loop: a non-digit is a syntax error; an
  accumulator at or above \<open>cutoff = maxUint64/10 + 1\<close>, or a step past
  \<open>maxUint64\<close>, returns \<open>maxUint64\<close> with a range error at once.
\<close>

fun parse_uint10_loop :: "nat \<Rightarrow> string \<Rightarrow> nat \<times> strconv_err option" where
  "parse_uint10_loop n [] = (n, None)"
| "parse_uint10_loop n (c # cs) =
     (if \<not> is_digit c then (0, Some ErrSyntax)
      else if 1844674407370955162 \<le> n then (2 ^ 64 - 1, Some ErrRange)
      else if 2 ^ 64 - 1 < 10 * n + digit_val c then (2 ^ 64 - 1, Some ErrRange)
      else parse_uint10_loop (10 * n + digit_val c) cs)"

definition ParseUint10 :: "string \<Rightarrow> nat \<times> strconv_err option" where
  "ParseUint10 s = (if s = [] then (0, Some ErrSyntax) else parse_uint10_loop 0 s)"

text \<open>
  \<open>ParseInt(s, 10, 64)\<close>: an optional sign, then \<open>ParseUint\<close>; a syntax
  error is returned as is, a range error of \<open>ParseUint\<close> is reported as the
  range error of \<open>ParseInt\<close>, and the result is clamped to \<open>int64\<close>.
\<close>

definition ParseInt10 :: "string \<Rightarrow> go_int \<times> strconv_err option" where
  "ParseInt10 s =
     (if s = [] then (0, Some ErrSyntax) else
      let neg = (hd s = CHR ''-'');
          u = (if hd s = CHR ''+'' \<or> hd s = CHR ''-'' then tl s else s);
          (un, err) = ParseUint10 u
      in if err = Some ErrSyntax then (0, Some ErrSyntax)
         else if \<not> neg \<and> 2 ^ 63 \<le> un then (word_of_int (2 ^ 63 - 1), Some ErrRange)
         else if neg \<and> 2 ^ 63 < un then (word_of_int (- (2 ^ 63)), Some ErrRange)
         else (word_of_int (if neg then - int un else int un), None))"

text \<open>
  \<open>strconv.FormatInt(i, 10)\<close>, which encoding/json writes for an \<open>int\<close>:
  a minus sign for a negative value, then the decimal digits of its magnitude.
\<close>

definition FormatInt10 :: "go_int \<Rightarrow> string" where
  "FormatInt10 w =
     (if sint w < 0 then CHR ''-'' # show_nat (nat (- sint w)) else show_nat (nat (sint w)))"

subsection \<open>Rounding lemmas\<close>

lemma pow2_pos [simp]: "0 < pow2 e"
  by (simp add: pow2_def)

lemma pow2_add: "pow2 (a + b) = pow2 a * pow2 b"
proof -
  have "pow2 e = (2::rat) powi e" for e
    by (simp add: pow2_def power_int_def field_simps)
  then show ?thesis by (simp add: power_int_add)
qed

lemma pow2_of_nat [simp]: "pow2 (int n) = 2 ^ n"
  by (simp add: pow2_def)

lemma pow2_mono: "a \<le> b \<Longrightarrow> pow2 a \<le> pow2 b"
proof -
  assume "a \<le> b"
  then have "pow2 b = pow2 a * pow2 (b - a)" by (simp flip: pow2_add)
  moreover have "1 \<le> pow2 (b - a)" using \<open>a \<le> b\<close> by (simp add: pow2_def)
  ultimately show ?thesis by simp
qed

lemma round_half_even_of_int [simp]: "round_half_even (of_int k) = k"
  by (simp add: round_half_even_def)

lemma pow2_nat_diff: "pow2 (int m - int n) = 2 ^ m / 2 ^ n"
proof (cases "n \<le> m")
  case True
  then have "pow2 (int m - int n) = pow2 (int (m - n))" by (simp add: of_nat_diff)
  also have "\<dots> = 2 ^ (m - n)" by (rule pow2_of_nat)
  also have "\<dots> = 2 ^ m / 2 ^ n" using True by (simp add: power_diff)
  finally show ?thesis .
next
  case False
  then have "pow2 (int m - int n) = 1 / 2 ^ (n - m)" by (simp add: pow2_def)
  also have "(2::rat) ^ n = 2 ^ m * 2 ^ (n - m)" using False by (simp flip: power_add)
  then have "1 / (2::rat) ^ (n - m) = 2 ^ m / 2 ^ n" by simp
  finally show ?thesis .
qed

lemma bit_length_pos: "0 < n \<Longrightarrow> 0 < bit_length n"
  by (simp add: bit_length.simps [of n])

lemma bit_length_bounds: "0 < n \<Longrightarrow> 2 ^ (bit_length n - 1) \<le> n \<and> n < 2 ^ bit_length n"
proof (induction n rule: bit_length.induct)
  case (1 n)
  have bl: "bit_length n = Suc (bit_length (n div 2))"
    using "1.prems" by (simp add: bit_length.simps [of n])
  show ?case
  proof (cases "n = 1")
    case True
    have "bit_length (Suc 0) = 1" by (simp add: bit_length.simps [of "Suc 0"] bit_length.simps [of 0])
    with True show ?thesis by simp
  next
    case False
    with "1.prems" have pos: "0 < n div 2" by simp
    with "1.IH" "1.prems" have IH: "2 ^ (bit_length (n div 2) - 1) \<le> n div 2"
      "n div 2 < 2 ^ bit_length (n div 2)" by auto
    have "2 ^ (bit_length n - 1) = 2 * 2 ^ (bit_length (n div 2) - 1)"
      using bit_length_pos [OF pos] by (simp add: bl power_Suc [symmetric])
    also have "\<dots> \<le> n" using IH(1) by linarith
    finally have lo: "2 ^ (bit_length n - 1) \<le> n" .
    have "n < 2 * 2 ^ bit_length (n div 2)" using IH(2) by linarith
    then show ?thesis using lo by (simp add: bl)
  qed
qed

lemma floor_log2_bounds:
  assumes "0 < q"
  shows "pow2 (floor_log2 q) \<le> q \<and> q < pow2 (floor_log2 q + 1)"
proof -
  obtain a b where qa: "quotient_of q = (a, b)" by (cases "quotient_of q")
  have b: "0 < b" using quotient_of_denom_pos [OF qa] .
  have q: "q = of_int a / of_int b" using quotient_of_div [OF qa] .
  have a: "0 < a" using assms b by (simp add: q zero_less_divide_iff)
  define A where "A = bit_length (nat a)"
  define B where "B = bit_length (nat b)"
  define k where "k = int A - int B"
  have A: "2 ^ (A - 1) \<le> nat a" "nat a < 2 ^ A" "0 < A"
    using bit_length_bounds [of "nat a"] bit_length_pos [of "nat a"] a by (simp_all add: A_def)
  have B: "2 ^ (B - 1) \<le> nat b" "nat b < 2 ^ B" "0 < B"
    using bit_length_bounds [of "nat b"] bit_length_pos [of "nat b"] b by (simp_all add: B_def)
  have Ai: "(2::int) ^ (A - 1) \<le> a" "a < 2 ^ A"
    using A(1,2) a by (simp_all add: le_nat_iff nat_less_iff)
  have Bi: "(2::int) ^ (B - 1) \<le> b" "b < 2 ^ B"
    using B(1,2) b by (simp_all add: le_nat_iff nat_less_iff)
  have Ar: "(2::rat) ^ (A - 1) \<le> of_int a" "of_int a < (2::rat) ^ A"
    using Ai by (metis of_int_le_iff of_int_numeral of_int_power,
                 metis of_int_less_iff of_int_numeral of_int_power)
  have Br: "(2::rat) ^ (B - 1) \<le> of_int b" "of_int b < (2::rat) ^ B"
    using Bi by (metis of_int_le_iff of_int_numeral of_int_power,
                 metis of_int_less_iff of_int_numeral of_int_power)
  have km1: "k - 1 = int (A - 1) - int B" using A(3) by (simp add: k_def)
  have kp1: "k + 1 = int A - int (B - 1)" using B(3) by (simp add: k_def)
  have "pow2 (k - 1) = 2 ^ (A - 1) / 2 ^ B" by (simp add: km1 pow2_nat_diff)
  also have "\<dots> < of_int a / of_int b"
    using Ar(1) Br(2) b by (simp add: frac_less2)
  finally have lo: "pow2 (k - 1) < q" by (simp add: q)
  have "q = of_int a / of_int b" by (rule q)
  also have "\<dots> < 2 ^ A / 2 ^ (B - 1)"
    using Ar(2) Br(1) a by (simp add: frac_less)
  also have "\<dots> = pow2 (k + 1)" by (simp add: kp1 pow2_nat_diff)
  finally have hi: "q < pow2 (k + 1)" .
  have fl: "floor_log2 q = (if pow2 k \<le> q then k else k - 1)"
    by (simp add: floor_log2_def qa A_def B_def k_def Let_def)
  show ?thesis
    using lo hi by (auto simp: fl)
qed

lemma pow2_strict_mono: "a < b \<Longrightarrow> pow2 a < pow2 b"
proof -
  assume "a < b"
  then have "pow2 b = pow2 a * pow2 (b - a)" by (simp flip: pow2_add)
  moreover have "1 < pow2 (b - a)" using \<open>a < b\<close> by (simp add: pow2_def)
  ultimately show ?thesis by simp
qed

lemma pow2_nonzero [simp]: "pow2 e \<noteq> 0"
  using pow2_pos [of e] by linarith

lemma round_binary64_exact:
  assumes "q / pow2 (ulp_exp q) = of_int m"
  shows "round_binary64 q = q"
proof -
  have "round_binary64 q = of_int m * pow2 (ulp_exp q)"
    by (simp add: round_binary64_def assms)
  also have "\<dots> = q" using assms by (simp add: divide_eq_eq)
  finally show ?thesis .
qed

lemma floor_log2_le:
  assumes "0 < q" "q \<le> pow2 k" shows "floor_log2 q \<le> k"
proof (rule ccontr)
  assume "\<not> floor_log2 q \<le> k"
  then have "pow2 k < pow2 (floor_log2 q)" by (simp add: pow2_strict_mono)
  also have "\<dots> \<le> q" using floor_log2_bounds [OF assms(1)] by simp
  finally show False using assms(2) by simp
qed

lemma round_binary64_nat:
  assumes "0 < n" "n \<le> 2 ^ 53"
  shows "round_binary64 (of_nat n) = of_nat n"
proof -
  let ?q = "(of_nat n :: rat)"
  have q0: "0 < ?q" using assms(1) by simp
  have "?q \<le> pow2 53" using assms(2) by (simp add: pow2_def)
  then have fl: "floor_log2 ?q \<le> 53" by (rule floor_log2_le [OF q0])
  show ?thesis
  proof (cases "floor_log2 ?q = 53")
    case True
    then have "pow2 53 \<le> ?q" using floor_log2_bounds [OF q0] by simp
    with \<open>?q \<le> pow2 53\<close> have q: "?q = 2 ^ 53" by (simp add: pow2_def)
    have "ulp_exp ?q = 1" using True by (simp add: ulp_exp_def)
    then have "?q / pow2 (ulp_exp ?q) = of_int (2 ^ 52)" by (simp add: q pow2_def)
    then show ?thesis by (rule round_binary64_exact)
  next
    case False
    with fl have "ulp_exp ?q \<le> 0" by (simp add: ulp_exp_def)
    then have "?q / pow2 (ulp_exp ?q) = of_int (int n * 2 ^ nat (- ulp_exp ?q))"
      by (simp add: pow2_def)
    then show ?thesis by (rule round_binary64_exact)
  qed
qed

lemma max_float64_ge: "(2::rat) ^ 53 \<le> max_float64"
  unfolding max_float64_def by simp

lemma to_float64_nat:
  assumes "0 < n" "n \<le> 2 ^ 53"
  shows "to_float64 neg (of_nat n) = (Finite (if neg then - of_nat n else of_nat n), False)"
proof -
  have "(of_nat n :: rat) \<le> 2 ^ 53" using assms(2) by (metis of_nat_le_iff of_nat_numeral of_nat_power)
  then have "\<not> max_float64 < of_nat n" using max_float64_ge by linarith
  then show ?thesis using assms(1) by (simp add: to_float64_def Let_def round_binary64_nat [OF assms])
qed

lemma float64_of_int_exact:
  assumes "\<bar>sint x\<bar> \<le> 2 ^ 53"
  shows "float64_of_int x = Finite (of_int (sint x))"
proof (cases "sint x = 0")
  case True
  then show ?thesis by (simp add: float64_of_int_def to_float64_def del: of_int_sint)
next
  case False
  define n where "n = nat \<bar>sint x\<bar>"
  have n: "0 < n" "n \<le> 2 ^ 53" using False assms by (simp_all add: n_def nat_le_iff)
  have qn: "(of_int \<bar>sint x\<bar> :: rat) = of_nat n" by (simp add: n_def del: of_int_sint)
  have t: "to_float64 neg (of_nat n) = (Finite (if neg then - of_nat n else of_nat n), False)" for neg
    by (rule to_float64_nat [OF n])
  have eq: "(if sint x < 0 then - of_nat n else of_nat n) = (of_int (sint x) :: rat)"
    by (simp add: n_def del: of_int_sint)
  have "float64_of_int x = Finite (if sint x < 0 then - of_nat n else of_nat n)"
    unfolding float64_of_int_def qn t by simp
  then show ?thesis by (simp only: eq)
qed

subsection \<open>Parsing decimal digit strings\<close>

lemma rf_init_fields [simp]:
  "rf_mant rf_init = 0" "rf_nd rf_init = 0" "rf_dp rf_init = 0" "\<not> rf_sawdot rf_init"
  "\<not> rf_sawdigits rf_init" "\<not> rf_underscores rf_init"
  by (simp_all add: rf_init_def)

lemma rf_digits_decimal:
  assumes "list_all is_digit ds" "0 < rf_nd st \<or> ds = [] \<or> hd ds \<noteq> CHR ''0''" "\<not> rf_sawdot st"
  shows "rf_digits False st ds =
     (st\<lparr>rf_sawdigits := (rf_sawdigits st \<or> ds \<noteq> []), rf_nd := rf_nd st + length ds,
         rf_mant := rf_mant st * 10 ^ length ds + read_nat ds\<rparr>, [])"
  using assms
proof (induction ds arbitrary: st)
  case Nil
  then show ?case by (simp add: read_nat_def)
next
  case (Cons c cs)
  have c: "is_digit c" "c \<noteq> CHR ''_''" "c \<noteq> CHR ''.''"
    using Cons.prems(1) by (auto simp: is_digit_def)
  have nz: "\<not> (c = CHR ''0'' \<and> rf_nd st = 0)" using Cons.prems(2) by auto
  define st' where "st' = st\<lparr>rf_sawdigits := True, rf_nd := Suc (rf_nd st),
                            rf_mant := 10 * rf_mant st + digit_val c\<rparr>"
  have step: "rf_digits False st (c # cs) = rf_digits False st' cs"
    using c nz by (cases "c = CHR ''0''") (simp_all add: st'_def)
  have IH: "rf_digits False st' cs =
     (st'\<lparr>rf_sawdigits := (rf_sawdigits st' \<or> cs \<noteq> []), rf_nd := rf_nd st' + length cs,
          rf_mant := rf_mant st' * 10 ^ length cs + read_nat cs\<rparr>, [])"
    using Cons.prems(1,3) by (intro Cons.IH) (simp_all add: st'_def)
  show ?case
    unfolding step IH by (simp add: st'_def read_nat_Cons algebra_simps)
qed

lemma readFloat_show_nat:
  assumes "0 < n"
  shows "readFloat (show_nat n) = Some (n, 0, False, False, length (show_nat n))"
proof -
  let ?s = "show_nat n"
  have dig: "list_all is_digit ?s" using show_nat_digits by (simp add: list_all_iff)
  have hd: "is_digit (hd ?s)" "hd ?s \<noteq> CHR ''0''"
    using show_nat_hd_digit hd_show_nat [OF assms] by simp_all
  then have sign: "hd ?s \<noteq> CHR ''-''" "hd ?s \<noteq> CHR ''+''"
    using digit_neq non_digits by blast+
  have nohex: "?s ! 0 \<noteq> CHR ''0''" using hd(2) by (simp add: hd_conv_nth)
  have rd: "rf_digits False rf_init ?s =
      (rf_init\<lparr>rf_sawdigits := True, rf_nd := length ?s, rf_mant := n\<rparr>, [])"
    using rf_digits_decimal [OF dig, of rf_init] hd(2) by (simp add: rf_init_fields)
  show ?thesis
    using sign nohex by (simp add: readFloat_def rd Let_def)
qed


lemma special_digit: "s \<noteq> [] \<Longrightarrow> is_digit (hd s) \<Longrightarrow> special s = None"
proof (cases s)
  case (Cons c cs)
  assume "is_digit (hd s)"
  then have d: "is_digit c" using Cons by simp
  have "c \<noteq> CHR ''+''" "c \<noteq> CHR ''-''" "c \<noteq> CHR ''i''" "c \<noteq> CHR ''I''"
       "c \<noteq> CHR ''n''" "c \<noteq> CHR ''N''"
    using digit_neq [OF d] non_digits by blast+
  then show ?thesis by (simp add: special_def Cons)
qed simp

lemma to_float64_overflow: "to_float64 neg q = (f, True) \<Longrightarrow> f = PosInf \<or> f = NegInf"
  by (auto simp: to_float64_def Let_def split: if_splits)

text \<open>
  The decimal rendering of a natural number up to \<open>2^53\<close> (the range in
  which every integer is a double) parses back to that number exactly.
\<close>

lemma ParseFloat64_show_nat:
  assumes "n \<le> 2 ^ 53"
  shows "ParseFloat64 (show_nat n) = (Finite (of_nat n), None)"
proof (cases "n = 0")
  case True
  have s0: "show_nat 0 = ''0''" by code_simp
  have "ParseFloat64 ''0'' = (Finite 0, None)" by code_simp
  then show ?thesis using True s0 by simp
next
  case False
  then have n: "0 < n" by simp
  have sp: "special (show_nat n) = None"
    by (rule special_digit) (simp_all add: show_nat_hd_digit)
  show ?thesis
    by (simp add: ParseFloat64_def sp readFloat_show_nat [OF n] to_float64_nat [OF n assms])
qed

text \<open>A syntax error comes with the value \<open>+0\<close>, a range error with an infinity.\<close>

lemma ParseFloat64_syntax_zero:
  "ParseFloat64 s = (f, Some ErrSyntax) \<Longrightarrow> f = Finite 0"
  by (auto simp: ParseFloat64_def split: option.splits if_splits prod.splits)

lemma ParseFloat64_range_inf:
  "ParseFloat64 s = (f, Some ErrRange) \<Longrightarrow> f = PosInf \<or> f = NegInf"
  by (auto simp: ParseFloat64_def dest: to_float64_overflow split: option.splits if_splits prod.splits)

lemma floor_log2_unique:
  assumes "pow2 k \<le> q" "q < pow2 (k + 1)"
  shows "floor_log2 q = k"
proof -
  have q: "0 < q" using assms(1) pow2_pos [of k] by linarith
  note b = floor_log2_bounds [OF q]
  show ?thesis
  proof (rule ccontr)
    assume "floor_log2 q \<noteq> k"
    then consider "floor_log2 q + 1 \<le> k" | "k + 1 \<le> floor_log2 q" by linarith
    then show False
    proof cases
      case 1
      then have "pow2 (floor_log2 q + 1) \<le> pow2 k" by (rule pow2_mono)
      with b assms(1) show False by linarith
    next
      case 2
      then have "pow2 (k + 1) \<le> pow2 (floor_log2 q)" by (rule pow2_mono)
      with b assms(2) show False by linarith
    qed
  qed
qed

text \<open>Above \<open>2^53\<close> the conversion of an \<open>int\<close> rounds (ties to even).\<close>

lemma float64_of_int_rounds:
  "float64_of_int (2 ^ 53 + 1) = Finite (2 ^ 53)"
proof -
  let ?q = "9007199254740993 :: rat"
  have s: "sint (2 ^ 53 + 1 :: go_int) = 9007199254740993" by simp
  have fl: "floor_log2 ?q = 53" by (rule floor_log2_unique) (simp_all add: pow2_def)
  have ue: "ulp_exp ?q = 1" by (simp add: ulp_exp_def fl)
  have fq: "\<lfloor>?q / 2\<rfloor> = 4503599627370496" by (rule floor_unique) simp_all
  have "round_half_even (?q / 2) = 4503599627370496"
    by (simp add: round_half_even_def fq)
  then have r: "round_binary64 ?q = 9007199254740992"
    by (simp add: round_binary64_def ue pow2_def)
  have "to_float64 False ?q = (Finite 9007199254740992, False)"
    by (simp add: to_float64_def r max_float64_def)
  then show ?thesis by (simp add: float64_of_int_def s del: of_int_sint)
qed

subsection \<open>Integer parsing\<close>

lemma parse_uint10_loop_digits:
  "list_all is_digit s \<Longrightarrow> n * 10 ^ length s + read_nat s < 2 ^ 64 \<Longrightarrow>
   parse_uint10_loop n s = (n * 10 ^ length s + read_nat s, None)"
proof (induction s arbitrary: n)
  case Nil
  then show ?case by (simp add: read_nat_def)
next
  case (Cons c cs)
  have d: "is_digit c" "list_all is_digit cs" using Cons.prems(1) by simp_all
  have eq: "(10 * n + digit_val c) * 10 ^ length cs + read_nat cs
      = n * 10 ^ length (c # cs) + read_nat (c # cs)"
    by (simp add: read_nat_Cons algebra_simps)
  have "10 * n + digit_val c \<le> (10 * n + digit_val c) * 10 ^ length cs + read_nat cs"
    by (simp add: trans_le_add1)
  then have lt: "10 * n + digit_val c < 2 ^ 64" using Cons.prems(2) eq by linarith
  then have "n < 1844674407370955162" by simp
  with d lt show ?case using Cons.IH [of "10 * n + digit_val c"] Cons.prems(2) eq by simp
qed

lemma ParseUint10_show_nat: "n < 2 ^ 64 \<Longrightarrow> ParseUint10 (show_nat n) = (n, None)"
  using parse_uint10_loop_digits [of "show_nat n" 0]
  by (simp add: ParseUint10_def list_all_iff show_nat_digits)

lemma show_nat_not_sign: "hd (show_nat n) \<noteq> CHR ''+''" "hd (show_nat n) \<noteq> CHR ''-''"
  using show_nat_hd_digit [of n] by auto

text \<open>\<open>ParseInt\<close> reads back every \<open>int\<close> that \<open>FormatInt\<close> writes.\<close>

lemma ParseInt10_FormatInt10: "ParseInt10 (FormatInt10 w) = (w, None)"
proof (cases "sint w < 0")
  case True
  have lo: "- (2 ^ 63) \<le> sint w" using sint_ge [of w] by simp
  then have "nat (- sint w) < 2 ^ 64" by simp
  with True lo show ?thesis
    by (simp add: ParseInt10_def FormatInt10_def ParseUint10_show_nat)
next
  case False
  have hi: "sint w < 2 ^ 63" using sint_lt [of w] by simp
  then have "nat (sint w) < 2 ^ 64" by simp
  with False hi show ?thesis
    by (simp add: ParseInt10_def FormatInt10_def ParseUint10_show_nat show_nat_not_sign)
qed

lemma ParseFloat64_Nil: "ParseFloat64 [] = (Finite 0, Some ErrSyntax)"
  by code_simp

lemma float64_of_int_0 [simp]: "float64_of_int 0 = Finite 0"
  using float64_of_int_exact [of 0] by simp

end
