(* ===== verification/Json.thy ===== *)
theory Json
  imports Prelude
begin

text \<open>
  The part of Go's encoding/json that \<open>json.Unmarshal\<close> runs before it
  stores anything: the scanner that checks the whole input is one JSON value
  (\<open>checkValid\<close>), with its nesting limit of 10000, and the tree that the
  decoder then walks. A string or a number is kept as the raw bytes of its
  literal, as Go's decoder re-reads them (\<open>literalStore\<close> gets the literal's
  bytes): a string's content between the quotes with its escapes not yet
  interpreted, a number's text as written. The parser is fuel-bounded; the
  fuel \<open>2 * length s + 1\<close> that \<open>json_parse\<close> gives it is enough, and a
  printer with its roundtrip shows that every well-formed tree is read back.
\<close>

datatype json =
    JNull
  | JBool bool
  | JNumber string
  | JString string
  | JArray "json list"
  | JObject "(string \<times> json) list"

definition maxNestingDepth :: nat where
  "maxNestingDepth = 10000"

subsection \<open>Lexical scanning\<close>

definition is_ws :: "char \<Rightarrow> bool" where
  "is_ws c \<longleftrightarrow> c = CHR '' '' \<or> c = CHR 0x09 \<or> c = CHR 0x0A \<or> c = CHR 0x0D"

fun skip_ws :: "string \<Rightarrow> string" where
  "skip_ws [] = []"
| "skip_ws (c # cs) = (if is_ws c then skip_ws cs else c # cs)"

definition is_hex_digit :: "char \<Rightarrow> bool" where
  "is_hex_digit c \<longleftrightarrow> is_digit c \<or> is_hex_letter c"

definition is_escape_char :: "char \<Rightarrow> bool" where
  "is_escape_char c \<longleftrightarrow> c \<in> {CHR 0x22, CHR 0x5C, CHR ''/'', CHR ''b'', CHR ''f'', CHR ''n'', CHR ''r'', CHR ''t''}"

text \<open>
  The body of a string literal after its opening quote: the raw content and
  what follows the closing quote. A byte below 0x20 is an error, as is a
  backslash not followed by a quote, a backslash, one of \<open>/bfnrt\<close> or by \<open>u\<close> and four hex
  digits.
\<close>

fun scan_string :: "string \<Rightarrow> (string \<times> string) option" where
  "scan_string [] = None"
| "scan_string (c # cs) =
     (if c = CHR 0x22 then Some ([], cs)
      else if c = CHR 0x5C then
        (case cs of
           e # r \<Rightarrow>
             if is_escape_char e then
               map_option (\<lambda>(b, r'). (c # e # b, r')) (scan_string r)
             else if e = CHR ''u'' then
               (case r of
                  h1 # h2 # h3 # h4 # r' \<Rightarrow>
                    if is_hex_digit h1 \<and> is_hex_digit h2 \<and> is_hex_digit h3 \<and> is_hex_digit h4
                    then map_option (\<lambda>(b, r''). (c # e # h1 # h2 # h3 # h4 # b, r'')) (scan_string r')
                    else None
                | _ \<Rightarrow> None)
             else None
         | [] \<Rightarrow> None)
      else if (of_char c :: nat) < 32 then None
      else map_option (\<lambda>(b, r). (c # b, r)) (scan_string cs))"

fun span_digits :: "string \<Rightarrow> string \<times> string" where
  "span_digits [] = ([], [])"
| "span_digits (c # cs) =
     (if is_digit c then (let (ds, r) = span_digits cs in (c # ds, r)) else ([], c # cs))"

text \<open>The exponent part of a number: \<open>[eE][+-]?[0-9]+\<close>, or nothing.\<close>

definition scan_exponent :: "string \<Rightarrow> (string \<times> string) option" where
  "scan_exponent s =
     (case s of
        c # r \<Rightarrow>
          if c = CHR ''e'' \<or> c = CHR ''E'' then
            (let (sg, r1) = (case r of
                     d # r' \<Rightarrow> if d = CHR ''+'' \<or> d = CHR ''-'' then ([d], r') else ([], r)
                   | [] \<Rightarrow> ([], []));
                 (ds, r2) = span_digits r1
             in if ds = [] then None else Some (c # sg @ ds, r2))
          else Some ([], s)
      | [] \<Rightarrow> Some ([], []))"

text \<open>The fraction part: \<open>.[0-9]+\<close>, or nothing; then the exponent.\<close>

definition scan_fraction :: "string \<Rightarrow> (string \<times> string) option" where
  "scan_fraction s =
     (case s of
        c # r \<Rightarrow>
          if c = CHR ''.'' then
            (let (ds, r1) = span_digits r
             in if ds = [] then None
                else map_option (\<lambda>(ex, r2). (c # ds @ ex, r2)) (scan_exponent r1))
          else scan_exponent s
      | [] \<Rightarrow> Some ([], []))"

text \<open>An unsigned number, \<open>(0|[1-9][0-9]*)\<close> then fraction and exponent.\<close>

definition scan_unsigned :: "string \<Rightarrow> (string \<times> string) option" where
  "scan_unsigned s =
     (case s of
        [] \<Rightarrow> None
      | c # r \<Rightarrow>
          if c = CHR ''0'' then map_option (\<lambda>(t, r'). (c # t, r')) (scan_fraction r)
          else if is_digit c then
            (let (ds, r1) = span_digits r
             in map_option (\<lambda>(t, r'). (c # ds @ t, r')) (scan_fraction r1))
          else None)"

text \<open>A number: an optional minus sign, then an unsigned number.\<close>

definition scan_number :: "string \<Rightarrow> (string \<times> string) option" where
  "scan_number s =
     (case s of
        [] \<Rightarrow> None
      | c # r \<Rightarrow>
          if c = CHR ''-'' then map_option (\<lambda>(t, r'). (c # t, r')) (scan_unsigned r)
          else scan_unsigned s)"

definition scan_literal :: "string \<Rightarrow> string \<Rightarrow> string option" where
  "scan_literal lit s = (if take (length lit) s = lit then Some (drop (length lit) s) else None)"

subsection \<open>The value parser\<close>

text \<open>
  \<open>parse_value f d s\<close> reads one value after optional white space, at
  container depth \<open>d\<close>; opening a container past depth 10000 is Go's
  \<open>exceeded max depth\<close> error. \<open>parse_items\<close> reads the elements of an array
  after its \<open>[\<close> and first white space up to the closing \<open>]\<close>;
  \<open>parse_members\<close> reads the members of an object. Every call spends one unit
  of fuel.
\<close>

fun parse_value :: "nat \<Rightarrow> nat \<Rightarrow> string \<Rightarrow> (json \<times> string) option"
and parse_items :: "nat \<Rightarrow> nat \<Rightarrow> string \<Rightarrow> (json list \<times> string) option"
and parse_members :: "nat \<Rightarrow> nat \<Rightarrow> string \<Rightarrow> ((string \<times> json) list \<times> string) option"
where
  "parse_value 0 d s = None"
| "parse_value (Suc f) d s =
     (case skip_ws s of
        [] \<Rightarrow> None
      | c # r \<Rightarrow>
          if c = CHR ''['' then
            (if maxNestingDepth \<le> d then None
             else (case skip_ws r of
                     c2 # r2 \<Rightarrow> if c2 = CHR '']'' then Some (JArray [], r2)
                               else map_option (\<lambda>(vs, r'). (JArray vs, r')) (parse_items f (Suc d) r)
                   | [] \<Rightarrow> None))
          else if c = CHR ''{'' then
            (if maxNestingDepth \<le> d then None
             else (case skip_ws r of
                     c2 # r2 \<Rightarrow> if c2 = CHR ''}'' then Some (JObject [], r2)
                               else map_option (\<lambda>(ms, r'). (JObject ms, r')) (parse_members f (Suc d) r)
                   | [] \<Rightarrow> None))
          else if c = CHR 0x22 then map_option (\<lambda>(b, r'). (JString b, r')) (scan_string r)
          else if c = CHR ''-'' \<or> is_digit c then
            map_option (\<lambda>(t, r'). (JNumber t, r')) (scan_number (c # r))
          else if c = CHR ''t'' then map_option (\<lambda>r'. (JBool True, r')) (scan_literal ''true'' (c # r))
          else if c = CHR ''f'' then map_option (\<lambda>r'. (JBool False, r')) (scan_literal ''false'' (c # r))
          else if c = CHR ''n'' then map_option (\<lambda>r'. (JNull, r')) (scan_literal ''null'' (c # r))
          else None)"
| "parse_items 0 d s = None"
| "parse_items (Suc f) d s =
     (case parse_value f d s of
        None \<Rightarrow> None
      | Some (v, r) \<Rightarrow>
          (case skip_ws r of
             c # r' \<Rightarrow>
               if c = CHR '','' then map_option (\<lambda>(vs, r''). (v # vs, r'')) (parse_items f d r')
               else if c = CHR '']'' then Some ([v], r')
               else None
           | [] \<Rightarrow> None))"
| "parse_members 0 d s = None"
| "parse_members (Suc f) d s =
     (case skip_ws s of
        c # r \<Rightarrow>
          if c = CHR 0x22 then
            (case scan_string r of
               None \<Rightarrow> None
             | Some (k, r1) \<Rightarrow>
                 (case skip_ws r1 of
                    c1 # r2 \<Rightarrow>
                      if c1 = CHR '':'' then
                        (case parse_value f d r2 of
                           None \<Rightarrow> None
                         | Some (v, r3) \<Rightarrow>
                             (case skip_ws r3 of
                                c3 # r4 \<Rightarrow>
                                  if c3 = CHR '','' then
                                    map_option (\<lambda>(ms, r5). ((k, v) # ms, r5)) (parse_members f d r4)
                                  else if c3 = CHR ''}'' then Some ([(k, v)], r4)
                                  else None
                              | [] \<Rightarrow> None))
                      else None
                  | [] \<Rightarrow> None))
          else None
      | [] \<Rightarrow> None)"

text \<open>
  \<open>checkValid\<close> and the tree: the whole input is one value with white space
  around it.
\<close>

definition json_parse :: "string \<Rightarrow> json option" where
  "json_parse s =
     (case parse_value (Suc (2 * length s)) 0 s of
        Some (v, r) \<Rightarrow> if skip_ws r = [] then Some v else None
      | None \<Rightarrow> None)"

subsection \<open>Printing, and the trees the printer can produce\<close>

text \<open>A compact printer (no white space), the inverse of the parser.\<close>

fun print_json :: "json \<Rightarrow> string"
and print_items :: "json list \<Rightarrow> string"
and print_members :: "(string \<times> json) list \<Rightarrow> string"
where
  "print_json JNull = ''null''"
| "print_json (JBool b) = (if b then ''true'' else ''false'')"
| "print_json (JNumber t) = t"
| "print_json (JString b) = CHR 0x22 # b @ [CHR 0x22]"
| "print_json (JArray vs) = CHR ''['' # print_items vs @ '']''"
| "print_json (JObject ms) = CHR ''{'' # print_members ms @ ''}''"
| "print_items [] = []"
| "print_items (v # vs) = print_json v @ (if vs = [] then [] else CHR '','' # print_items vs)"
| "print_members [] = []"
| "print_members ((k, v) # ms) =
     CHR 0x22 # k @ CHR 0x22 # CHR '':'' # print_json v @
     (if ms = [] then [] else CHR '','' # print_members ms)"

text \<open>Raw string content that the scanner accepts up to a closing quote.\<close>

fun raw_string_ok :: "string \<Rightarrow> bool" where
  "raw_string_ok [] = True"
| "raw_string_ok (c # cs) =
     (if c = CHR 0x22 then False
      else if c = CHR 0x5C then
        (case cs of
           e # r \<Rightarrow>
             if is_escape_char e then raw_string_ok r
             else if e = CHR ''u'' then
               (case r of
                  h1 # h2 # h3 # h4 # r' \<Rightarrow>
                    is_hex_digit h1 \<and> is_hex_digit h2 \<and> is_hex_digit h3 \<and> is_hex_digit h4 \<and>
                    raw_string_ok r'
                | _ \<Rightarrow> False)
             else False
         | [] \<Rightarrow> False)
      else if (of_char c :: nat) < 32 then False
      else raw_string_ok cs)"

definition number_ok :: "string \<Rightarrow> bool" where
  "number_ok t \<longleftrightarrow> scan_number t = Some (t, [])"

text \<open>
  \<open>json_wf d v\<close>: the tree \<open>v\<close>, placed at container depth \<open>d\<close>, has valid
  literals and nests no deeper than Go's limit.
\<close>

fun json_wf :: "nat \<Rightarrow> json \<Rightarrow> bool"
and items_wf :: "nat \<Rightarrow> json list \<Rightarrow> bool"
and members_wf :: "nat \<Rightarrow> (string \<times> json) list \<Rightarrow> bool"
where
  "json_wf d JNull = True"
| "json_wf d (JBool b) = True"
| "json_wf d (JNumber t) = number_ok t"
| "json_wf d (JString b) = raw_string_ok b"
| "json_wf d (JArray vs) = (d < maxNestingDepth \<and> items_wf (Suc d) vs)"
| "json_wf d (JObject ms) = (d < maxNestingDepth \<and> members_wf (Suc d) ms)"
| "items_wf d [] = True"
| "items_wf d (v # vs) = (json_wf d v \<and> items_wf d vs)"
| "members_wf d [] = True"
| "members_wf d ((k, v) # ms) = (raw_string_ok k \<and> json_wf d v \<and> members_wf d ms)"

text \<open>The bytes that can continue a number literal, and a suffix that cannot.\<close>

definition number_char :: "char \<Rightarrow> bool" where
  "number_char c \<longleftrightarrow> is_digit c \<or> c = CHR ''.'' \<or> c = CHR ''e'' \<or> c = CHR ''E'' \<or>
                      c = CHR ''+'' \<or> c = CHR ''-''"

definition num_stop :: "string \<Rightarrow> bool" where
  "num_stop r \<longleftrightarrow> r = [] \<or> \<not> number_char (hd r)"

subsection \<open>Scanning and parsing what the printer produces\<close>

lemma scan_string_raw:
  "raw_string_ok b \<Longrightarrow> scan_string (b @ CHR 0x22 # r) = Some (b, r)"
proof (induction b rule: raw_string_ok.induct)
  case 1
  then show ?case by simp
next
  case (2 c cs)
  have nq: "c \<noteq> CHR 0x22" using "2.prems" by (auto split: if_splits)
  show ?case
  proof (cases "c = CHR 0x5C")
    case bs: True
    then obtain e r0 where cs: "cs = e # r0" using "2.prems" nq by (cases cs) auto
    show ?thesis
    proof (cases "is_escape_char e")
      case True
      then have ok: "raw_string_ok r0" using "2.prems" nq bs cs by simp
      have "scan_string (r0 @ CHR 0x22 # r) = Some (r0, r)" using "2.IH"(1) [OF nq bs cs True ok] .
      then show ?thesis using nq bs cs True by simp
    next
      case False
      then have u: "e = CHR ''u''" using "2.prems" nq bs cs by (auto split: if_splits)
      then obtain h1 h2 h3 h4 r' where r0: "r0 = h1 # h2 # h3 # h4 # r'"
        using "2.prems" nq bs cs False by (auto split: list.splits)
      have ok: "is_hex_digit h1 \<and> is_hex_digit h2 \<and> is_hex_digit h3 \<and> is_hex_digit h4 \<and> raw_string_ok r'"
        using "2.prems" nq bs cs False u r0 by simp
      have "scan_string (r' @ CHR 0x22 # r) = Some (r', r)"
        using "2.IH"(2) [OF nq bs cs False u r0] ok by blast
      then show ?thesis using nq bs cs False u r0 ok by simp
    qed
  next
    case False
    then have ok: "\<not> (of_char c :: nat) < 32" "raw_string_ok cs" using "2.prems" nq by (auto split: if_splits)
    have "scan_string (cs @ CHR 0x22 # r) = Some (cs, r)" using "2.IH"(3) [OF nq False ok(1) ok(2)] .
    then show ?thesis using nq False ok by simp
  qed
qed


lemma num_stop_Cons [simp]: "num_stop (c # r) \<longleftrightarrow> \<not> number_char c"
  by (simp add: num_stop_def)

lemma num_stop_Nil [simp]: "num_stop []"
  by (simp add: num_stop_def)

lemma span_digits_append:
  "num_stop r \<Longrightarrow> span_digits (u @ r) = (fst (span_digits u), snd (span_digits u) @ r)"
proof (induction u)
  case Nil
  then show ?case by (cases r) (auto simp: number_char_def)
next
  case (Cons c u)
  then show ?case by (simp add: split_def Let_def)
qed

lemma scan_exponent_append:
  assumes "num_stop r"
  shows "scan_exponent (u @ r) = map_option (\<lambda>(t, r'). (t, r' @ r)) (scan_exponent u)"
proof (cases u)
  case Nil
  with assms show ?thesis by (cases r) (auto simp: scan_exponent_def number_char_def)
next
  case (Cons c u')
  show ?thesis
  proof (cases "c = CHR ''e'' \<or> c = CHR ''E''")
    case False
    with Cons show ?thesis by (simp add: scan_exponent_def)
  next
    case True
    have sd: "span_digits (x @ r) = (fst (span_digits x), snd (span_digits x) @ r)" for x
      by (rule span_digits_append [OF assms])
    have sd0: "span_digits r = ([], r)" using sd [of "[]"] by simp
    show ?thesis
    proof (cases u')
      case Nil
      have "\<not> (hd r = CHR ''+'' \<or> hd r = CHR ''-'')" if "r \<noteq> []"
        using assms that by (auto simp: num_stop_def number_char_def)
      with True Cons Nil sd0 show ?thesis
        by (cases r) (auto simp: scan_exponent_def split_def Let_def)
    next
      case Cons2: (Cons d u'')
      with True Cons show ?thesis
        by (auto simp: scan_exponent_def split_def Let_def sd)
    qed
  qed
qed


lemma scan_fraction_append:
  assumes "num_stop r"
  shows "scan_fraction (u @ r) = map_option (\<lambda>(t, r'). (t, r' @ r)) (scan_fraction u)"
proof (cases u)
  case Nil
  have "scan_exponent ([] @ r) = Some ([], r)"
    using scan_exponent_append [OF assms, of "[]"] by (simp add: scan_exponent_def)
  with Nil assms show ?thesis
    by (cases r) (auto simp: scan_fraction_def number_char_def)
next
  case (Cons c u')
  note se = scan_exponent_append [OF assms] and sd = span_digits_append [OF assms]
  show ?thesis
  proof (cases "c = CHR ''.''")
    case True
    with Cons show ?thesis
      by (auto simp: scan_fraction_def split_def Let_def se sd option.map_comp comp_def)
  next
    case False
    with Cons show ?thesis using se [of "c # u'", simplified] by (simp add: scan_fraction_def)
  qed
qed


lemma is_digit_0: "is_digit CHR ''0''"
  by (simp add: is_digit_def)

lemma num_stop_Cons_facts:
  assumes "num_stop (c # r)"
  shows "\<not> is_digit c" "c \<noteq> CHR ''0''" "c \<noteq> CHR ''-''"
proof -
  have n: "\<not> number_char c" using assms by simp
  then show nd: "\<not> is_digit c" by (simp add: number_char_def)
  show "c \<noteq> CHR ''0''" using nd is_digit_0 by blast
  show "c \<noteq> CHR ''-''" using n by (simp add: number_char_def)
qed

lemma scan_unsigned_append:
  assumes "num_stop r"
  shows "scan_unsigned (u @ r) = map_option (\<lambda>(t, r'). (t, r' @ r)) (scan_unsigned u)"
proof (cases u)
  case Nil
  show ?thesis
  proof (cases r)
    case (Cons c r')
    with assms have "\<not> is_digit c" "c \<noteq> CHR ''0''" using num_stop_Cons_facts by blast+
    with Nil Cons show ?thesis by (simp add: scan_unsigned_def)
  qed (simp add: Nil scan_unsigned_def)
next
  case (Cons c u')
  note sf = scan_fraction_append [OF assms] and sd = span_digits_append [OF assms]
  show ?thesis
  proof (cases "c = CHR ''0''")
    case True
    with Cons show ?thesis by (simp add: scan_unsigned_def sf option.map_comp comp_def case_prod_beta)
  next
    case False
    with Cons show ?thesis
      by (simp add: scan_unsigned_def sd sf option.map_comp comp_def case_prod_beta)
  qed
qed


lemma scan_number_append:
  assumes "num_stop r"
  shows "scan_number (u @ r) = map_option (\<lambda>(t, r'). (t, r' @ r)) (scan_number u)"
proof (cases u)
  case Nil
  show ?thesis
  proof (cases r)
    case (Cons c r')
    with assms have "c \<noteq> CHR ''-''" using num_stop_Cons_facts by blast
    then show ?thesis
      using scan_unsigned_append [OF assms, of "[]"]
      by (simp add: Nil Cons scan_number_def scan_unsigned_def)
  qed (simp add: Nil scan_number_def)
next
  case (Cons c u')
  note su = scan_unsigned_append [OF assms]
  show ?thesis
  proof (cases "c = CHR ''-''")
    case True
    with Cons show ?thesis
      by (simp add: scan_number_def su option.map_comp comp_def case_prod_beta)
  next
    case False
    with Cons show ?thesis using su [of "c # u'"] by (simp add: scan_number_def)
  qed
qed

lemma number_ok_append:
  "number_ok t \<Longrightarrow> num_stop r \<Longrightarrow> scan_number (t @ r) = Some (t, r)"
  by (simp add: number_ok_def scan_number_append)

lemma number_ok_hd:
  assumes "number_ok t"
  shows "t \<noteq> [] \<and> (hd t = CHR ''-'' \<or> is_digit (hd t))"
proof (cases t)
  case Nil
  with assms show ?thesis by (simp add: number_ok_def scan_number_def)
next
  case (Cons c t')
  have "c = CHR ''-'' \<or> is_digit c"
  proof (rule ccontr)
    assume a: "\<not> (c = CHR ''-'' \<or> is_digit c)"
    then have "c \<noteq> CHR ''0''" using is_digit_0 by blast
    with a have "scan_number t = None" by (simp add: Cons scan_number_def scan_unsigned_def)
    with assms show False by (simp add: number_ok_def)
  qed
  with Cons show ?thesis by simp
qed


lemma skip_ws_nows [simp]: "\<not> is_ws c \<Longrightarrow> skip_ws (c # r) = c # r"
  by simp

lemma ws_chars [simp]:
  "\<not> is_ws CHR '',''" "\<not> is_ws CHR '']''" "\<not> is_ws CHR ''}''" "\<not> is_ws CHR '':''"
  "\<not> is_ws CHR ''[''" "\<not> is_ws CHR ''{''" "\<not> is_ws (CHR 0x22)" "\<not> is_ws CHR ''-''"
  "\<not> is_ws CHR ''n''" "\<not> is_ws CHR ''t''" "\<not> is_ws CHR ''f''"
  by (simp_all add: is_ws_def)

lemma digit_not_ws: "is_digit c \<Longrightarrow> \<not> is_ws c"
  by (auto simp: is_digit_def is_ws_def)

lemma stop_chars [simp]:
  "\<not> number_char CHR '',''" "\<not> number_char CHR '']''" "\<not> number_char CHR ''}''"
  by (simp_all add: number_char_def is_digit_def)

lemma print_json_hd:
  assumes "json_wf d v"
  shows "print_json v \<noteq> [] \<and> \<not> is_ws (hd (print_json v)) \<and>
         hd (print_json v) \<noteq> CHR '']'' \<and> hd (print_json v) \<noteq> CHR ''}''"
proof (cases v)
  case (JNumber t)
  with assms have "number_ok t" by simp
  from number_ok_hd [OF this] have "t \<noteq> []" "hd t = CHR ''-'' \<or> is_digit (hd t)" by simp_all
  moreover have "\<not> is_digit CHR '']''" "\<not> is_digit CHR ''}''" by (simp_all add: is_digit_def)
  ultimately show ?thesis using JNumber digit_not_ws by auto
qed (auto simp: is_ws_def)


lemma more_non_digits [simp]:
  "\<not> is_digit CHR ''t''" "\<not> is_digit CHR ''f''" "\<not> is_digit CHR ''[''" "\<not> is_digit CHR ''{''"
  "\<not> is_digit (CHR 0x22)" "\<not> is_digit CHR '']''" "\<not> is_digit CHR ''}''"
  by (simp_all add: is_digit_def)

lemma print_members_hd:
  "ms \<noteq> [] \<Longrightarrow> print_members ms \<noteq> [] \<and> hd (print_members ms) = CHR 0x22"
  by (cases ms) auto

lemma print_items_hd:
  "items_wf d vs \<Longrightarrow> vs \<noteq> [] \<Longrightarrow>
   print_items vs \<noteq> [] \<and> \<not> is_ws (hd (print_items vs)) \<and> hd (print_items vs) \<noteq> CHR '']''"
  by (cases vs) (auto dest: print_json_hd)

lemma number_first_char:
  assumes "number_ok t"
  shows "t = hd t # tl t" "hd t \<noteq> CHR ''[''" "hd t \<noteq> CHR ''{''" "hd t \<noteq> CHR 0x22"
        "hd t = CHR ''-'' \<or> is_digit (hd t)" "\<not> is_ws (hd t)"
proof -
  from number_ok_hd [OF assms] have ne: "t \<noteq> []" and h: "hd t = CHR ''-'' \<or> is_digit (hd t)"
    by simp_all
  then show "t = hd t # tl t" by simp
  show "hd t = CHR ''-'' \<or> is_digit (hd t)" by (rule h)
  have "\<not> is_digit CHR ''[''" "\<not> is_digit CHR ''{''" "\<not> is_digit (CHR 0x22)"
    by (simp_all add: is_digit_def)
  with h show "hd t \<noteq> CHR ''[''" "hd t \<noteq> CHR ''{''" "hd t \<noteq> CHR 0x22" by auto
  from h show "\<not> is_ws (hd t)" using digit_not_ws by auto
qed

lemma parse_print:
  "json_wf d v \<Longrightarrow> num_stop r \<Longrightarrow> length (print_json v) < f \<Longrightarrow>
     parse_value f d (print_json v @ r) = Some (v, r)"
  "items_wf d vs \<Longrightarrow> vs \<noteq> [] \<Longrightarrow> length (print_items vs) + 1 < f \<Longrightarrow>
     parse_items f d (print_items vs @ CHR '']'' # r) = Some (vs, r)"
  "members_wf d ms \<Longrightarrow> ms \<noteq> [] \<Longrightarrow> length (print_members ms) + 1 < f \<Longrightarrow>
     parse_members f d (print_members ms @ CHR ''}'' # r) = Some (ms, r)"
proof (induction v and vs and ms arbitrary: d r f and d r f and d r f
       rule: print_json_print_items_print_members.induct)
  case 1
  then obtain f' where "f = Suc f'" by (cases f) auto
  then show ?case by (simp add: scan_literal_def)
next
  case (2 b)
  then obtain f' where "f = Suc f'" by (cases f) auto
  then show ?case by (simp add: scan_literal_def)
next
  case (3 t)
  then obtain f' where f: "f = Suc f'" by (cases f) auto
  from "3.prems"(1) have ok: "number_ok t" by simp
  note fc = number_first_char [OF ok]
  have sn: "scan_number (t @ r) = Some (t, r)" by (rule number_ok_append [OF ok "3.prems"(2)])
  obtain c t' where t: "t = c # t'" using fc(1) by blast
  have c: "c \<noteq> CHR ''[''" "c \<noteq> CHR ''{''" "c \<noteq> CHR 0x22" "\<not> is_ws c"
    and cond: "(c = CHR ''-'' \<or> is_digit c) = True"
    using fc(2-6) by (simp_all add: t)
  have "parse_value (Suc f') d (t @ r) = map_option (\<lambda>(t', r'). (JNumber t', r')) (scan_number (t @ r))"
    using c by (simp only: t append_Cons parse_value.simps skip_ws_nows list.case if_False cond if_True
                      simp_thms)
  then show ?case by (simp add: f sn)
next
  case (4 b)
  then obtain f' where "f = Suc f'" by (cases f) auto
  with "4.prems"(1) show ?case by (simp add: scan_string_raw)
next
  case (5 vs)
  then obtain f' where f: "f = Suc f'" by (cases f) auto
  from "5.prems"(1) have d: "d < maxNestingDepth" and w: "items_wf (Suc d) vs" by simp_all
  show ?case
  proof (cases "vs = []")
    case True
    with d f show ?thesis by simp
  next
    case False
    note h = print_items_hd [OF w False]
    have pi: "parse_items f' (Suc d) (print_items vs @ CHR '']'' # r) = Some (vs, r)"
      using "5.IH" [OF w False] "5.prems"(3) f by simp
    have sk: "skip_ws (print_items vs @ CHR '']'' # r) = print_items vs @ CHR '']'' # r"
      using h by (cases "print_items vs") simp_all
    have hd: "hd (print_items vs @ CHR '']'' # r) \<noteq> CHR '']''" using h by simp
    show ?thesis
      using d f pi sk hd h by (cases "print_items vs @ CHR '']'' # r") auto
  qed
next
  case (6 ms)
  then obtain f' where f: "f = Suc f'" by (cases f) auto
  from "6.prems"(1) have d: "d < maxNestingDepth" and w: "members_wf (Suc d) ms" by simp_all
  show ?case
  proof (cases "ms = []")
    case True
    with d f show ?thesis by simp
  next
    case False
    note h = print_members_hd [OF False]
    have pm: "parse_members f' (Suc d) (print_members ms @ CHR ''}'' # r) = Some (ms, r)"
      using "6.IH" [OF w False] "6.prems"(3) f by simp
    obtain rest where pe: "print_members ms = CHR 0x22 # rest"
      using h by (cases "print_members ms") auto
    show ?thesis
      using d f pm pe by simp
  qed
next
  case 7
  then show ?case by simp
next
  case (8 v vs)
  then obtain f' where f: "f = Suc f'" by (cases f) auto
  from "8.prems"(1) have wv: "json_wf d v" and wvs: "items_wf d vs" by simp_all
  show ?case
  proof (cases "vs = []")
    case True
    have "length (print_json v) < f'" using "8.prems"(3) f True by simp
    then have "parse_value f' d (print_json v @ CHR '']'' # r) = Some (v, CHR '']'' # r)"
      using "8.IH"(1) [OF wv] by simp
    with True f show ?thesis by simp
  next
    case False
    let ?rest = "CHR '','' # print_items vs @ CHR '']'' # r"
    have "length (print_json v) < f'" "length (print_items vs) + 1 < f'"
      using "8.prems"(3) f False by simp_all
    then have pv: "parse_value f' d (print_json v @ ?rest) = Some (v, ?rest)"
      and pi: "parse_items f' d (print_items vs @ CHR '']'' # r) = Some (vs, r)"
      using "8.IH"(1) [OF wv] "8.IH"(2) [OF False wvs False] by simp_all
    from False f pv pi show ?thesis by simp
  qed
next
  case 9
  then show ?case by simp
next
  case (10 k v ms)
  then obtain f' where f: "f = Suc f'" by (cases f) auto
  from "10.prems"(1) have wk: "raw_string_ok k" and wv: "json_wf d v" and wms: "members_wf d ms"
    by simp_all
  let ?rest = "(if ms = [] then [] else CHR '','' # print_members ms) @ CHR ''}'' # r"
  have lv: "length (print_json v) < f'" using "10.prems"(3) f by simp
  have rest_stop: "num_stop ?rest" by simp
  have pv: "parse_value f' d (print_json v @ ?rest) = Some (v, ?rest)"
    using "10.IH"(1) [OF wv rest_stop lv] .
  have sk: "scan_string (k @ CHR 0x22 # CHR '':'' # print_json v @ ?rest) =
      Some (k, CHR '':'' # print_json v @ ?rest)"
    using scan_string_raw [OF wk] by simp
  show ?case
  proof (cases "ms = []")
    case True
    with f pv sk show ?thesis by simp
  next
    case False
    have "length (print_members ms) + 1 < f'" using "10.prems"(3) f False by simp
    then have pm: "parse_members f' d (print_members ms @ CHR ''}'' # r) = Some (ms, r)"
      using "10.IH"(2) [OF False wms False] by simp
    from False f pv sk pm show ?thesis by simp
  qed
qed


text \<open>Every well-formed tree is read back from its printed form.\<close>

lemma json_parse_print:
  assumes "json_wf 0 v"
  shows "json_parse (print_json v) = Some v"
proof -
  have "parse_value (Suc (2 * length (print_json v))) 0 (print_json v @ []) = Some (v, [])"
    using assms by (intro parse_print(1)) simp_all
  then show ?thesis by (simp add: json_parse_def)
qed

end
