(* ===== verification/JsonDecode.thy ===== *)
theory JsonDecode
  imports GoFloat Json "HOL-Library.Monad_Syntax"
begin

text \<open>
  How encoding/json's decoder (\<open>decodeState\<close> in Go's decode.go) stores a
  parsed JSON value into a Go value, for the kinds of fields the exporter's
  document type has: strings, \<open>int\<close>s, \<open>float64\<close>s, \<open>time.Time\<close>, slices and
  structs. The rules modelled are the decoder's: \<open>null\<close> leaves a string,
  number or struct unchanged and empties a slice; a value of the wrong JSON
  kind records an \<open>UnmarshalTypeError\<close> (only the first is kept) and decoding
  goes on; an object's unknown keys are skipped; a key matches a field tag
  exactly or under Unicode case folding; a struct or slice is decoded into
  the value already there; and \<open>time.Time\<close>'s own \<open>UnmarshalJSON\<close> returns an
  error that stops the whole decode at once, leaving what was already stored
  in place. A decoder's result is a \<open>dr\<close>: \<open>Cont v e\<close> (decoding continues,
  \<open>e\<close> the first recorded error) or \<open>Stop v err\<close> (aborted, \<open>v\<close> the value as
  far as it was written).
\<close>

datatype json_error =
    SyntaxError
  | UnmarshalTypeError string
  | TimeError string

datatype 'a dr = Cont 'a "json_error option" | Stop 'a json_error

definition map_dr :: "('a \<Rightarrow> 'b) \<Rightarrow> 'a dr \<Rightarrow> 'b dr" where
  "map_dr g r = (case r of Cont v e \<Rightarrow> Cont (g v) e | Stop v err \<Rightarrow> Stop (g v) err)"

definition dr_value :: "'a dr \<Rightarrow> 'a" where
  "dr_value r = (case r of Cont v e \<Rightarrow> v | Stop v err \<Rightarrow> v)"

subsection \<open>Strings: unquoting\<close>

definition hex_val :: "char \<Rightarrow> nat" where
  "hex_val c = (if is_digit c then digit_val c else hex_letter_val c)"

text \<open>\<open>getu4\<close>: the code unit of four hex digits.\<close>

definition u4 :: "char \<Rightarrow> char \<Rightarrow> char \<Rightarrow> char \<Rightarrow> nat option" where
  "u4 h1 h2 h3 h4 =
     (if is_hex_digit h1 \<and> is_hex_digit h2 \<and> is_hex_digit h3 \<and> is_hex_digit h4
      then Some (((hex_val h1 * 16 + hex_val h2) * 16 + hex_val h3) * 16 + hex_val h4)
      else None)"

definition replacement_char :: string where
  "replacement_char = [CHR 0xEF, CHR 0xBF, CHR 0xBD]"

text \<open>\<open>utf8.EncodeRune\<close>: surrogates and values past U+10FFFF become U+FFFD.\<close>

definition utf8_encode :: "nat \<Rightarrow> string" where
  "utf8_encode r =
     (if r < 0x80 then [char_of r]
      else if r < 0x800 then [char_of (0xC0 + r div 64), char_of (0x80 + r mod 64)]
      else if (0xD800 \<le> r \<and> r < 0xE000) \<or> 0x10FFFF < r then replacement_char
      else if r < 0x10000 then
        [char_of (0xE0 + r div 4096), char_of (0x80 + (r div 64) mod 64), char_of (0x80 + r mod 64)]
      else [char_of (0xF0 + r div 262144), char_of (0x80 + (r div 4096) mod 64),
            char_of (0x80 + (r div 64) mod 64), char_of (0x80 + r mod 64)])"

definition in_range :: "char \<Rightarrow> nat \<Rightarrow> nat \<Rightarrow> bool" where
  "in_range c lo hi \<longleftrightarrow> lo \<le> of_char c \<and> of_char c \<le> hi"

text \<open>
  \<open>utf8.DecodeRune\<close>'s acceptance: the length of the well-formed UTF-8
  sequence a string starts with (no overlong forms, no surrogates, nothing past
  U+10FFFF), or \<open>None\<close> where it returns \<open>(RuneError, 1)\<close>.
\<close>

fun utf8_valid_len :: "string \<Rightarrow> nat option" where
  "utf8_valid_len [] = None"
| "utf8_valid_len (c # cs) =
     (let b = (of_char c :: nat) in
      if b < 0x80 then Some 1
      else if 0xC2 \<le> b \<and> b \<le> 0xDF then
        (case cs of c1 # _ \<Rightarrow> if in_range c1 0x80 0xBF then Some 2 else None | [] \<Rightarrow> None)
      else if 0xE0 \<le> b \<and> b \<le> 0xEF then
        (case cs of
           c1 # c2 # _ \<Rightarrow>
             if in_range c1 (if b = 0xE0 then 0xA0 else 0x80) (if b = 0xED then 0x9F else 0xBF) \<and>
                in_range c2 0x80 0xBF then Some 3 else None
         | _ \<Rightarrow> None)
      else if 0xF0 \<le> b \<and> b \<le> 0xF4 then
        (case cs of
           c1 # c2 # c3 # _ \<Rightarrow>
             if in_range c1 (if b = 0xF0 then 0x90 else 0x80) (if b = 0xF4 then 0x8F else 0xBF) \<and>
                in_range c2 0x80 0xBF \<and> in_range c3 0x80 0xBF then Some 4 else None
         | _ \<Rightarrow> None)
      else None)"

text \<open>
  \<open>unquote\<close> (decode.go's \<open>unquoteBytes\<close>, on the content between the
  quotes): escapes are interpreted, a \<open>\\u\<close> surrogate pair is combined and a
  lone surrogate becomes U+FFFD, a well-formed UTF-8 sequence is copied and a
  byte that starts none is replaced by U+FFFD.
\<close>

function unquote :: "string \<Rightarrow> string option" where
  "unquote [] = Some []"
| "unquote (c # cs) =
     (if c = CHR 0x5C then
        (case cs of
           [] \<Rightarrow> None
         | e # r \<Rightarrow>
             if e = CHR 0x22 \<or> e = CHR 0x5C \<or> e = CHR ''/'' \<or> e = CHR 0x27
             then map_option (Cons e) (unquote r)
             else if e = CHR ''b'' then map_option (Cons (CHR 0x08)) (unquote r)
             else if e = CHR ''f'' then map_option (Cons (CHR 0x0C)) (unquote r)
             else if e = CHR ''n'' then map_option (Cons (CHR 0x0A)) (unquote r)
             else if e = CHR ''r'' then map_option (Cons (CHR 0x0D)) (unquote r)
             else if e = CHR ''t'' then map_option (Cons (CHR 0x09)) (unquote r)
             else if e = CHR ''u'' then
               (case r of
                  h1 # h2 # h3 # h4 # r' \<Rightarrow>
                    (case u4 h1 h2 h3 h4 of
                       None \<Rightarrow> None
                     | Some rr \<Rightarrow>
                         if 0xD800 \<le> rr \<and> rr < 0xE000 then
                           (case r' of
                              c5 # c6 # g1 # g2 # g3 # g4 # r'' \<Rightarrow>
                                (case u4 g1 g2 g3 g4 of
                                   Some rr1 \<Rightarrow>
                                     if c5 = CHR 0x5C \<and> c6 = CHR ''u'' \<and> rr < 0xDC00 \<and>
                                        0xDC00 \<le> rr1 \<and> rr1 < 0xE000
                                     then map_option (append (utf8_encode
                                            ((rr - 0xD800) * 1024 + (rr1 - 0xDC00) + 0x10000)))
                                            (unquote r'')
                                     else map_option (append replacement_char) (unquote r')
                                 | None \<Rightarrow> map_option (append replacement_char) (unquote r'))
                            | _ \<Rightarrow> map_option (append replacement_char) (unquote r'))
                         else map_option (append (utf8_encode rr)) (unquote r'))
                | _ \<Rightarrow> None)
             else None)
      else if c = CHR 0x22 \<or> (of_char c :: nat) < 32 then None
      else if (of_char c :: nat) < 0x80 then map_option (Cons c) (unquote cs)
      else (case utf8_valid_len (c # cs) of
              Some n \<Rightarrow> map_option (append (take n (c # cs))) (unquote (drop n (c # cs)))
            | None \<Rightarrow> map_option (append replacement_char) (unquote cs)))"
  by pat_completeness auto
termination
proof (relation "measure length")
  fix c cs n
  assume "utf8_valid_len (c # cs) = Some n"
  then have "0 < n" by (auto simp: Let_def split: if_splits list.splits)
  then show "(drop n (c # cs), c # cs) \<in> measure length" by simp
qed auto

definition unquote_key :: "string \<Rightarrow> string" where
  "unquote_key k = (case unquote k of Some s \<Rightarrow> s | None \<Rightarrow> k)"

subsection \<open>Matching keys against field tags\<close>

text \<open>
  A key selects the field whose tag it equals, or else one whose tag it equals
  under Unicode simple case folding (\<open>bytes.EqualFold\<close>). The tags are ASCII;
  besides the ASCII letters of either case, the only bytes that fold onto an
  ASCII letter are the Kelvin sign U+212A (onto \<open>k\<close>) and the long s U+017F
  (onto \<open>s\<close>).
\<close>

fun fold_match :: "string \<Rightarrow> string \<Rightarrow> bool" where
  "fold_match [] key = (key = [])"
| "fold_match (t # ts) [] = False"
| "fold_match (t # ts) (k # ks) =
     (if ascii_lower_code k = of_char t then fold_match ts ks
      else if t = CHR ''s'' \<and> k = CHR 0xC5 then
        (case ks of k2 # ks' \<Rightarrow> k2 = CHR 0xBF \<and> fold_match ts ks' | [] \<Rightarrow> False)
      else if t = CHR ''k'' \<and> k = CHR 0xE2 then
        (case ks of k2 # k3 # ks' \<Rightarrow> k2 = CHR 0x84 \<and> k3 = CHR 0xAA \<and> fold_match ts ks' | _ \<Rightarrow> False)
      else False)"

definition field_match :: "string \<Rightarrow> string \<Rightarrow> bool" where
  "field_match tag key \<longleftrightarrow> key = tag \<or> fold_match tag key"

subsection \<open>Storing literals\<close>

definition json_kind :: "json \<Rightarrow> string" where
  "json_kind v = (case v of
     JNull \<Rightarrow> ''null'' | JBool _ \<Rightarrow> ''bool'' | JNumber _ \<Rightarrow> ''number'' | JString _ \<Rightarrow> ''string''
   | JArray _ \<Rightarrow> ''array'' | JObject _ \<Rightarrow> ''object'')"

definition type_error :: "'a \<Rightarrow> json \<Rightarrow> 'a dr" where
  "type_error old v = Cont old (Some (UnmarshalTypeError (json_kind v)))"

definition store_string :: "string \<Rightarrow> json \<Rightarrow> string dr" where
  "store_string old v =
     (case v of
        JNull \<Rightarrow> Cont old None
      | JString raw \<Rightarrow> (case unquote raw of Some s \<Rightarrow> Cont s None
                                        | None \<Rightarrow> Cont old (Some (UnmarshalTypeError ''string'')))
      | _ \<Rightarrow> type_error old v)"

definition store_int :: "go_int \<Rightarrow> json \<Rightarrow> go_int dr" where
  "store_int old v =
     (case v of
        JNull \<Rightarrow> Cont old None
      | JNumber t \<Rightarrow> (case ParseInt10 t of
                        (n, None) \<Rightarrow> Cont n None
                      | (_, Some _) \<Rightarrow> Cont old (Some (UnmarshalTypeError (''number '' @ t))))
      | _ \<Rightarrow> type_error old v)"

definition store_float :: "float64 \<Rightarrow> json \<Rightarrow> float64 dr" where
  "store_float old v =
     (case v of
        JNull \<Rightarrow> Cont old None
      | JNumber t \<Rightarrow> (case ParseFloat64 t of
                        (f, None) \<Rightarrow> Cont f None
                      | (_, Some _) \<Rightarrow> Cont old (Some (UnmarshalTypeError (''number '' @ t))))
      | _ \<Rightarrow> type_error old v)"

subsection \<open>time.Time\<close>

text \<open>
  A \<open>time.Time\<close> is kept as the RFC 3339 text it was read from; the zero
  time (\<open>0001-01-01T00:00:00Z\<close>) is the empty text. Its \<open>UnmarshalJSON\<close>
  gets the literal's raw bytes: \<open>null\<close> is a no-op, anything but a string is
  an error, and a string's bytes (escapes are not interpreted) are parsed by
  \<open>time.Parse\<close> with the layout \<open>RFC3339\<close>,
  the time being set to the parse's result, the zero time on failure.
\<close>

type_synonym go_time = string

definition zero_time :: go_time where
  "zero_time = []"

definition days_in_month :: "nat \<Rightarrow> nat \<Rightarrow> nat" where
  "days_in_month y m =
     (if m = 2 then (if y mod 4 = 0 \<and> (y mod 100 \<noteq> 0 \<or> y mod 400 = 0) then 29 else 28)
      else if m \<in> {4, 6, 9, 11} then 30 else 31)"

text \<open>
  The pieces of \<open>time.Parse\<close> the layout \<open>RFC3339\<close>
  (\<open>2006-01-02T15:04:05Z07:00\<close>) uses, each returning the value read and
  the rest of the input: \<open>getnum\<close> reads one or two digits (exactly two
  when \<open>fixed\<close>), \<open>skip\<close> a literal byte of the layout, the year four
  digits.
\<close>

definition getnum :: "bool \<Rightarrow> string \<Rightarrow> (nat \<times> string) option" where
  "getnum fixed s =
     (case s of
        [] \<Rightarrow> None
      | c0 # r0 \<Rightarrow>
          if \<not> is_digit c0 then None
          else (case r0 of
                  c1 # r1 \<Rightarrow> if is_digit c1 then Some (10 * digit_val c0 + digit_val c1, r1)
                             else if fixed then None else Some (digit_val c0, r0)
                | [] \<Rightarrow> if fixed then None else Some (digit_val c0, [])))"

definition skip_byte :: "char \<Rightarrow> string \<Rightarrow> string option" where
  "skip_byte c s = (case s of x # r \<Rightarrow> if x = c then Some r else None | [] \<Rightarrow> None)"

definition parse_long_year :: "string \<Rightarrow> (nat \<times> string) option" where
  "parse_long_year s =
     (if length s < 4 \<or> \<not> list_all is_digit (take 4 s) then None
      else Some (read_nat (take 4 s), drop 4 s))"

text \<open>
  A fraction after the seconds that the layout does not mention: a \<open>.\<close>
  or \<open>,\<close> and at least one digit, all of whose digits are consumed.
\<close>

definition skip_frac :: "string \<Rightarrow> string" where
  "skip_frac s =
     (case s of
        c # d # r \<Rightarrow> if (c = CHR ''.'' \<or> c = CHR '','') \<and> is_digit d then dropWhile is_digit r else s
      | _ \<Rightarrow> s)"

text \<open>
  The \<open>Z07:00\<close> zone: \<open>Z\<close>, or a sign, two hour digits, \<open>:\<close> and two
  minute digits; the range test is \<open>> 24\<close> and \<open>> 60\<close>, as in the source.
\<close>

definition parse_colon_tz :: "string \<Rightarrow> string option" where
  "parse_colon_tz s =
     (if s \<noteq> [] \<and> hd s = CHR ''Z'' then Some (tl s)
      else if length s < 6 \<or> s ! 3 \<noteq> CHR '':'' then None
      else (case (getnum True (take 2 (drop 1 s)), getnum True (take 2 (drop 4 s))) of
              (Some (hr, _), Some (mm, _)) \<Rightarrow>
                if 24 < hr \<or> 60 < mm \<or> (s ! 0 \<noteq> CHR ''+'' \<and> s ! 0 \<noteq> CHR ''-'') then None
                else Some (drop 6 s)
            | _ \<Rightarrow> None))"

text \<open>
  \<open>time.Parse(time.RFC3339, s)\<close> succeeds: the chunks of the layout in
  order, nothing left over, month, hour, minute and second in range, and the
  day valid for the month and year. \<open>Time.UnmarshalJSON\<close> falls back to
  this parse whenever its fast RFC 3339 path fails, and the stricter checks
  after the fallback are disabled in the source (\<open>case true\<close>), so this is
  exactly the set of strings it accepts: a one-digit hour, a \<open>,\<close> before
  the fraction and a zone hour of 24 are all accepted.
\<close>

definition time_Parse_RFC3339 :: "string \<Rightarrow> bool" where
  "time_Parse_RFC3339 s =
     (case do {
         (year, s) \<leftarrow> parse_long_year s;
         s \<leftarrow> skip_byte CHR ''-'' s;
         (month, s) \<leftarrow> getnum True s;
         s \<leftarrow> skip_byte CHR ''-'' s;
         (day, s) \<leftarrow> getnum True s;
         s \<leftarrow> skip_byte CHR ''T'' s;
         (hour, s) \<leftarrow> getnum False s;
         s \<leftarrow> skip_byte CHR '':'' s;
         (minute, s) \<leftarrow> getnum True s;
         s \<leftarrow> skip_byte CHR '':'' s;
         (sec, s) \<leftarrow> getnum True s;
         s \<leftarrow> parse_colon_tz (skip_frac s);
         Some ((year, month, day), (hour, minute, sec), s)
       } of
        None \<Rightarrow> False
      | Some ((year, month, day), (hour, minute, sec), rest) \<Rightarrow>
          rest = [] \<and> 1 \<le> month \<and> month \<le> 12 \<and> hour < 24 \<and> minute < 60 \<and> sec < 60 \<and>
          1 \<le> day \<and> day \<le> days_in_month year month)"

definition store_time :: "go_time \<Rightarrow> json \<Rightarrow> go_time dr" where
  "store_time old v =
     (case v of
        JNull \<Rightarrow> Cont old None
      | JString raw \<Rightarrow> if time_Parse_RFC3339 raw then Cont raw None
                      else Stop zero_time (TimeError (''parsing time '' @ raw))
      | _ \<Rightarrow> Stop old (TimeError ''Time.UnmarshalJSON: input is not a JSON string''))"

subsection \<open>Structs and slices\<close>

text \<open>
  An object is decoded into a struct member by member, in the order of the
  input; \<open>fld v key x\<close> is \<open>None\<close> for a key that names no field.
\<close>

fun decode_members ::
  "('a \<Rightarrow> string \<Rightarrow> json \<Rightarrow> 'a dr option) \<Rightarrow> 'a \<Rightarrow> json_error option \<Rightarrow>
   (string \<times> json) list \<Rightarrow> 'a dr" where
  "decode_members fld v e [] = Cont v e"
| "decode_members fld v e ((k, x) # ms) =
     (case fld v (unquote_key k) x of
        None \<Rightarrow> decode_members fld v e ms
      | Some (Cont v' e') \<Rightarrow> decode_members fld v' (first_some e e') ms
      | Some (Stop v' err) \<Rightarrow> Stop v' err)"

definition store_struct ::
  "('a \<Rightarrow> string \<Rightarrow> json \<Rightarrow> 'a dr option) \<Rightarrow> 'a \<Rightarrow> json \<Rightarrow> 'a dr" where
  "store_struct fld old v =
     (case v of
        JNull \<Rightarrow> Cont old None
      | JObject ms \<Rightarrow> decode_members fld old None ms
      | _ \<Rightarrow> type_error old v)"

text \<open>
  An array is decoded into a slice element by element: element \<open>i\<close> into the
  slice's element \<open>i\<close> if there is one, into the zero value \<open>z\<close> otherwise;
  the slice ends with the array's last element. On an abort the elements not
  reached stay as they were.
\<close>

fun decode_elems ::
  "'e \<Rightarrow> ('e \<Rightarrow> json \<Rightarrow> 'e dr) \<Rightarrow> 'e list \<Rightarrow> json_error option \<Rightarrow> json list \<Rightarrow> 'e list dr" where
  "decode_elems z dec old e [] = Cont [] e"
| "decode_elems z dec old e (x # xs) =
     (let cur = (case old of [] \<Rightarrow> z | y # _ \<Rightarrow> y); rest = tl old in
      case dec cur x of
        Cont v e' \<Rightarrow> map_dr (Cons v) (decode_elems z dec rest (first_some e e') xs)
      | Stop v err \<Rightarrow> Stop (v # rest) err)"

definition store_slice :: "'e \<Rightarrow> ('e \<Rightarrow> json \<Rightarrow> 'e dr) \<Rightarrow> 'e list \<Rightarrow> json \<Rightarrow> 'e list dr" where
  "store_slice z dec old v =
     (case v of
        JNull \<Rightarrow> Cont [] None
      | JArray xs \<Rightarrow> decode_elems z dec old None xs
      | _ \<Rightarrow> type_error old v)"

text \<open>
  \<open>json.Unmarshal(data, &v)\<close>: a syntax error leaves \<open>v\<close> untouched;
  otherwise the tree is stored into \<open>v\<close> and the result is the aborting error,
  else the first recorded one.
\<close>

definition unmarshal :: "('a \<Rightarrow> json \<Rightarrow> 'a dr) \<Rightarrow> string \<Rightarrow> 'a \<Rightarrow> 'a \<times> json_error option" where
  "unmarshal store data v =
     (case json_parse data of
        None \<Rightarrow> (v, Some SyntaxError)
      | Some j \<Rightarrow> (case store v j of Cont v' e \<Rightarrow> (v', e) | Stop v' err \<Rightarrow> (v', Some err)))"

text \<open>Bytes that a JSON string carries unescaped and unchanged.\<close>

definition plain_char :: "char \<Rightarrow> bool" where
  "plain_char c \<longleftrightarrow> 32 \<le> (of_char c :: nat) \<and> (of_char c :: nat) < 128 \<and> c \<noteq> CHR 0x22 \<and> c \<noteq> CHR 0x5C"

subsection \<open>Decoder lemmas\<close>

lemma map_dr_simps [simp]:
  "map_dr g (Cont v e) = Cont (g v) e"
  "map_dr g (Stop v err) = Stop (g v) err"
  by (simp_all add: map_dr_def)

text \<open>Printable ASCII other than quote and backslash is its own unquoting.\<close>

lemma unquote_plain: "list_all plain_char s \<Longrightarrow> unquote s = Some s"
  by (induction s) (auto simp: plain_char_def)

lemma unquote_key_plain: "list_all plain_char s \<Longrightarrow> unquote_key s = s"
  by (simp add: unquote_key_def unquote_plain)

lemma store_int_FormatInt10 [simp]: "store_int old (JNumber (FormatInt10 w)) = Cont w None"
  by (simp add: store_int_def ParseInt10_FormatInt10)

lemma store_string_plain:
  "list_all plain_char s \<Longrightarrow> store_string old (JString s) = Cont s None"
  by (simp add: store_string_def unquote_plain)

text \<open>A \<open>null\<close> leaves a string, number, time or struct as it was.\<close>

lemma store_null [simp]:
  "store_string old JNull = Cont old None" "store_int i JNull = Cont i None"
  "store_float f JNull = Cont f None" "store_time t JNull = Cont t None"
  "store_struct fld v JNull = Cont v None"
  by (simp_all add: store_string_def store_int_def store_float_def store_time_def store_struct_def)

lemma store_struct_JObject: "store_struct fld v (JObject ms) = decode_members fld v None ms"
  by (simp add: store_struct_def)

end
