(* ===== verification/Stats.thy ===== *)
theory Stats
  imports JsonDecode
begin

text \<open>
  The document type \<open>GatewayConnectionStats\<close> of
  \<open>src/exporter/ttn_exporter.go\<close> (lines 188-231) and what
  \<open>json.Unmarshal\<close> does with it. Each Go struct, the anonymous nested ones
  included, is a record whose fields keep the Go names (\<open>Min\<close>, \<open>Max\<close>,
  \<open>Median\<close> and \<open>Count\<close> of \<open>RoundTripTimes\<close> carry an \<open>rtt_\<close> prefix, as
  \<open>Min\<close> and \<open>Max\<close> are HOL constants); each has its zero value and a field
  decoder that maps the struct's JSON tags to its fields, as encoding/json
  derives it from the struct definition. \<open>Unmarshal_stats\<close> is the call
  \<open>json.Unmarshal(body, &gatewayStats)\<close> on a fresh zero value.
\<close>

subsection \<open>The document type\<close>

record versions =
  Fpga :: string
  Hal :: string
  TtnLwGatewayServer :: string

record antenna_location =
  Latitude :: float64
  Longitude :: float64
  Altitude :: go_int

record link_metrics =
  Ackr :: go_int
  Lpps :: go_int
  Rxfw :: go_int
  Rxin :: go_int
  Rxok :: go_int
  Txin :: go_int
  Txok :: go_int

record last_status =
  Time :: go_time
  BootTime :: go_time
  Versions :: versions
  AntennaLocations :: "antenna_location list"
  Ip :: "string list"
  Metrics :: link_metrics

record round_trip_times =
  rtt_Min :: string
  rtt_Max :: string
  rtt_Median :: string
  rtt_Count :: go_int

record sub_band =
  MinFrequency :: string
  MaxFrequency :: string
  DownlinkUtilizationLimit :: float64

record GatewayConnectionStats =
  ConnectedAt :: go_time
  Protocol :: string
  LastStatusReceivedAt :: go_time
  LastStatus :: last_status
  LastUplinkReceivedAt :: go_time
  UplinkCount :: string
  LastDownlinkReceivedAt :: go_time
  DownlinkCount :: string
  RoundTripTimes :: round_trip_times
  SubBands :: "sub_band list"

subsection \<open>Zero values\<close>

definition zero_versions :: versions where
  "zero_versions = \<lparr>Fpga = [], Hal = [], TtnLwGatewayServer = []\<rparr>"

definition zero_antenna_location :: antenna_location where
  "zero_antenna_location = \<lparr>Latitude = Finite 0, Longitude = Finite 0, Altitude = 0\<rparr>"

definition zero_link_metrics :: link_metrics where
  "zero_link_metrics = \<lparr>Ackr = 0, Lpps = 0, Rxfw = 0, Rxin = 0, Rxok = 0, Txin = 0, Txok = 0\<rparr>"

definition zero_last_status :: last_status where
  "zero_last_status =
     \<lparr>Time = zero_time, BootTime = zero_time, Versions = zero_versions, AntennaLocations = [],
      Ip = [], Metrics = zero_link_metrics\<rparr>"

definition zero_round_trip_times :: round_trip_times where
  "zero_round_trip_times = \<lparr>rtt_Min = [], rtt_Max = [], rtt_Median = [], rtt_Count = 0\<rparr>"

definition zero_sub_band :: sub_band where
  "zero_sub_band = \<lparr>MinFrequency = [], MaxFrequency = [], DownlinkUtilizationLimit = Finite 0\<rparr>"

definition zero_stats :: GatewayConnectionStats where
  "zero_stats =
     \<lparr>ConnectedAt = zero_time, Protocol = [], LastStatusReceivedAt = zero_time,
      LastStatus = zero_last_status, LastUplinkReceivedAt = zero_time, UplinkCount = [],
      LastDownlinkReceivedAt = zero_time, DownlinkCount = [],
      RoundTripTimes = zero_round_trip_times, SubBands = []\<rparr>"

subsection \<open>Field decoders, from the struct tags\<close>

definition versions_field :: "versions \<Rightarrow> string \<Rightarrow> json \<Rightarrow> versions dr option" where
  "versions_field v k x =
     (if field_match ''fpga'' k then Some (map_dr (\<lambda>s. v\<lparr>Fpga := s\<rparr>) (store_string (Fpga v) x))
      else if field_match ''hal'' k then Some (map_dr (\<lambda>s. v\<lparr>Hal := s\<rparr>) (store_string (Hal v) x))
      else if field_match ''ttn-lw-gateway-server'' k then
        Some (map_dr (\<lambda>s. v\<lparr>TtnLwGatewayServer := s\<rparr>) (store_string (TtnLwGatewayServer v) x))
      else None)"

definition antenna_location_field ::
  "antenna_location \<Rightarrow> string \<Rightarrow> json \<Rightarrow> antenna_location dr option" where
  "antenna_location_field a k x =
     (if field_match ''latitude'' k then
        Some (map_dr (\<lambda>f. a\<lparr>Latitude := f\<rparr>) (store_float (Latitude a) x))
      else if field_match ''longitude'' k then
        Some (map_dr (\<lambda>f. a\<lparr>Longitude := f\<rparr>) (store_float (Longitude a) x))
      else if field_match ''altitude'' k then
        Some (map_dr (\<lambda>n. a\<lparr>Altitude := n\<rparr>) (store_int (Altitude a) x))
      else None)"

definition link_metrics_field :: "link_metrics \<Rightarrow> string \<Rightarrow> json \<Rightarrow> link_metrics dr option" where
  "link_metrics_field m k x =
     (if field_match ''ackr'' k then Some (map_dr (\<lambda>n. m\<lparr>Ackr := n\<rparr>) (store_int (Ackr m) x))
      else if field_match ''lpps'' k then Some (map_dr (\<lambda>n. m\<lparr>Lpps := n\<rparr>) (store_int (Lpps m) x))
      else if field_match ''rxfw'' k then Some (map_dr (\<lambda>n. m\<lparr>Rxfw := n\<rparr>) (store_int (Rxfw m) x))
      else if field_match ''rxin'' k then Some (map_dr (\<lambda>n. m\<lparr>Rxin := n\<rparr>) (store_int (Rxin m) x))
      else if field_match ''rxok'' k then Some (map_dr (\<lambda>n. m\<lparr>Rxok := n\<rparr>) (store_int (Rxok m) x))
      else if field_match ''txin'' k then Some (map_dr (\<lambda>n. m\<lparr>Txin := n\<rparr>) (store_int (Txin m) x))
      else if field_match ''txok'' k then Some (map_dr (\<lambda>n. m\<lparr>Txok := n\<rparr>) (store_int (Txok m) x))
      else None)"

definition last_status_field :: "last_status \<Rightarrow> string \<Rightarrow> json \<Rightarrow> last_status dr option" where
  "last_status_field l k x =
     (if field_match ''time'' k then Some (map_dr (\<lambda>t. l\<lparr>Time := t\<rparr>) (store_time (Time l) x))
      else if field_match ''boot_time'' k then
        Some (map_dr (\<lambda>t. l\<lparr>BootTime := t\<rparr>) (store_time (BootTime l) x))
      else if field_match ''versions'' k then
        Some (map_dr (\<lambda>v. l\<lparr>Versions := v\<rparr>) (store_struct versions_field (Versions l) x))
      else if field_match ''antenna_locations'' k then
        Some (map_dr (\<lambda>as. l\<lparr>AntennaLocations := as\<rparr>)
          (store_slice zero_antenna_location (store_struct antenna_location_field)
             (AntennaLocations l) x))
      else if field_match ''ip'' k then
        Some (map_dr (\<lambda>ips. l\<lparr>Ip := ips\<rparr>) (store_slice [] store_string (Ip l) x))
      else if field_match ''metrics'' k then
        Some (map_dr (\<lambda>m. l\<lparr>Metrics := m\<rparr>) (store_struct link_metrics_field (Metrics l) x))
      else None)"

definition round_trip_times_field ::
  "round_trip_times \<Rightarrow> string \<Rightarrow> json \<Rightarrow> round_trip_times dr option" where
  "round_trip_times_field r k x =
     (if field_match ''min'' k then Some (map_dr (\<lambda>s. r\<lparr>rtt_Min := s\<rparr>) (store_string (rtt_Min r) x))
      else if field_match ''max'' k then
        Some (map_dr (\<lambda>s. r\<lparr>rtt_Max := s\<rparr>) (store_string (rtt_Max r) x))
      else if field_match ''median'' k then
        Some (map_dr (\<lambda>s. r\<lparr>rtt_Median := s\<rparr>) (store_string (rtt_Median r) x))
      else if field_match ''count'' k then
        Some (map_dr (\<lambda>n. r\<lparr>rtt_Count := n\<rparr>) (store_int (rtt_Count r) x))
      else None)"

definition sub_band_field :: "sub_band \<Rightarrow> string \<Rightarrow> json \<Rightarrow> sub_band dr option" where
  "sub_band_field b k x =
     (if field_match ''min_frequency'' k then
        Some (map_dr (\<lambda>s. b\<lparr>MinFrequency := s\<rparr>) (store_string (MinFrequency b) x))
      else if field_match ''max_frequency'' k then
        Some (map_dr (\<lambda>s. b\<lparr>MaxFrequency := s\<rparr>) (store_string (MaxFrequency b) x))
      else if field_match ''downlink_utilization_limit'' k then
        Some (map_dr (\<lambda>f. b\<lparr>DownlinkUtilizationLimit := f\<rparr>)
          (store_float (DownlinkUtilizationLimit b) x))
      else None)"

definition stats_field ::
  "GatewayConnectionStats \<Rightarrow> string \<Rightarrow> json \<Rightarrow> GatewayConnectionStats dr option" where
  "stats_field g k x =
     (if field_match ''connected_at'' k then
        Some (map_dr (\<lambda>t. g\<lparr>ConnectedAt := t\<rparr>) (store_time (ConnectedAt g) x))
      else if field_match ''protocol'' k then
        Some (map_dr (\<lambda>s. g\<lparr>Protocol := s\<rparr>) (store_string (Protocol g) x))
      else if field_match ''last_status_received_at'' k then
        Some (map_dr (\<lambda>t. g\<lparr>LastStatusReceivedAt := t\<rparr>) (store_time (LastStatusReceivedAt g) x))
      else if field_match ''last_status'' k then
        Some (map_dr (\<lambda>l. g\<lparr>LastStatus := l\<rparr>) (store_struct last_status_field (LastStatus g) x))
      else if field_match ''last_uplink_received_at'' k then
        Some (map_dr (\<lambda>t. g\<lparr>LastUplinkReceivedAt := t\<rparr>) (store_time (LastUplinkReceivedAt g) x))
      else if field_match ''uplink_count'' k then
        Some (map_dr (\<lambda>s. g\<lparr>UplinkCount := s\<rparr>) (store_string (UplinkCount g) x))
      else if field_match ''last_downlink_received_at'' k then
        Some (map_dr (\<lambda>t. g\<lparr>LastDownlinkReceivedAt := t\<rparr>)
          (store_time (LastDownlinkReceivedAt g) x))
      else if field_match ''downlink_count'' k then
        Some (map_dr (\<lambda>s. g\<lparr>DownlinkCount := s\<rparr>) (store_string (DownlinkCount g) x))
      else if field_match ''round_trip_times'' k then
        Some (map_dr (\<lambda>r. g\<lparr>RoundTripTimes := r\<rparr>)
          (store_struct round_trip_times_field (RoundTripTimes g) x))
      else if field_match ''sub_bands'' k then
        Some (map_dr (\<lambda>bs. g\<lparr>SubBands := bs\<rparr>)
          (store_slice zero_sub_band (store_struct sub_band_field) (SubBands g) x))
      else None)"

definition store_stats :: "GatewayConnectionStats \<Rightarrow> json \<Rightarrow> GatewayConnectionStats dr" where
  "store_stats = store_struct stats_field"

text \<open>\<open>var gatewayStats GatewayConnectionStats; json.Unmarshal(body, &gatewayStats)\<close>.\<close>

definition Unmarshal_stats :: "string \<Rightarrow> GatewayConnectionStats \<times> json_error option" where
  "Unmarshal_stats body = unmarshal store_stats body zero_stats"

subsection \<open>Encoding\<close>

text \<open>
  What \<open>json.Marshal\<close> writes for the metrics struct (an \<open>int\<close> field as
  its decimal \<open>FormatInt\<close> text), and a response document carrying the
  counters the exporter reads: the counts as decimal strings, as the Things
  Stack API writes its 64-bit counters, and the link metrics.
\<close>

definition metrics_json :: "link_metrics \<Rightarrow> json" where
  "metrics_json m = JObject
     [(''ackr'', JNumber (FormatInt10 (Ackr m))), (''lpps'', JNumber (FormatInt10 (Lpps m))),
      (''rxfw'', JNumber (FormatInt10 (Rxfw m))), (''rxin'', JNumber (FormatInt10 (Rxin m))),
      (''rxok'', JNumber (FormatInt10 (Rxok m))), (''txin'', JNumber (FormatInt10 (Txin m))),
      (''txok'', JNumber (FormatInt10 (Txok m)))]"

definition counts_json :: "nat \<Rightarrow> nat \<Rightarrow> link_metrics \<Rightarrow> json" where
  "counts_json u d m = JObject
     [(''uplink_count'', JString (show_nat u)), (''downlink_count'', JString (show_nat d)),
      (''last_status'', JObject [(''metrics'', metrics_json m)])]"

subsection \<open>Lemmas: encoded values are well formed\<close>

lemma plain_raw_string_ok: "list_all plain_char s \<Longrightarrow> raw_string_ok s"
  by (induction s) (auto simp: plain_char_def)

lemma digit_plain: "is_digit c \<Longrightarrow> plain_char c"
  by (auto simp: is_digit_def plain_char_def)

lemma show_nat_plain: "list_all plain_char (show_nat n)"
  by (simp add: list_all_iff digit_plain show_nat_digits)

lemma span_digits_all: "list_all is_digit r \<Longrightarrow> span_digits r = (r, [])"
  by (induction r) auto

lemma show_nat_zero: "show_nat 0 = ''0''"
  by (simp add: show_nat_def decimal_digits.simps digit_chars_def)

lemma scan_unsigned_show_nat: "scan_unsigned (show_nat n) = Some (show_nat n, [])"
proof (cases "show_nat n")
  case Nil
  then show ?thesis by simp
next
  case (Cons c r)
  have dr: "list_all is_digit r" using show_nat_digits [of _ n] Cons by (simp add: list_all_iff)
  have dc: "is_digit c" using show_nat_hd_digit [of n] Cons by simp
  show ?thesis
  proof (cases "c = CHR ''0''")
    case True
    then have "n = 0" using hd_show_nat [of n] Cons by (cases n) simp_all
    then show ?thesis by (simp add: show_nat_zero scan_unsigned_def scan_fraction_def)
  next
    case False
    with Cons dc dr show ?thesis by (simp add: scan_unsigned_def span_digits_all scan_fraction_def)
  qed
qed

lemma scan_number_show_nat: "scan_number (show_nat n) = Some (show_nat n, [])"
proof -
  obtain c r where cr: "show_nat n = c # r" using show_nat_ne [of n] by (cases "show_nat n") auto
  then have "c \<noteq> CHR ''-''" using show_nat_not_sign(2) [of n] by simp
  then show ?thesis using scan_unsigned_show_nat [of n] by (simp add: scan_number_def cr)
qed

lemma number_ok_FormatInt10: "number_ok (FormatInt10 w)"
  by (simp add: number_ok_def FormatInt10_def scan_number_show_nat)
    (simp add: scan_number_def scan_unsigned_show_nat)

subsection \<open>Lemmas: field selection by tag\<close>

lemma link_metrics_field_tags:
  "link_metrics_field m ''ackr'' x = Some (map_dr (\<lambda>n. m\<lparr>Ackr := n\<rparr>) (store_int (Ackr m) x))"
  "link_metrics_field m ''lpps'' x = Some (map_dr (\<lambda>n. m\<lparr>Lpps := n\<rparr>) (store_int (Lpps m) x))"
  "link_metrics_field m ''rxfw'' x = Some (map_dr (\<lambda>n. m\<lparr>Rxfw := n\<rparr>) (store_int (Rxfw m) x))"
  "link_metrics_field m ''rxin'' x = Some (map_dr (\<lambda>n. m\<lparr>Rxin := n\<rparr>) (store_int (Rxin m) x))"
  "link_metrics_field m ''rxok'' x = Some (map_dr (\<lambda>n. m\<lparr>Rxok := n\<rparr>) (store_int (Rxok m) x))"
  "link_metrics_field m ''txin'' x = Some (map_dr (\<lambda>n. m\<lparr>Txin := n\<rparr>) (store_int (Txin m) x))"
  "link_metrics_field m ''txok'' x = Some (map_dr (\<lambda>n. m\<lparr>Txok := n\<rparr>) (store_int (Txok m) x))"
  by (simp_all add: link_metrics_field_def field_match_def ascii_lower_code_def)

lemma last_status_field_tags:
  "last_status_field l ''time'' x = Some (map_dr (\<lambda>t. l\<lparr>Time := t\<rparr>) (store_time (Time l) x))"
  "last_status_field l ''boot_time'' x =
     Some (map_dr (\<lambda>t. l\<lparr>BootTime := t\<rparr>) (store_time (BootTime l) x))"
  "last_status_field l ''versions'' x =
     Some (map_dr (\<lambda>v. l\<lparr>Versions := v\<rparr>) (store_struct versions_field (Versions l) x))"
  "last_status_field l ''antenna_locations'' x =
     Some (map_dr (\<lambda>as. l\<lparr>AntennaLocations := as\<rparr>)
       (store_slice zero_antenna_location (store_struct antenna_location_field) (AntennaLocations l) x))"
  "last_status_field l ''ip'' x = Some (map_dr (\<lambda>ips. l\<lparr>Ip := ips\<rparr>) (store_slice [] store_string (Ip l) x))"
  "last_status_field l ''metrics'' x =
     Some (map_dr (\<lambda>m. l\<lparr>Metrics := m\<rparr>) (store_struct link_metrics_field (Metrics l) x))"
  by (simp_all add: last_status_field_def field_match_def ascii_lower_code_def)

lemma stats_field_tags:
  "stats_field g ''connected_at'' x =
     Some (map_dr (\<lambda>t. g\<lparr>ConnectedAt := t\<rparr>) (store_time (ConnectedAt g) x))"
  "stats_field g ''protocol'' x = Some (map_dr (\<lambda>s. g\<lparr>Protocol := s\<rparr>) (store_string (Protocol g) x))"
  "stats_field g ''last_status_received_at'' x =
     Some (map_dr (\<lambda>t. g\<lparr>LastStatusReceivedAt := t\<rparr>) (store_time (LastStatusReceivedAt g) x))"
  "stats_field g ''last_status'' x =
     Some (map_dr (\<lambda>l. g\<lparr>LastStatus := l\<rparr>) (store_struct last_status_field (LastStatus g) x))"
  "stats_field g ''last_uplink_received_at'' x =
     Some (map_dr (\<lambda>t. g\<lparr>LastUplinkReceivedAt := t\<rparr>) (store_time (LastUplinkReceivedAt g) x))"
  "stats_field g ''uplink_count'' x =
     Some (map_dr (\<lambda>s. g\<lparr>UplinkCount := s\<rparr>) (store_string (UplinkCount g) x))"
  "stats_field g ''last_downlink_received_at'' x =
     Some (map_dr (\<lambda>t. g\<lparr>LastDownlinkReceivedAt := t\<rparr>) (store_time (LastDownlinkReceivedAt g) x))"
  "stats_field g ''downlink_count'' x =
     Some (map_dr (\<lambda>s. g\<lparr>DownlinkCount := s\<rparr>) (store_string (DownlinkCount g) x))"
  "stats_field g ''round_trip_times'' x =
     Some (map_dr (\<lambda>r. g\<lparr>RoundTripTimes := r\<rparr>)
       (store_struct round_trip_times_field (RoundTripTimes g) x))"
  "stats_field g ''sub_bands'' x =
     Some (map_dr (\<lambda>bs. g\<lparr>SubBands := bs\<rparr>)
       (store_slice zero_sub_band (store_struct sub_band_field) (SubBands g) x))"
  by (simp_all add: stats_field_def field_match_def ascii_lower_code_def)

subsection \<open>Lemmas: decoding encoded documents\<close>

lemma store_metrics_json: "store_struct link_metrics_field old (metrics_json m) = Cont m None"
  by (simp add: store_struct_def metrics_json_def link_metrics_field_tags unquote_key_plain plain_char_def)

lemma counts_json_wf: "json_wf 0 (counts_json u d m)"
  by (simp add: counts_json_def metrics_json_def number_ok_FormatInt10 plain_raw_string_ok
      show_nat_plain maxNestingDepth_def)

lemma Unmarshal_counts_json:
  "Unmarshal_stats (print_json (counts_json u d m)) =
     (zero_stats\<lparr>UplinkCount := show_nat u, DownlinkCount := show_nat d,
                 LastStatus := zero_last_status\<lparr>Metrics := m\<rparr>\<rparr>, None)"
proof -
  have p: "json_parse (print_json (counts_json u d m)) = Some (counts_json u d m)"
    by (rule json_parse_print [OF counts_json_wf])
  have "store_stats zero_stats (counts_json u d m) =
     Cont (zero_stats\<lparr>UplinkCount := show_nat u, DownlinkCount := show_nat d,
                 LastStatus := zero_last_status\<lparr>Metrics := m\<rparr>\<rparr>) None"
    by (simp add: store_stats_def store_struct_JObject counts_json_def stats_field_tags
        last_status_field_tags unquote_key_plain plain_char_def store_string_plain show_nat_plain
        store_metrics_json zero_stats_def)
  then show ?thesis by (simp add: Unmarshal_stats_def unmarshal_def p)
qed

subsection \<open>Lemmas: decoding a response body\<close>

lemma Unmarshal_stats_syntax:
  "json_parse body = None \<Longrightarrow> Unmarshal_stats body = (zero_stats, Some SyntaxError)"
  by (simp add: Unmarshal_stats_def unmarshal_def)

lemma Unmarshal_members:
  assumes "json_wf 0 (JObject ms)"
  shows "Unmarshal_stats (print_json (JObject ms)) =
    (case decode_members stats_field zero_stats None ms of Cont v e \<Rightarrow> (v, e) | Stop v err \<Rightarrow> (v, Some err))"
  unfolding Unmarshal_stats_def unmarshal_def json_parse_print [OF assms]
  by (simp add: store_stats_def store_struct_JObject)

lemma stats_keys:
  "unquote_key ''uplink_count'' = ''uplink_count''" "unquote_key ''connected_at'' = ''connected_at''"
  "unquote_key ''last_status'' = ''last_status''" "unquote_key ''metrics'' = ''metrics''"
  by (simp_all add: unquote_key_plain plain_char_def)

subsection \<open>Properties of decoding\<close>

text \<open>
  C19. Decoding inverts encoding for the link metrics: a body carrying
  \<open>last_status.metrics\<close> as \<open>json.Marshal\<close> writes it decodes, without
  error, to exactly those seven \<open>int\<close>s, for every 64-bit value including
  the extremes.
\<close>

theorem Unmarshal_metrics_roundtrip:
  "Unmarshal_stats (print_json (JObject [(''last_status'', JObject [(''metrics'', metrics_json m)])])) =
     (zero_stats\<lparr>LastStatus := zero_last_status\<lparr>Metrics := m\<rparr>\<rparr>, None)"
proof -
  have wf: "json_wf 0 (JObject [(''last_status'', JObject [(''metrics'', metrics_json m)])])"
    by (simp add: metrics_json_def number_ok_FormatInt10 maxNestingDepth_def)
  show ?thesis
    unfolding Unmarshal_members [OF wf]
    by (simp add: stats_field_tags last_status_field_tags stats_keys store_struct_JObject store_metrics_json
        zero_stats_def)
qed

end
