(* ===== verification/Collector.thy ===== *)
theory Collector
  imports Descriptors Stats
begin

text \<open>
  One scrape: \<open>ttnCollector.Collect\<close> (\<open>src/exporter/ttn_exporter.go\<close>,
  lines 99-178). The collector builds the request URL from the gateway ID,
  builds a GET request with a bearer token, sends it with a fresh
  \<open>http.Client\<close>, reads the body, decodes it into a
  \<open>GatewayConnectionStats\<close> and sends const gauge metrics on the channel.
  The server and the network are a parameter, a function from the request
  to what they do with it (\<open>http_outcome\<close>); \<open>client_Do\<close> models what
  the client makes of that (its header check, its \<open>*url.Error\<close>s, the
  redirect limit, the missing timeout) and \<open>ReadAll\<close> what reading the
  body gives. The result of \<open>Collect\<close> is the sequence of its observable
  effects (metrics sent, log lines written) in program order, and how the
  call ended: it returns, panics, or never returns.
\<close>

subsection \<open>Requests\<close>

record http_request =
  req_method :: string
  req_url :: string
  req_header :: "(string \<times> string) list"

text \<open>A control byte, as \<open>net/url\<close> and \<open>httpguts\<close> test it.\<close>

definition ctl_byte :: "char \<Rightarrow> bool" where
  "ctl_byte c \<longleftrightarrow> (of_char c :: nat) < 32 \<or> (of_char c :: nat) = 127"

text \<open>
  \<open>net/url.unescape\<close>'s check in path and fragment mode: every \<open>%\<close> is
  followed by two hex digits.
\<close>

fun escapes_ok :: "string \<Rightarrow> bool" where
  "escapes_ok [] = True"
| "escapes_ok (c # cs) =
     (if c = CHR ''%'' then
        (case cs of h1 # h2 # r \<Rightarrow> is_hex_digit h1 \<and> is_hex_digit h2 \<and> escapes_ok r | _ \<Rightarrow> False)
      else escapes_ok cs)"

text \<open>
  \<open>url.Parse\<close> accepts an absolute URL whose scheme and authority hold no
  \<open>%\<close> (the exporter's URL always starts with
  \<open>https://eu1.cloud.thethings.network/\<close>) exactly when the part before the
  first \<open>#\<close> has no control byte, its part before the first \<open>?\<close> (the path,
  after the authority) has only well-formed escapes, and so has the fragment
  after the \<open>#\<close>. The query is not checked.
\<close>

definition url_Parse_ok :: "string \<Rightarrow> bool" where
  "url_Parse_ok raw =
     (let u = takeWhile (\<lambda>c. c \<noteq> CHR ''#'') raw;
          frag = drop (Suc (length u)) raw;
          rest = takeWhile (\<lambda>c. c \<noteq> CHR ''?'') u
      in \<not> list_ex ctl_byte u \<and> escapes_ok rest \<and> escapes_ok frag)"

text \<open>\<open>http.NewRequest\<close>: \<open>None\<close> is the \<open>(nil, err)\<close> it returns when the URL does not parse.\<close>

definition NewRequest :: "string \<Rightarrow> string \<Rightarrow> http_request option" where
  "NewRequest method url =
     (if url_Parse_ok url then Some \<lparr>req_method = method, req_url = url, req_header = []\<rparr>
      else None)"

definition Header_Add :: "string \<Rightarrow> string \<Rightarrow> http_request \<Rightarrow> http_request" where
  "Header_Add k v req = req\<lparr>req_header := req_header req @ [(k, v)]\<rparr>"

text \<open>\<open>httpguts.ValidHeaderFieldValue\<close>: no control byte other than a tab.\<close>

definition ValidHeaderFieldValue :: "string \<Rightarrow> bool" where
  "ValidHeaderFieldValue v \<longleftrightarrow> list_all (\<lambda>c. \<not> ctl_byte c \<or> c = CHR 0x09) v"

subsection \<open>URLs in error messages\<close>

text \<open>
  The \<open>*url.Error\<close> that \<open>client.Do\<close> returns prints as
  \<open>Op "URL": err\<close>, the URL being \<open>URL.String()\<close> of the parsed
  request URL quoted with \<open>%q\<close>. \<open>String()\<close> re-escapes the path and
  the fragment: each is kept as written when \<open>validEncoded\<close> accepts it,
  otherwise it is unescaped and escaped again with \<open>shouldEscape\<close>. The
  two \<open>net/url\<close> encodings that take part are \<open>encodePath\<close> and
  \<open>encodeFragment\<close>.
\<close>

datatype url_encoding = EncodePath | EncodeFragment

definition is_alnum :: "char \<Rightarrow> bool" where
  "is_alnum c \<longleftrightarrow> is_digit c \<or> (97 \<le> (of_char c :: nat) \<and> (of_char c :: nat) \<le> 122) \<or>
                  (65 \<le> (of_char c :: nat) \<and> (of_char c :: nat) \<le> 90)"

definition shouldEscape :: "char \<Rightarrow> url_encoding \<Rightarrow> bool" where
  "shouldEscape c mode =
     (if is_alnum c \<or> c \<in> set ''-_.~'' then False
      else if c \<in> set ''$&+,/:;=?@'' then (mode = EncodePath \<and> c = CHR ''?'')
      else if mode = EncodeFragment \<and> c \<in> set ''!()*'' then False
      else True)"

definition validEncoded :: "string \<Rightarrow> url_encoding \<Rightarrow> bool" where
  "validEncoded s mode = list_all (\<lambda>c. c \<in> set ''!$&()*+,;=:@[]%'' \<or> c = CHR 0x27 \<or> \<not> shouldEscape c mode) s"

definition upperhex :: "nat \<Rightarrow> char" where
  "upperhex n = ''0123456789ABCDEF'' ! n"

definition url_escape :: "string \<Rightarrow> url_encoding \<Rightarrow> string" where
  "url_escape s mode =
     concat (map (\<lambda>c. if shouldEscape c mode
                       then [CHR ''%'', upperhex (of_char c div 16), upperhex (of_char c mod 16)]
                       else [c]) s)"

text \<open>\<open>url.unescape\<close> on text that \<open>url.Parse\<close> accepted (\<open>escapes_ok\<close>).\<close>

fun url_unescape :: "string \<Rightarrow> string" where
  "url_unescape (c # h1 # h2 # r) =
     (if c = CHR ''%'' then char_of (16 * hex_val h1 + hex_val h2) # url_unescape r
      else c # url_unescape (h1 # h2 # r))"
| "url_unescape cs = cs"

text \<open>\<open>EscapedPath\<close> and \<open>EscapedFragment\<close> of the part as written.\<close>

definition escaped_part :: "url_encoding \<Rightarrow> string \<Rightarrow> string" where
  "escaped_part mode raw = (if validEncoded raw mode then raw else url_escape (url_unescape raw) mode)"

text \<open>
  \<open>URL.String()\<close> of a URL that \<open>url.Parse\<close> accepted, for an absolute
  URL with a lower-case scheme and a host that needs no escaping (as the
  exporter's always has): the scheme and authority as written, the escaped
  path, the raw query after a \<open>?\<close> if there was one, and the escaped
  fragment if it is not empty.
\<close>

definition url_authority_len :: "string \<Rightarrow> nat" where
  "url_authority_len s =
     (let n = length (takeWhile (\<lambda>c. c \<noteq> CHR ''/'') s) + 2
      in n + length (takeWhile (\<lambda>c. c \<noteq> CHR ''/'') (drop n s)))"

definition url_String :: "string \<Rightarrow> string" where
  "url_String raw =
     (let u = takeWhile (\<lambda>c. c \<noteq> CHR ''#'') raw;
          frag = drop (Suc (length u)) raw;
          rest = takeWhile (\<lambda>c. c \<noteq> CHR ''?'') u;
          n = url_authority_len rest
      in take n rest @ escaped_part EncodePath (drop n rest) @
         (if CHR ''?'' \<in> set u then CHR ''?'' # drop (Suc (length rest)) u else []) @
         (if frag = [] then [] else CHR ''#'' # escaped_part EncodeFragment frag))"

text \<open>
  \<open>strconv.Quote\<close>, which \<open>%q\<close> uses: the quote and the backslash are
  escaped, printable ASCII is kept, the C escapes \<open>\a \b \f \n \r \t \v\<close>
  are used, other control bytes and bytes that start no valid UTF-8 sequence
  become \<open>\xNN\<close>. A valid multi-byte sequence is kept: every non-ASCII rune
  is taken as printable (\<open>unicode.IsPrint\<close>'s tables are not modelled).
\<close>

definition lowerhex :: "nat \<Rightarrow> char" where
  "lowerhex n = ''0123456789abcdef'' ! n"

definition quote_byte :: "char \<Rightarrow> string" where
  "quote_byte c =
     (let n = (of_char c :: nat); bs = CHR 0x5C in
      if c = CHR 0x22 \<or> c = bs then [bs, c]
      else if 32 \<le> n \<and> n < 127 then [c]
      else if n = 7 then [bs, CHR ''a''] else if n = 8 then [bs, CHR ''b'']
      else if n = 12 then [bs, CHR ''f''] else if n = 10 then [bs, CHR ''n'']
      else if n = 13 then [bs, CHR ''r''] else if n = 9 then [bs, CHR ''t'']
      else if n = 11 then [bs, CHR ''v'']
      else [bs, CHR ''x'', lowerhex (n div 16), lowerhex (n mod 16)])"

fun quote_body :: "string \<Rightarrow> string" where
  "quote_body [] = []"
| "quote_body (c # cs) =
     (if (of_char c :: nat) < 128 then quote_byte c @ quote_body cs
      else (case utf8_valid_len (c # cs) of
              Some k \<Rightarrow> c # take (k - 1) cs @ quote_body (drop (k - 1) cs)
            | None \<Rightarrow> quote_byte c @ quote_body cs))"

definition go_Quote :: "string \<Rightarrow> string" where
  "go_Quote s = CHR 0x22 # quote_body s @ [CHR 0x22]"

text \<open>\<open>url.Error.Error()\<close> and \<open>urlErrorOp\<close> (\<open>GET\<close> gives \<open>Get\<close>).\<close>

definition url_Error :: "string \<Rightarrow> string \<Rightarrow> string \<Rightarrow> string" where
  "url_Error op u err = op @ CHR '' '' # go_Quote u @ '': '' @ err"

definition ascii_lower :: "char \<Rightarrow> char" where
  "ascii_lower c = (if 65 \<le> (of_char c :: nat) \<and> (of_char c :: nat) \<le> 90 then char_of (of_char c + 32 :: nat) else c)"

definition urlErrorOp :: "string \<Rightarrow> string" where
  "urlErrorOp m =
     (case m of [] \<Rightarrow> ''Get''
      | c # cs \<Rightarrow> if list_all (\<lambda>x. (of_char x :: nat) < 128) m then c # map ascii_lower cs else m)"

subsection \<open>The client and the network\<close>

text \<open>
  What the server and the network do with the request, the environment of
  \<open>client.Do\<close>:
  \<^item> \<open>TransportError cause\<close>: the round trip fails (no connection, TLS or
    DNS failure, a \<open>Location\<close> that does not parse, ...);
  \<^item> \<open>RedirectRefused status loc kind\<close>: the server keeps redirecting; the
    default \<open>CheckRedirect\<close> refuses the redirect to \<open>loc\<close> after ten
    hops, and the last response, of the given status, has a body of the
    given kind;
  \<^item> \<open>Response status body rerr\<close>: a response whose body yields the bytes
    \<open>body\<close> and then the read error \<open>rerr\<close>, if any;
  \<^item> \<open>Stalls\<close>: the server accepts the request and never sends the
    response headers.

  The kind of a response body matters once the client has closed it:
  \<open>NoBody\<close> (the response declared no content), an HTTP/1 body and an
  HTTP/2 body.
\<close>

datatype body_kind = NoBody | H1Body | H2Body

datatype http_outcome =
    TransportError string
  | RedirectRefused nat string body_kind
  | Response nat string "string option"
  | Stalls

type_synonym network = "http_request \<Rightarrow> http_outcome"

text \<open>
  The \<open>resp.Body\<close> that \<open>Do\<close> hands back: still open, or closed by the
  client; and \<open>ioutil.ReadAll\<close> on it. Reading a closed HTTP/1 body gives
  \<open>http: read on closed response body\<close>, a closed HTTP/2 body
  \<open>http2: response body closed\<close>; \<open>http.NoBody\<close> is at EOF.
\<close>

datatype resp_body = BodyStream string "string option" | BodyClosed body_kind

record http_response =
  StatusCode :: nat
  Body :: resp_body

primrec closed_read :: "body_kind \<Rightarrow> string option" where
  "closed_read NoBody = None"
| "closed_read H1Body = Some ''http: read on closed response body''"
| "closed_read H2Body = Some ''http2: response body closed''"

primrec ReadAll :: "resp_body \<Rightarrow> string \<times> string option" where
  "ReadAll (BodyStream bs rerr) = (bs, rerr)"
| "ReadAll (BodyClosed k) = ([], closed_read k)"

text \<open>
  An \<open>http.Client\<close>, of which only \<open>Timeout\<close> matters here (0: no
  timeout), and what \<open>Do\<close> gives: a response or nil and an error or nil,
  or no return at all.
\<close>

record http_Client =
  Timeout :: nat

datatype do_result = DoReturn "http_response option" "string option" | DoBlocks

text \<open>
  \<open>client.Do\<close>: before anything is sent the transport refuses a header
  value with a control byte, naming the header; a failed round trip, a
  refused redirect and a timeout are wrapped in a \<open>*url.Error\<close>, with the
  request URL, or the refused \<open>Location\<close> for a redirect; after a refused
  redirect the last response comes back too, its body closed. A server that
  never answers blocks a client without timeout; with a timeout the request
  fails when it expires.
\<close>

definition client_Do :: "http_Client \<Rightarrow> network \<Rightarrow> http_request \<Rightarrow> do_result" where
  "client_Do cl net req =
     (let op = urlErrorOp (req_method req);
          fail = (\<lambda>err. DoReturn None (Some (url_Error op (url_String (req_url req)) err)));
          bad = filter (\<lambda>(k, v). \<not> ValidHeaderFieldValue v) (req_header req)
      in if bad \<noteq> [] then fail (''net/http: invalid header field value for '' @ go_Quote (fst (hd bad)))
         else (case net req of
                 TransportError cause \<Rightarrow> fail cause
               | RedirectRefused st loc k \<Rightarrow>
                   DoReturn (Some \<lparr>StatusCode = st, Body = BodyClosed k\<rparr>)
                            (Some (url_Error op loc ''stopped after 10 redirects''))
               | Response st body rerr \<Rightarrow>
                   DoReturn (Some \<lparr>StatusCode = st, Body = BodyStream body rerr\<rparr>) None
               | Stalls \<Rightarrow>
                   if Timeout cl = 0 then DoBlocks
                   else fail ''context deadline exceeded (Client.Timeout exceeded while awaiting headers)''))"

subsection \<open>Metrics and effects\<close>

datatype value_type = CounterValue | GaugeValue | UntypedValue

record const_metric =
  metric_desc :: desc
  metric_type :: value_type
  metric_value :: float64

text \<open>
  \<open>prometheus.MustNewConstMetric(desc, t, v)\<close> with no label values:
  \<open>None\<close> is its panic, on a descriptor with an error or with variable labels.
\<close>

definition MustNewConstMetric :: "desc \<Rightarrow> value_type \<Rightarrow> float64 \<Rightarrow> const_metric option" where
  "MustNewConstMetric d t v =
     (if desc_err d \<noteq> None \<or> variableLabels d \<noteq> [] then None
      else Some \<lparr>metric_desc = d, metric_type = t, metric_value = v\<rparr>)"

datatype event = Send const_metric | Log string

datatype collect_end = Returned | Panicked string | Blocked

definition nil_deref :: string where
  "nil_deref = ''runtime error: invalid memory address or nil pointer dereference''"

text \<open>A run of \<open>ch <- prometheus.MustNewConstMetric(d, GaugeValue, v)\<close> statements.\<close>

fun send_gauges :: "(desc \<times> float64) list \<Rightarrow> event list \<times> collect_end" where
  "send_gauges [] = ([], Returned)"
| "send_gauges ((d, v) # ms) =
     (case MustNewConstMetric d GaugeValue v of
        None \<Rightarrow> ([], Panicked ''MustNewConstMetric'')
      | Some m \<Rightarrow> (let (es, r) = send_gauges ms in (Send m # es, r)))"

subsection \<open>Collect\<close>

text \<open>\<open>fmt.Sprintf\<close> with the gateway ID for \<open>%s\<close>.\<close>

definition stats_url :: "string \<Rightarrow> string" where
  "stats_url gw =
     ''https://eu1.cloud.thethings.network/api/v3/gs/gateways/'' @ gw @ ''/connection/stats''"

definition response_error_log :: "string \<Rightarrow> string" where
  "response_error_log err = ''Error on response.'' @ CHR 0x0A # ''[ERROR] - '' @ err"

definition read_error_log :: "string \<Rightarrow> string" where
  "read_error_log err = ''Error while reading the response bytes: '' @ err"

text \<open>
  The nine gauges after \<open>up\<close>: the two counts through
  \<open>strconv.ParseFloat(s, 8)\<close> (a bit size other than 32 parses as
  \<open>float64\<close>; the error is dropped and the value kept), the seven link
  metrics through \<open>float64(int)\<close>.
\<close>

definition scrape_values :: "ttnCollector \<Rightarrow> GatewayConnectionStats \<Rightarrow> (desc \<times> float64) list" where
  "scrape_values c g =
     [(uplinkCount c, fst (ParseFloat64 (UplinkCount g))),
      (downlinkCount c, fst (ParseFloat64 (DownlinkCount g))),
      (metricsAckr c, float64_of_int (Ackr (Metrics (LastStatus g)))),
      (metricsLpps c, float64_of_int (Lpps (Metrics (LastStatus g)))),
      (metricsRxfw c, float64_of_int (Rxfw (Metrics (LastStatus g)))),
      (metricsRxin c, float64_of_int (Rxin (Metrics (LastStatus g)))),
      (metricsRxok c, float64_of_int (Rxok (Metrics (LastStatus g)))),
      (metricsTxin c, float64_of_int (Txin (Metrics (LastStatus g)))),
      (metricsTxok c, float64_of_int (Txok (Metrics (LastStatus g))))]"

text \<open>
  From \<open>ioutil.ReadAll\<close> on: the read error is logged, the body decoded with
  \<open>json.Unmarshal\<close> (whose error is dropped), and the \<open>err\<close> tested is still
  the read error: \<open>up\<close> 0 and the error logged if there was one, otherwise
  \<open>up\<close> 1 and the nine gauges of the decoded document.
\<close>

definition collect_response :: "ttnCollector \<Rightarrow> string \<Rightarrow> string option \<Rightarrow> event list \<times> collect_end" where
  "collect_response c body rerr =
     (let gatewayStats = fst (Unmarshal_stats body) in
      case rerr of
        Some err \<Rightarrow>
          (let (es, r) = send_gauges [(up c, Finite 0)]
           in (Log (read_error_log err) # es @ (if r = Returned then [Log err] else []), r))
      | None \<Rightarrow> send_gauges ((up c, Finite 1) # scrape_values c gatewayStats))"

text \<open>
  What \<open>Collect\<close> does with the result of \<open>client.Do\<close>: a \<open>Do\<close>
  error is logged; a nil \<open>resp\<close> is then dereferenced by
  \<open>defer resp.Body.Close()\<close>; otherwise the body is read with
  \<open>ioutil.ReadAll\<close>, whose error replaces \<open>err\<close>, and the scrape goes on
  from there. The deferred close itself has no observable effect.
\<close>

definition collect_outcome :: "ttnCollector \<Rightarrow> do_result \<Rightarrow> event list \<times> collect_end" where
  "collect_outcome c r =
     (case r of
        DoBlocks \<Rightarrow> ([], Blocked)
      | DoReturn resp err \<Rightarrow>
          (let logs = (case err of None \<Rightarrow> [] | Some e \<Rightarrow> [Log (response_error_log e)])
           in case resp of
                None \<Rightarrow> (logs, Panicked nil_deref)
              | Some rs \<Rightarrow>
                  (let (body, rerr) = ReadAll (Body rs); (es, e) = collect_response c body rerr
                   in (logs @ es, e))))"

text \<open>The client \<open>Collect\<close> builds, \<open>&http.Client{}\<close>: no timeout.\<close>

definition collect_client :: http_Client where
  "collect_client = \<lparr>Timeout = 0\<rparr>"

text \<open>
  \<open>Collect\<close>. A URL that does not parse leaves \<open>req\<close> nil and
  \<open>req.Header.Add\<close> dereferences it.
\<close>

definition Collect :: "network \<Rightarrow> ttnCollector \<Rightarrow> event list \<times> collect_end" where
  "Collect net c =
     (let url = stats_url (gateway c);
          bearer = ''Bearer '' @ apiToken c
      in case NewRequest ''GET'' url of
           None \<Rightarrow> ([], Panicked nil_deref)
         | Some req0 \<Rightarrow>
             collect_outcome c (client_Do collect_client net (Header_Add ''Authorization'' bearer req0)))"

subsection \<open>Observations\<close>

text \<open>
  The metric a successful \<open>MustNewConstMetric(d, GaugeValue, v)\<close> builds,
  and the events of a run of gauge sends over the collector's ten descriptors
  in their order.
\<close>

definition gauge_metric :: "desc \<Rightarrow> float64 \<Rightarrow> const_metric" where
  "gauge_metric d v = \<lparr>metric_desc = d, metric_type = GaugeValue, metric_value = v\<rparr>"

definition scrape_events :: "ttnCollector \<Rightarrow> float64 list \<Rightarrow> event list" where
  "scrape_events c vs = map (\<lambda>(d, v). Send (gauge_metric d v)) (zip (collector_descs c) vs)"

text \<open>
  The (descriptor, value) pairs a run sends, and the specification's two
  outcomes of a scrape: \<open>up\<close> 0 alone when the fetch fails, \<open>up\<close> 1 and the
  nine other gauges in order when it succeeds.
\<close>

fun sent_pairs :: "event list \<Rightarrow> (desc \<times> float64) list" where
  "sent_pairs [] = []"
| "sent_pairs (Send m # es) = (metric_desc m, metric_value m) # sent_pairs es"
| "sent_pairs (Log s # es) = sent_pairs es"

definition spec_scrape :: "ttnCollector \<Rightarrow> float64 list option \<Rightarrow> (desc \<times> float64) list" where
  "spec_scrape c res =
     (case res of None \<Rightarrow> [(up c, Finite 0)]
      | Some vs \<Rightarrow> (up c, Finite 1) # zip (tl (collector_descs c)) vs)"

text \<open>
  The characters RFC 3986 leaves unreserved, which no part of a URL
  escapes.
\<close>

definition url_unreserved :: "char \<Rightarrow> bool" where
  "url_unreserved c \<longleftrightarrow> is_alnum c \<or> c \<in> set ''-_.~''"

subsection \<open>Lemmas: the request\<close>

lemma escapes_ok_append:
  assumes "escapes_ok ys" "ys \<noteq> []" "\<not> is_hex_digit (hd ys)"
  shows "escapes_ok (xs @ ys) \<longleftrightarrow> escapes_ok xs"
proof -
  obtain y ys' where y: "ys = y # ys'" "\<not> is_hex_digit y" using assms(2,3) by (cases ys) auto
  show ?thesis
  proof (induction xs rule: escapes_ok.induct)
    case 1
    then show ?case using assms(1) by simp
  next
    case (2 c cs)
    show ?case
    proof (cases "c = CHR ''%''")
      case True
      then show ?thesis
      proof (cases cs rule: remdups_adj.cases)
        case 1
        with True y show ?thesis by (cases ys') simp_all
      next
        case (2 h1)
        with True y show ?thesis by simp
      next
        case (3 h1 h2 r)
        with True "2.IH" show ?thesis by simp
      qed
    next
      case False
      with "2.IH" show ?thesis by simp
    qed
  qed
qed

lemma escapes_ok_no_percent: "CHR ''%'' \<notin> set xs \<Longrightarrow> escapes_ok (xs @ ys) = escapes_ok ys"
  by (induction xs) auto

lemma url_Parse_ok_stats_url:
  assumes "CHR ''#'' \<notin> set gw" "CHR ''?'' \<notin> set gw"
  shows "url_Parse_ok (stats_url gw) \<longleftrightarrow> \<not> list_ex ctl_byte gw \<and> escapes_ok gw"
proof -
  have tw: "takeWhile (\<lambda>c. c \<noteq> CHR ''#'') (stats_url gw) = stats_url gw"
    using assms by (auto simp: stats_url_def takeWhile_eq_all_conv)
  have tq: "takeWhile (\<lambda>c. c \<noteq> CHR ''?'') (stats_url gw) = stats_url gw"
    using assms by (auto simp: stats_url_def takeWhile_eq_all_conv)
  have "escapes_ok (stats_url gw) \<longleftrightarrow> escapes_ok gw"
  proof -
    have h: "\<not> is_hex_digit CHR ''/''" by (simp add: is_hex_digit_def is_hex_letter_def go_lower_def is_digit_def)
    have "escapes_ok (gw @ ''/connection/stats'') \<longleftrightarrow> escapes_ok gw"
      by (rule escapes_ok_append) (simp_all add: h)
    then show ?thesis unfolding stats_url_def by (subst escapes_ok_no_percent) simp_all
  qed
  moreover have "\<not> list_ex ctl_byte (stats_url gw) \<longleftrightarrow> \<not> list_ex ctl_byte gw"
    by (simp add: stats_url_def ctl_byte_def)
  ultimately show ?thesis
    by (simp add: url_Parse_ok_def Let_def tw tq)
qed

lemma urlErrorOp_GET: "urlErrorOp ''GET'' = ''Get''"
  by code_simp

lemma Collect_request:
  assumes "url_Parse_ok (stats_url (gateway c))" "ValidHeaderFieldValue (''Bearer '' @ apiToken c)"
  shows "Collect net c =
    collect_outcome c
      (case net \<lparr>req_method = ''GET'', req_url = stats_url (gateway c),
                 req_header = [(''Authorization'', ''Bearer '' @ apiToken c)]\<rparr> of
         TransportError cause \<Rightarrow> DoReturn None (Some (url_Error ''Get'' (url_String (stats_url (gateway c))) cause))
       | RedirectRefused st loc k \<Rightarrow>
           DoReturn (Some \<lparr>StatusCode = st, Body = BodyClosed k\<rparr>) (Some (url_Error ''Get'' loc ''stopped after 10 redirects''))
       | Response st body rerr \<Rightarrow> DoReturn (Some \<lparr>StatusCode = st, Body = BodyStream body rerr\<rparr>) None
       | Stalls \<Rightarrow>
           if Timeout collect_client = 0 then DoBlocks
           else DoReturn None (Some (url_Error ''Get'' (url_String (stats_url (gateway c)))
                  ''context deadline exceeded (Client.Timeout exceeded while awaiting headers)'')))"
  using assms
  by (simp add: Collect_def NewRequest_def Header_Add_def client_Do_def urlErrorOp_GET Let_def)

lemma url_unreserved_not:
  "url_unreserved c \<Longrightarrow> c \<noteq> CHR ''#'' \<and> c \<noteq> CHR ''?'' \<and> c \<noteq> CHR ''/'' \<and> c \<noteq> CHR ''%'' \<and> \<not> ctl_byte c"
  by (auto simp: url_unreserved_def is_alnum_def is_digit_def ctl_byte_def)

lemma url_String_stats_url:
  assumes "list_all url_unreserved gw"
  shows "url_String (stats_url gw) = stats_url gw"
proof -
  have nh: "CHR ''#'' \<notin> set gw" "CHR ''?'' \<notin> set gw" "CHR ''/'' \<notin> set gw"
    using assms url_unreserved_not by (auto simp: list_all_iff)
  have tw: "takeWhile (\<lambda>c. c \<noteq> CHR ''#'') (stats_url gw) = stats_url gw"
    "takeWhile (\<lambda>c. c \<noteq> CHR ''?'') (stats_url gw) = stats_url gw"
    using nh by (auto simp: stats_url_def takeWhile_eq_all_conv)
  have len: "url_authority_len (stats_url gw) = 35"
    by (simp add: url_authority_len_def stats_url_def)
  have v: "validEncoded (''/api/v3/gs/gateways/'' @ gw @ ''/connection/stats'') EncodePath"
    using assms
    by (simp add: validEncoded_def shouldEscape_def url_unreserved_def list_all_iff is_alnum_def is_digit_def)
  show ?thesis
    using nh v by (simp add: url_String_def tw len escaped_part_def) (simp add: stats_url_def)
qed

lemma quote_body_plain:
  "list_all (\<lambda>c. 32 \<le> (of_char c :: nat) \<and> (of_char c :: nat) < 127 \<and> c \<noteq> CHR 0x22 \<and> c \<noteq> CHR 0x5C) s \<Longrightarrow>
   quote_body s = s"
  by (induction s) (simp_all add: quote_byte_def)

text \<open>The error text of a failed request for a gateway ID of unreserved characters.\<close>

lemma url_Error_stats_url:
  assumes "list_all url_unreserved gw"
  shows "url_Error op (url_String (stats_url gw)) e = op @ '' '' @ CHR 0x22 # stats_url gw @ CHR 0x22 # '': '' @ e"
proof -
  have "list_all (\<lambda>c. 32 \<le> (of_char c :: nat) \<and> (of_char c :: nat) < 127 \<and> c \<noteq> CHR 0x22 \<and> c \<noteq> CHR 0x5C) gw"
    using assms by (auto simp: list_all_iff url_unreserved_def is_alnum_def is_digit_def)
  then have "quote_body (stats_url gw) = stats_url gw"
    by (intro quote_body_plain) (simp add: stats_url_def)
  then show ?thesis using assms by (simp add: url_Error_def go_Quote_def url_String_stats_url)
qed

lemma sent_pairs_append: "sent_pairs (xs @ ys) = sent_pairs xs @ sent_pairs ys"
  by (induction xs rule: sent_pairs.induct) simp_all

subsection \<open>Lemmas: sending the gauges\<close>

lemma json_parse_Nil: "json_parse [] = None"
  by code_simp

lemma send_gauges_ok:
  "list_all (\<lambda>d. desc_err d = None \<and> variableLabels d = []) (map fst ms) \<Longrightarrow>
   send_gauges ms = (map (\<lambda>(d, v). Send (gauge_metric d v)) ms, Returned)"
  by (induction ms rule: send_gauges.induct)
     (simp_all add: MustNewConstMetric_def gauge_metric_def)

lemma scrape_values_descs:
  "map fst ((up c, v) # scrape_values c g) = collector_descs c"
  by (simp add: scrape_values_def collector_descs_def)

lemma send_scrape_values:
  "send_gauges ((up (newTtnCollector tok gw), v) # scrape_values (newTtnCollector tok gw) g) =
   (scrape_events (newTtnCollector tok gw) (v # map snd (scrape_values (newTtnCollector tok gw) g)),
    Returned)"
proof -
  let ?c = "newTtnCollector tok gw"
  let ?ms = "(up ?c, v) # scrape_values ?c g"
  have ok: "list_all (\<lambda>d. desc_err d = None \<and> variableLabels d = []) (map fst ?ms)"
    unfolding scrape_values_descs by (rule collector_descs_ok)
  have "?ms = zip (collector_descs ?c) (v # map snd (scrape_values ?c g))"
    by (simp add: scrape_values_def collector_descs_def)
  then show ?thesis using send_gauges_ok [OF ok] by (simp add: scrape_events_def)
qed

lemma collect_response_ok:
  "collect_response (newTtnCollector tok gw) body None =
   (scrape_events (newTtnCollector tok gw)
      (Finite 1 # map snd (scrape_values (newTtnCollector tok gw) (fst (Unmarshal_stats body)))),
    Returned)"
  by (simp add: collect_response_def send_scrape_values del: send_gauges.simps)

lemma Collect_response_ok:
  assumes "url_Parse_ok (stats_url gw)" "ValidHeaderFieldValue (''Bearer '' @ tok)"
  shows "Collect (\<lambda>_. Response st body None) (newTtnCollector tok gw) =
   (scrape_events (newTtnCollector tok gw)
      (Finite 1 # map snd (scrape_values (newTtnCollector tok gw) (fst (Unmarshal_stats body)))),
    Returned)"
  using assms by (simp add: Collect_request collect_outcome_def collect_response_ok)

lemma send_up:
  "send_gauges [(up (newTtnCollector tok gw), v)] =
   ([Send (gauge_metric (up (newTtnCollector tok gw)) v)], Returned)"
proof -
  have "list_all (\<lambda>d. desc_err d = None \<and> variableLabels d = [])
          (map fst [(up (newTtnCollector tok gw), v)])"
    using collector_descs_ok [of tok gw] by (simp add: collector_descs_def)
  from send_gauges_ok [OF this] show ?thesis by simp
qed

lemma sent_pairs_scrape_events:
  "length vs = 10 \<Longrightarrow> sent_pairs (scrape_events c vs) = zip (collector_descs c) vs"
  by (simp add: scrape_events_def collector_descs_def numeral_eq_Suc length_Suc_conv gauge_metric_def)
     (auto simp: gauge_metric_def)

lemma collect_response_shape:
  "snd (collect_response (newTtnCollector tok gw) body rerr) = Returned \<and>
   (\<exists>res. sent_pairs (fst (collect_response (newTtnCollector tok gw) body rerr)) = spec_scrape (newTtnCollector tok gw) res \<and>
      (\<forall>vs. res = Some vs \<longrightarrow> length vs = 9))"
proof (cases rerr)
  case None
  let ?vs = "map snd (scrape_values (newTtnCollector tok gw) (fst (Unmarshal_stats body)))"
  have "sent_pairs (fst (collect_response (newTtnCollector tok gw) body rerr)) =
      spec_scrape (newTtnCollector tok gw) (Some ?vs)"
    using None by (simp add: collect_response_ok sent_pairs_scrape_events scrape_values_def spec_scrape_def
      collector_descs_def)
  moreover have "length ?vs = 9" by (simp add: scrape_values_def)
  ultimately show ?thesis using None by (auto simp: collect_response_ok)
next
  case (Some e)
  then have "collect_response (newTtnCollector tok gw) body rerr =
      ([Log (read_error_log e), Send (gauge_metric (up (newTtnCollector tok gw)) (Finite 0)), Log e], Returned)"
    by (simp add: collect_response_def send_up del: send_gauges.simps)
  then show ?thesis by (auto simp: spec_scrape_def gauge_metric_def intro!: exI [of _ None])
qed

subsection \<open>Properties of a scrape\<close>

text \<open>
  The gateway and token the witnesses use: an ID of the form the Things
  Stack gives gateways, and an API key of the form it issues.
\<close>

lemma example_config_ok:
  "url_Parse_ok (stats_url ''eui-58a0cbfffe800f0e'')" "ValidHeaderFieldValue (''Bearer '' @ ''NNSXS.EXAMPLE'')"
  "list_all url_unreserved ''eui-58a0cbfffe800f0e''"
    apply (subst url_Parse_ok_stats_url)
      apply (simp_all add: ctl_byte_def ValidHeaderFieldValue_def url_unreserved_def is_alnum_def is_digit_def)
  done

text \<open>
  C1. A scrape of a gateway whose stats document carries uplink count \<open>u\<close>,
  downlink count \<open>d\<close> (as decimal strings) and the link metrics \<open>m\<close> sends
  exactly the ten gauges of the collector, in the order of its fields:
  \<open>ttn_up\<close> 1, the two counts and the seven metrics, each exactly, as long
  as every value is at most \<open>2^53\<close> in magnitude; it logs nothing and returns.
\<close>

theorem Collect_counts_document:
  assumes "url_Parse_ok (stats_url gw)" "ValidHeaderFieldValue (''Bearer '' @ tok)"
    and "u \<le> 2 ^ 53" "d \<le> 2 ^ 53"
    and "list_all (\<lambda>x. \<bar>sint x\<bar> \<le> 2 ^ 53) [Ackr m, Lpps m, Rxfw m, Rxin m, Rxok m, Txin m, Txok m]"
  shows "Collect (\<lambda>_. Response st (print_json (counts_json u d m)) None) (newTtnCollector tok gw) =
    (scrape_events (newTtnCollector tok gw)
       (Finite 1 # Finite (of_nat u) # Finite (of_nat d) #
        map (\<lambda>x. Finite (of_int (sint x))) [Ackr m, Lpps m, Rxfw m, Rxin m, Rxok m, Txin m, Txok m]),
     Returned)"
  using assms
  by (simp add: Collect_request collect_outcome_def collect_response_ok Unmarshal_counts_json
      scrape_values_def ParseFloat64_show_nat float64_of_int_exact del: of_int_sint)

theorem Collect_counts_document_witness:
  "url_Parse_ok (stats_url ''eui-58a0cbfffe800f0e'') \<and> ValidHeaderFieldValue (''Bearer '' @ ''NNSXS.EXAMPLE'') \<and>
   Collect (\<lambda>_. Response 200 (print_json (counts_json 42 7 \<lparr>Ackr = 99, Lpps = 1, Rxfw = 2, Rxin = 3, Rxok = 4, Txin = 5, Txok = 6\<rparr>)) None) (newTtnCollector ''NNSXS.EXAMPLE'' ''eui-58a0cbfffe800f0e'') =
    (scrape_events (newTtnCollector ''NNSXS.EXAMPLE'' ''eui-58a0cbfffe800f0e'')
       [Finite 1, Finite 42, Finite 7, Finite 99, Finite 1, Finite 2, Finite 3, Finite 4, Finite 5,
        Finite 6], Returned)"
  using Collect_counts_document [OF example_config_ok(1,2), of 42 7 "\<lparr>Ackr = 99, Lpps = 1, Rxfw = 2, Rxin = 3, Rxok = 4, Txin = 5, Txok = 6\<rparr>" 200]
  by (simp add: example_config_ok ValidHeaderFieldValue_def ctl_byte_def)

text \<open>
  C2. When reading the response body fails, the scrape logs the read error,
  sends \<open>ttn_up\<close> 0 and nothing else, logs the error again and returns,
  whatever part of the body was read and whatever the status.
\<close>

theorem Collect_read_error:
  assumes "url_Parse_ok (stats_url gw)" "ValidHeaderFieldValue (''Bearer '' @ tok)"
  shows "Collect (\<lambda>_. Response st body (Some err)) (newTtnCollector tok gw) =
    ([Log (read_error_log err), Send (gauge_metric (up (newTtnCollector tok gw)) (Finite 0)), Log err],
     Returned)"
  using assms by (simp add: Collect_request collect_outcome_def collect_response_def send_up del: send_gauges.simps)

theorem Collect_read_error_witness:
  "url_Parse_ok (stats_url ''eui-58a0cbfffe800f0e'') \<and> ValidHeaderFieldValue (''Bearer '' @ ''NNSXS.EXAMPLE'') \<and>
   Collect (\<lambda>_. Response 200 ''{'' (Some ''unexpected EOF'')) (newTtnCollector ''NNSXS.EXAMPLE'' ''eui-58a0cbfffe800f0e'') =
    ([Log (read_error_log ''unexpected EOF''), Send (gauge_metric (up (newTtnCollector ''NNSXS.EXAMPLE'' ''eui-58a0cbfffe800f0e'')) (Finite 0)),
      Log ''unexpected EOF''], Returned)"
  using Collect_read_error [OF example_config_ok(1,2), of 200 "''{''" "''unexpected EOF''"]
  by (simp add: example_config_ok ValidHeaderFieldValue_def ctl_byte_def)

text \<open>
  C3. When the round trip fails (no connection, TLS or DNS failure),
  \<open>client.Do\<close> returns a nil response and a \<open>*url.Error\<close>
  \<open>Get "<url>": <cause>\<close>; the scrape logs it and then panics
  dereferencing the nil response in \<open>defer resp.Body.Close()\<close>: no metric
  is sent, not even \<open>ttn_up\<close> 0.
\<close>

theorem Collect_transport_error_panics:
  assumes "url_Parse_ok (stats_url gw)" "ValidHeaderFieldValue (''Bearer '' @ tok)"
  shows "Collect (\<lambda>_. TransportError cause) (newTtnCollector tok gw) =
    ([Log (response_error_log (url_Error ''Get'' (url_String (stats_url gw)) cause))], Panicked nil_deref)"
  using assms by (simp add: Collect_request collect_outcome_def)

theorem Collect_transport_error_panics_witness:
  "url_Parse_ok (stats_url ''eui-58a0cbfffe800f0e'') \<and> ValidHeaderFieldValue (''Bearer '' @ ''NNSXS.EXAMPLE'') \<and>
   Collect (\<lambda>_. TransportError ''dial tcp: i/o timeout'') (newTtnCollector ''NNSXS.EXAMPLE'' ''eui-58a0cbfffe800f0e'') =
    ([Log (response_error_log (''Get '' @ CHR 0x22 # stats_url ''eui-58a0cbfffe800f0e'' @
                               CHR 0x22 # '': dial tcp: i/o timeout''))], Panicked nil_deref)"
  using Collect_transport_error_panics [OF example_config_ok(1,2), of "''dial tcp: i/o timeout''"]
  by (simp add: example_config_ok url_Error_stats_url [OF example_config_ok(3)] ValidHeaderFieldValue_def ctl_byte_def
      del: stats_url_def)

text \<open>
  C4. A body read in full that is not JSON is not an error for the scrape:
  the \<open>json.Unmarshal\<close> error is dropped, \<open>ttn_up\<close> is 1 and the nine
  other gauges are 0.
\<close>

theorem Collect_invalid_json_zeros:
  assumes "url_Parse_ok (stats_url gw)" "ValidHeaderFieldValue (''Bearer '' @ tok)"
    and "json_parse body = None"
  shows "Collect (\<lambda>_. Response st body None) (newTtnCollector tok gw) =
    (scrape_events (newTtnCollector tok gw) (Finite 1 # replicate 9 (Finite 0)), Returned)"
  using assms
  by (simp add: Collect_response_ok Unmarshal_stats_syntax scrape_values_def ParseFloat64_Nil
      zero_stats_def zero_last_status_def zero_link_metrics_def numeral_eq_Suc)

theorem Collect_invalid_json_zeros_witness:
  "url_Parse_ok (stats_url ''eui-58a0cbfffe800f0e'') \<and> ValidHeaderFieldValue (''Bearer '' @ ''NNSXS.EXAMPLE'') \<and> json_parse ''<html>'' = None \<and>
   Collect (\<lambda>_. Response 502 ''<html>'' None) (newTtnCollector ''NNSXS.EXAMPLE'' ''eui-58a0cbfffe800f0e'') =
    (scrape_events (newTtnCollector ''NNSXS.EXAMPLE'' ''eui-58a0cbfffe800f0e'') (Finite 1 # replicate 9 (Finite 0)), Returned)"
proof -
  have "json_parse ''<html>'' = None" by code_simp
  then show ?thesis
    using Collect_invalid_json_zeros [OF example_config_ok(1,2), of "''<html>''" 502]
    by (simp add: example_config_ok ValidHeaderFieldValue_def ctl_byte_def)
qed

text \<open>
  C5. The HTTP status of the response plays no part in a scrape: an error
  status (401 for a bad key, 404 for an unknown gateway, 5xx) gives the same
  metrics and logs as 200.
\<close>

theorem Collect_status_ignored:
  "Collect (\<lambda>_. Response st body rerr) c = Collect (\<lambda>_. Response 200 body rerr) c"
  by (simp add: Collect_def collect_outcome_def client_Do_def Let_def split: option.splits)

text \<open>
  C6. A gateway ID with a control byte, or with a \<open>%\<close> not followed by two
  hex digits, makes \<open>http.NewRequest\<close> fail; the scrape then panics on the
  nil request in \<open>req.Header.Add\<close>, before any request is sent, whatever
  the network does.
\<close>

theorem Collect_bad_gateway_panics:
  assumes "CHR ''#'' \<notin> set gw" "CHR ''?'' \<notin> set gw" "list_ex ctl_byte gw \<or> \<not> escapes_ok gw"
  shows "Collect net (newTtnCollector tok gw) = ([], Panicked nil_deref)"
  using assms by (auto simp: Collect_def NewRequest_def url_Parse_ok_stats_url)

theorem Collect_bad_gateway_panics_witness:
  "CHR ''#'' \<notin> set ''gw%zz'' \<and> CHR ''?'' \<notin> set ''gw%zz'' \<and> \<not> escapes_ok ''gw%zz'' \<and>
   Collect (\<lambda>_. Stalls) (newTtnCollector ''NNSXS.EXAMPLE'' ''gw%zz'') = ([], Panicked nil_deref)"
proof -
  have "\<not> escapes_ok ''gw%zz''" by (simp add: is_hex_digit_def is_hex_letter_def go_lower_def is_digit_def)
  then show ?thesis using Collect_bad_gateway_panics [of "''gw%zz''" "\<lambda>_. Stalls" "''NNSXS.EXAMPLE''"] by simp
qed

text \<open>
  C7. An API token with a control byte (a trailing newline read from a file,
  say) makes the transport refuse the request before sending it:
  \<open>client.Do\<close> returns the \<open>*url.Error\<close>
  \<open>Get "<url>": net/http: invalid header field value for "Authorization"\<close>;
  the scrape logs it and panics on the nil response, whatever the network
  would have done.
\<close>

theorem Collect_bad_token_panics:
  assumes "url_Parse_ok (stats_url gw)" "\<not> ValidHeaderFieldValue (''Bearer '' @ tok)"
  shows "Collect net (newTtnCollector tok gw) =
    ([Log (response_error_log (url_Error ''Get'' (url_String (stats_url gw))
        (''net/http: invalid header field value for '' @ go_Quote ''Authorization'')))], Panicked nil_deref)"
  using assms
  by (simp add: Collect_def NewRequest_def Header_Add_def client_Do_def collect_outcome_def urlErrorOp_GET
      Let_def)

theorem Collect_bad_token_panics_witness:
  "url_Parse_ok (stats_url ''eui-58a0cbfffe800f0e'') \<and> \<not> ValidHeaderFieldValue (''Bearer '' @ ''KEY'' @ [CHR 0x0A]) \<and>
   Collect (\<lambda>_. Stalls) (newTtnCollector (''KEY'' @ [CHR 0x0A]) ''eui-58a0cbfffe800f0e'') =
    ([Log (response_error_log (''Get '' @ CHR 0x22 # stats_url ''eui-58a0cbfffe800f0e'' @
        CHR 0x22 # '': net/http: invalid header field value for '' @ CHR 0x22 # ''Authorization'' @ [CHR 0x22]))],
     Panicked nil_deref)"
proof -
  have v: "\<not> ValidHeaderFieldValue (''Bearer '' @ ''KEY'' @ [CHR 0x0A])"
    by (simp add: ValidHeaderFieldValue_def ctl_byte_def)
  have q: "go_Quote ''Authorization'' = CHR 0x22 # ''Authorization'' @ [CHR 0x22]"
    by (simp add: go_Quote_def quote_byte_def)
  show ?thesis
    using Collect_bad_token_panics [OF example_config_ok(1) v, of "\<lambda>_. Stalls"] v
    by (simp add: example_config_ok url_Error_stats_url [OF example_config_ok(3)] q del: stats_url_def)
qed

text \<open>
  C8. \<open>Collect\<close> builds its client as \<open>&http.Client{}\<close>, with no
  timeout: when the server accepts the request and never answers,
  \<open>client.Do\<close> never returns, so the scrape blocks and sends nothing, not
  even \<open>ttn_up\<close> 0. (A client with a timeout would fail the request
  instead, and the scrape would panic as in C3.)
\<close>

theorem Collect_stalled_server_blocks:
  assumes "url_Parse_ok (stats_url gw)" "ValidHeaderFieldValue (''Bearer '' @ tok)"
  shows "Collect (\<lambda>_. Stalls) (newTtnCollector tok gw) = ([], Blocked)"
  using assms by (simp add: Collect_request collect_outcome_def collect_client_def)

theorem Collect_stalled_server_blocks_witness:
  "url_Parse_ok (stats_url ''eui-58a0cbfffe800f0e'') \<and> ValidHeaderFieldValue (''Bearer '' @ ''NNSXS.EXAMPLE'') \<and>
   Collect (\<lambda>_. Stalls) (newTtnCollector ''NNSXS.EXAMPLE'' ''eui-58a0cbfffe800f0e'') = ([], Blocked)"
  using Collect_stalled_server_blocks [OF example_config_ok(1,2)]
  by (simp add: example_config_ok ValidHeaderFieldValue_def ctl_byte_def)

text \<open>
  C9. When the server keeps redirecting, the client refuses the eleventh
  redirect and \<open>Do\<close> returns the last response, its body closed, together
  with the error \<open>Get "<Location>": stopped after 10 redirects\<close>. The scrape
  logs the error and reads the closed body: if the response declared no body
  (\<open>http.NoBody\<close>) the read succeeds with no bytes, and the scrape reports
  \<open>ttn_up\<close> 1 with the nine other gauges at 0; if it had an HTTP/1 body,
  the read fails and the scrape reports \<open>ttn_up\<close> 0.
\<close>

theorem Collect_redirect_refused:
  assumes "url_Parse_ok (stats_url gw)" "ValidHeaderFieldValue (''Bearer '' @ tok)"
  shows "Collect (\<lambda>_. RedirectRefused st loc NoBody) (newTtnCollector tok gw) =
      (Log (response_error_log (url_Error ''Get'' loc ''stopped after 10 redirects'')) #
         scrape_events (newTtnCollector tok gw) (Finite 1 # replicate 9 (Finite 0)), Returned) \<and>
    Collect (\<lambda>_. RedirectRefused st loc H1Body) (newTtnCollector tok gw) =
      ([Log (response_error_log (url_Error ''Get'' loc ''stopped after 10 redirects'')),
        Log (read_error_log ''http: read on closed response body''),
        Send (gauge_metric (up (newTtnCollector tok gw)) (Finite 0)),
        Log ''http: read on closed response body''], Returned)"
proof
  let ?e = "Log (response_error_log (url_Error ''Get'' loc ''stopped after 10 redirects''))"
  have r: "Collect (\<lambda>_. RedirectRefused st loc k) (newTtnCollector tok gw) =
      (?e # fst (collect_response (newTtnCollector tok gw) [] (closed_read k)),
       snd (collect_response (newTtnCollector tok gw) [] (closed_read k)))" for k
    using assms by (simp add: Collect_request collect_outcome_def split: prod.splits)
  show "Collect (\<lambda>_. RedirectRefused st loc NoBody) (newTtnCollector tok gw) =
      (?e # scrape_events (newTtnCollector tok gw) (Finite 1 # replicate 9 (Finite 0)), Returned)"
    by (simp add: r collect_response_ok Unmarshal_stats_syntax json_parse_Nil scrape_values_def
        ParseFloat64_Nil zero_stats_def zero_last_status_def zero_link_metrics_def numeral_eq_Suc)
  show "Collect (\<lambda>_. RedirectRefused st loc H1Body) (newTtnCollector tok gw) =
      ([?e, Log (read_error_log ''http: read on closed response body''),
        Send (gauge_metric (up (newTtnCollector tok gw)) (Finite 0)),
        Log ''http: read on closed response body''], Returned)"
    by (simp add: r collect_response_def send_up del: send_gauges.simps)
qed

theorem Collect_redirect_refused_witness:
  "url_Parse_ok (stats_url ''eui-58a0cbfffe800f0e'') \<and> ValidHeaderFieldValue (''Bearer '' @ ''NNSXS.EXAMPLE'') \<and>
   Collect (\<lambda>_. RedirectRefused 302 ''/login'' NoBody) (newTtnCollector ''NNSXS.EXAMPLE'' ''eui-58a0cbfffe800f0e'') =
     (Log (response_error_log (url_Error ''Get'' ''/login'' ''stopped after 10 redirects'')) #
        scrape_events (newTtnCollector ''NNSXS.EXAMPLE'' ''eui-58a0cbfffe800f0e'') (Finite 1 # replicate 9 (Finite 0)), Returned) \<and>
   Collect (\<lambda>_. RedirectRefused 302 ''/login'' H1Body) (newTtnCollector ''NNSXS.EXAMPLE'' ''eui-58a0cbfffe800f0e'') =
     ([Log (response_error_log (url_Error ''Get'' ''/login'' ''stopped after 10 redirects'')),
       Log (read_error_log ''http: read on closed response body''),
       Send (gauge_metric (up (newTtnCollector ''NNSXS.EXAMPLE'' ''eui-58a0cbfffe800f0e'')) (Finite 0)),
       Log ''http: read on closed response body''], Returned)"
  using Collect_redirect_refused [OF example_config_ok(1,2), of 302 "''/login''"]
  by (simp add: example_config_ok ValidHeaderFieldValue_def ctl_byte_def)

text \<open>
  C10. An uplink count the API sends as a string that \<open>ParseFloat\<close> rejects
  (\<open>N/A\<close>, say) is reported as 0, with \<open>ttn_up\<close> 1: the parse error is
  dropped.
\<close>

theorem Collect_uplink_syntax_error:
  assumes "url_Parse_ok (stats_url gw)" "ValidHeaderFieldValue (''Bearer '' @ tok)"
    and "list_all plain_char s" "snd (ParseFloat64 s) = Some ErrSyntax"
  shows "take 2 (fst (Collect (\<lambda>_. Response st (print_json (JObject [(''uplink_count'', JString s)])) None)
                         (newTtnCollector tok gw))) =
    [Send (gauge_metric (up (newTtnCollector tok gw)) (Finite 1)),
     Send (gauge_metric (uplinkCount (newTtnCollector tok gw)) (Finite 0))]"
proof -
  have wf: "json_wf 0 (JObject [(''uplink_count'', JString s)])"
    using assms(3) by (simp add: plain_raw_string_ok maxNestingDepth_def)
  have p: "ParseFloat64 s = (Finite 0, Some ErrSyntax)"
    using assms(4) ParseFloat64_syntax_zero by (metis prod.collapse)
  have u: "Unmarshal_stats (print_json (JObject [(''uplink_count'', JString s)])) =
      (zero_stats\<lparr>UplinkCount := s\<rparr>, None)"
    unfolding Unmarshal_members [OF wf]
    by (simp add: stats_field_tags stats_keys store_string_plain [OF assms(3)])
  show ?thesis
    using assms(1,2)
    by (simp add: Collect_response_ok u scrape_values_def p scrape_events_def collector_descs_def
        del: print_json.simps)
qed

theorem Collect_uplink_syntax_error_witness:
  "url_Parse_ok (stats_url ''eui-58a0cbfffe800f0e'') \<and> ValidHeaderFieldValue (''Bearer '' @ ''NNSXS.EXAMPLE'') \<and> list_all plain_char ''N/A'' \<and> snd (ParseFloat64 ''N/A'') = Some ErrSyntax \<and>
   take 2 (fst (Collect (\<lambda>_. Response 200 (print_json (JObject [(''uplink_count'', JString ''N/A'')])) None)
                        (newTtnCollector ''NNSXS.EXAMPLE'' ''eui-58a0cbfffe800f0e''))) =
    [Send (gauge_metric (up (newTtnCollector ''NNSXS.EXAMPLE'' ''eui-58a0cbfffe800f0e'')) (Finite 1)), Send (gauge_metric (uplinkCount (newTtnCollector ''NNSXS.EXAMPLE'' ''eui-58a0cbfffe800f0e'')) (Finite 0))]"
proof -
  have p: "snd (ParseFloat64 ''N/A'') = Some ErrSyntax" by code_simp
  have c: "list_all plain_char ''N/A''" by (simp add: plain_char_def)
  show ?thesis
    using Collect_uplink_syntax_error [OF example_config_ok(1,2) c p, of 200] p c by (simp add: example_config_ok ValidHeaderFieldValue_def ctl_byte_def)
qed

text \<open>
  C11. An uplink count sent as a JSON number rather than a string is not
  decoded (the type error is dropped) and is reported as 0, with
  \<open>ttn_up\<close> 1.
\<close>

theorem Collect_uplink_number_zero:
  assumes "url_Parse_ok (stats_url gw)" "ValidHeaderFieldValue (''Bearer '' @ tok)"
  shows "take 2 (fst (Collect (\<lambda>_. Response st (print_json (JObject [(''uplink_count'', JNumber (show_nat n))])) None)
                         (newTtnCollector tok gw))) =
    [Send (gauge_metric (up (newTtnCollector tok gw)) (Finite 1)),
     Send (gauge_metric (uplinkCount (newTtnCollector tok gw)) (Finite 0))]"
proof -
  have wf: "json_wf 0 (JObject [(''uplink_count'', JNumber (show_nat n))])"
    by (simp add: number_ok_def scan_number_show_nat maxNestingDepth_def)
  have u: "fst (Unmarshal_stats (print_json (JObject [(''uplink_count'', JNumber (show_nat n))]))) =
      zero_stats"
    unfolding Unmarshal_members [OF wf]
    by (simp add: stats_field_tags stats_keys store_string_def type_error_def)
  show ?thesis
    using assms
    by (simp add: Collect_response_ok u scrape_values_def ParseFloat64_Nil scrape_events_def
        collector_descs_def zero_stats_def del: print_json.simps)
qed

theorem Collect_uplink_number_zero_witness:
  "url_Parse_ok (stats_url ''eui-58a0cbfffe800f0e'') \<and> ValidHeaderFieldValue (''Bearer '' @ ''NNSXS.EXAMPLE'') \<and>
   take 2 (fst (Collect (\<lambda>_. Response 200 (print_json (JObject [(''uplink_count'', JNumber (show_nat 42))])) None)
                        (newTtnCollector ''NNSXS.EXAMPLE'' ''eui-58a0cbfffe800f0e''))) =
    [Send (gauge_metric (up (newTtnCollector ''NNSXS.EXAMPLE'' ''eui-58a0cbfffe800f0e'')) (Finite 1)), Send (gauge_metric (uplinkCount (newTtnCollector ''NNSXS.EXAMPLE'' ''eui-58a0cbfffe800f0e'')) (Finite 0))]"
  using Collect_uplink_number_zero [OF example_config_ok(1,2), of 200 42] by (simp add: example_config_ok ValidHeaderFieldValue_def ctl_byte_def)

text \<open>
  C12. A timestamp that \<open>Time.UnmarshalJSON\<close> rejects (one that
  \<open>time.Parse\<close> with the layout \<open>RFC3339\<close> does not accept) aborts
  decoding where it stands: an uplink count that comes after a bad
  \<open>connected_at\<close> is lost (reported as 0), one that comes before it is
  kept.
\<close>

theorem Collect_time_error_order:
  assumes "url_Parse_ok (stats_url gw)" "ValidHeaderFieldValue (''Bearer '' @ tok)"
    and "list_all plain_char s" "\<not> time_Parse_RFC3339 s" "n \<le> 2 ^ 53"
  shows "fst (Collect (\<lambda>_. Response st (print_json (JObject
              [(''connected_at'', JString s), (''uplink_count'', JString (show_nat n))])) None)
              (newTtnCollector tok gw)) ! 1 =
           Send (gauge_metric (uplinkCount (newTtnCollector tok gw)) (Finite 0)) \<and>
         fst (Collect (\<lambda>_. Response st (print_json (JObject
              [(''uplink_count'', JString (show_nat n)), (''connected_at'', JString s)])) None)
              (newTtnCollector tok gw)) ! 1 =
           Send (gauge_metric (uplinkCount (newTtnCollector tok gw)) (Finite (of_nat n)))"
proof -
  let ?b1 = "JObject [(''connected_at'', JString s), (''uplink_count'', JString (show_nat n))]"
  let ?b2 = "JObject [(''uplink_count'', JString (show_nat n)), (''connected_at'', JString s)]"
  have wf: "json_wf 0 ?b1" "json_wf 0 ?b2"
    using assms(3) by (simp_all add: plain_raw_string_ok show_nat_plain maxNestingDepth_def)
  have st: "store_time t (JString s) = Stop zero_time (TimeError (''parsing time '' @ s))" for t
    using assms(4) by (simp add: store_time_def)
  have u1: "UplinkCount (fst (Unmarshal_stats (print_json ?b1))) = []"
    unfolding Unmarshal_members [OF wf(1)]
    by (simp add: stats_field_tags stats_keys st zero_stats_def)
  have u2: "UplinkCount (fst (Unmarshal_stats (print_json ?b2))) = show_nat n"
    unfolding Unmarshal_members [OF wf(2)]
    by (simp add: stats_field_tags stats_keys stats_keys st store_string_plain show_nat_plain)
  show ?thesis
    using assms(1,2,5)
    by (simp add: Collect_response_ok u1 u2 scrape_values_def ParseFloat64_Nil ParseFloat64_show_nat
        scrape_events_def collector_descs_def del: print_json.simps)
qed

theorem Collect_time_error_order_witness:
  "url_Parse_ok (stats_url ''eui-58a0cbfffe800f0e'') \<and> ValidHeaderFieldValue (''Bearer '' @ ''NNSXS.EXAMPLE'') \<and> list_all plain_char ''yesterday'' \<and> \<not> time_Parse_RFC3339 ''yesterday'' \<and> (42::nat) \<le> 2 ^ 53 \<and>
   fst (Collect (\<lambda>_. Response 200 (print_json (JObject
        [(''connected_at'', JString ''yesterday''), (''uplink_count'', JString (show_nat 42))])) None)
        (newTtnCollector ''NNSXS.EXAMPLE'' ''eui-58a0cbfffe800f0e'')) ! 1 = Send (gauge_metric (uplinkCount (newTtnCollector ''NNSXS.EXAMPLE'' ''eui-58a0cbfffe800f0e'')) (Finite 0)) \<and>
   fst (Collect (\<lambda>_. Response 200 (print_json (JObject
        [(''uplink_count'', JString (show_nat 42)), (''connected_at'', JString ''yesterday'')])) None)
        (newTtnCollector ''NNSXS.EXAMPLE'' ''eui-58a0cbfffe800f0e'')) ! 1 = Send (gauge_metric (uplinkCount (newTtnCollector ''NNSXS.EXAMPLE'' ''eui-58a0cbfffe800f0e'')) (Finite 42))"
proof -
  have c: "list_all plain_char ''yesterday''" by (simp add: plain_char_def)
  have r: "\<not> time_Parse_RFC3339 ''yesterday''" by (simp add: time_Parse_RFC3339_def parse_long_year_def is_digit_def)
  show ?thesis
    using Collect_time_error_order [OF example_config_ok(1,2) c r, of 42 200] c r by (simp add: example_config_ok ValidHeaderFieldValue_def ctl_byte_def)
qed

text \<open>
  C13. A link metric above \<open>2^53\<close> is reported rounded: \<open>ackr\<close> =
  \<open>2^53 + 1\<close> is sent as \<open>2^53\<close>.
\<close>

theorem Collect_metric_rounds:
  assumes "url_Parse_ok (stats_url gw)" "ValidHeaderFieldValue (''Bearer '' @ tok)"
    and "Ackr m = 2 ^ 53 + 1"
  shows "fst (Collect (\<lambda>_. Response st (print_json (counts_json u d m)) None) (newTtnCollector tok gw)) ! 3 =
    Send (gauge_metric (metricsAckr (newTtnCollector tok gw)) (Finite (2 ^ 53)))"
proof -
  have r: "float64_of_int (Ackr m) = Finite (2 ^ 53)"
    using float64_of_int_rounds by (simp only: assms(3))
  show ?thesis
    using assms(1,2)
    by (simp add: Collect_response_ok Unmarshal_counts_json scrape_values_def r
        scrape_events_def collector_descs_def del: print_json.simps)
qed

theorem Collect_metric_rounds_witness:
  "url_Parse_ok (stats_url ''eui-58a0cbfffe800f0e'') \<and> ValidHeaderFieldValue (''Bearer '' @ ''NNSXS.EXAMPLE'') \<and> Ackr (\<lparr>Ackr = 2 ^ 53 + 1, Lpps = 0, Rxfw = 0, Rxin = 0, Rxok = 0, Txin = 0, Txok = 0\<rparr>) = 2 ^ 53 + 1 \<and>
   fst (Collect (\<lambda>_. Response 200 (print_json (counts_json 1 1
         \<lparr>Ackr = 2 ^ 53 + 1, Lpps = 0, Rxfw = 0, Rxin = 0, Rxok = 0, Txin = 0, Txok = 0\<rparr>)) None)
         (newTtnCollector ''NNSXS.EXAMPLE'' ''eui-58a0cbfffe800f0e'')) ! 3 =
    Send (gauge_metric (metricsAckr (newTtnCollector ''NNSXS.EXAMPLE'' ''eui-58a0cbfffe800f0e'')) (Finite (2 ^ 53)))"
  using Collect_metric_rounds [OF example_config_ok(1,2), of "\<lparr>Ackr = 2 ^ 53 + 1, Lpps = 0, Rxfw = 0, Rxin = 0, Rxok = 0, Txin = 0, Txok = 0\<rparr>" 200 1 1]
  by (simp add: example_config_ok ValidHeaderFieldValue_def ctl_byte_def)

text \<open>
  C17. Whenever a scrape returns, what it sent is one of the specification's
  two outcomes: \<open>up\<close> 0 alone, or \<open>up\<close> 1 followed by the nine other gauges
  in the collector's order. (It does not return in the other cases: C3, C6,
  C7, C8.)
\<close>

theorem Collect_refines_spec:
  assumes "snd (Collect net (newTtnCollector tok gw)) = Returned"
  shows "\<exists>res. sent_pairs (fst (Collect net (newTtnCollector tok gw))) = spec_scrape (newTtnCollector tok gw) res \<and>
           (\<forall>vs. res = Some vs \<longrightarrow> length vs = 9)"
proof -
  let ?c = "newTtnCollector tok gw"
  obtain req where req: "NewRequest ''GET'' (stats_url gw) = Some req"
    using assms by (auto simp: Collect_def split: option.splits)
  let ?r = "client_Do collect_client net (Header_Add ''Authorization'' (''Bearer '' @ tok) req)"
  have c: "Collect net ?c = collect_outcome ?c ?r" by (simp add: Collect_def req)
  show ?thesis
  proof (cases ?r)
    case DoBlocks
    with assms c show ?thesis by (simp add: collect_outcome_def)
  next
    case (DoReturn resp err)
    show ?thesis
    proof (cases resp)
      case None
      with DoReturn assms c show ?thesis by (simp add: collect_outcome_def)
    next
      case (Some rs)
      obtain body rerr where b: "ReadAll (Body rs) = (body, rerr)" by (cases "ReadAll (Body rs)")
      let ?logs = "case err of None \<Rightarrow> [] | Some e \<Rightarrow> [Log (response_error_log e)]"
      have "Collect net ?c = (?logs @ fst (collect_response ?c body rerr), snd (collect_response ?c body rerr))"
        using c DoReturn Some b by (simp add: collect_outcome_def split: prod.splits)
      moreover have "sent_pairs ?logs = []" by (simp split: option.splits)
      ultimately show ?thesis
        using collect_response_shape [of tok gw body rerr] by (simp add: sent_pairs_append)
    qed
  qed
qed

theorem Collect_refines_spec_witness:
  "snd (Collect (\<lambda>_. Response 200 ''{}'' (Some ''EOF'')) (newTtnCollector ''NNSXS.EXAMPLE'' ''eui-58a0cbfffe800f0e'')) = Returned \<and>
   (\<exists>res. sent_pairs (fst (Collect (\<lambda>_. Response 200 ''{}'' (Some ''EOF'')) (newTtnCollector ''NNSXS.EXAMPLE'' ''eui-58a0cbfffe800f0e''))) =
      spec_scrape (newTtnCollector ''NNSXS.EXAMPLE'' ''eui-58a0cbfffe800f0e'') res \<and> (\<forall>vs. res = Some vs \<longrightarrow> length vs = 9))"
proof -
  have r: "snd (Collect (\<lambda>_. Response 200 ''{}'' (Some ''EOF'')) (newTtnCollector ''NNSXS.EXAMPLE'' ''eui-58a0cbfffe800f0e'')) = Returned"
    using collect_response_shape [of "''NNSXS.EXAMPLE''" "''eui-58a0cbfffe800f0e''" "''{}''" "Some ''EOF''"] example_config_ok
    by (simp add: Collect_request collect_outcome_def)
  show ?thesis using Collect_refines_spec [OF r] r by blast
qed

text \<open>
  C18. On every scrape whose body was read, \<open>Collect\<close> sends the ten
  descriptors of the collector, seven of which \<open>Describe\<close> never
  advertises.
\<close>

theorem Collect_sends_undescribed:
  assumes "url_Parse_ok (stats_url gw)" "ValidHeaderFieldValue (''Bearer '' @ tok)"
  shows "map fst (sent_pairs (fst (Collect (\<lambda>_. Response st body None) (newTtnCollector tok gw)))) =
           collector_descs (newTtnCollector tok gw) \<and>
         length (filter (\<lambda>d. d \<notin> set (Describe (newTtnCollector tok gw))) (collector_descs (newTtnCollector tok gw))) = 7"
proof -
  have "sent_pairs (fst (Collect (\<lambda>_. Response st body None) (newTtnCollector tok gw))) =
     zip (collector_descs (newTtnCollector tok gw))
       (Finite 1 # map snd (scrape_values (newTtnCollector tok gw) (fst (Unmarshal_stats body))))"
    using assms by (simp add: Collect_response_ok sent_pairs_scrape_events scrape_values_def)
  moreover have "length (filter (\<lambda>d. d \<notin> set (Describe (newTtnCollector tok gw))) (collector_descs (newTtnCollector tok gw))) = 7"
    by (simp add: collector_descs_newTtnCollector Describe_prefix gauge_desc_def NewDesc_def BuildFQName_def namespace_def)
  ultimately show ?thesis by (simp add: scrape_values_def collector_descs_def)
qed

theorem Collect_sends_undescribed_witness:
  "url_Parse_ok (stats_url ''eui-58a0cbfffe800f0e'') \<and> ValidHeaderFieldValue (''Bearer '' @ ''NNSXS.EXAMPLE'') \<and>
   map fst (sent_pairs (fst (Collect (\<lambda>_. Response 200 ''{}'' None) (newTtnCollector ''NNSXS.EXAMPLE'' ''eui-58a0cbfffe800f0e'')))) = collector_descs (newTtnCollector ''NNSXS.EXAMPLE'' ''eui-58a0cbfffe800f0e'') \<and>
   length (filter (\<lambda>d. d \<notin> set (Describe (newTtnCollector ''NNSXS.EXAMPLE'' ''eui-58a0cbfffe800f0e''))) (collector_descs (newTtnCollector ''NNSXS.EXAMPLE'' ''eui-58a0cbfffe800f0e''))) = 7"
  using Collect_sends_undescribed [OF example_config_ok(1,2), of 200 "''{}''"] example_config_ok by simp

end
