(* ===== verification/Registry.thy ===== *)
theory Registry
  imports Descriptors
begin

text \<open>
  The Prometheus registry that \<open>exporter.Register\<close> mutates
  (client_golang's \<open>Registry.Register\<close> and \<open>Registry.Unregister\<close>), over
  an arbitrary collector type \<open>'c\<close> with its \<open>Describe\<close> given as a
  function \<open>dsc :: 'c \<Rightarrow> desc list\<close>. A descriptor's identity is its
  fully-qualified name with its const labels (client_golang hashes the two);
  a collector's identity is the set of its descriptors' identities
  (client_golang XORs their hashes); the "dimensions" of a name are its help
  text and label names. The state machine of registrations is the inductive
  \<open>reg_reachable\<close>; its invariant \<open>registry_inv\<close> is proved by rule
  induction.
\<close>

type_synonym desc_id = "string \<times> (string \<times> string) list"

type_synonym dim = "string \<times> string list \<times> string list"

record 'c registry =
  collectorsByID :: "desc_id set \<rightharpoonup> 'c"
  descIDs :: "desc_id set"
  dimHashesByName :: "string \<rightharpoonup> dim"
  uncheckedCollectors :: "'c list"

datatype reg_error =
    InvalidDesc string
  | InconsistentDesc string
  | AlreadyRegistered
  | DuplicateDesc string

definition desc_id :: "desc \<Rightarrow> desc_id" where
  "desc_id d = (fqName d, constLabels d)"

definition dim_hash :: "desc \<Rightarrow> dim" where
  "dim_hash d = (desc_help d, map fst (constLabels d), variableLabels d)"

definition empty_registry :: "'c registry" where
  "empty_registry =
     \<lparr>collectorsByID = Map.empty, descIDs = {}, dimHashesByName = Map.empty, uncheckedCollectors = []\<rparr>"

text \<open>
  The loop of \<open>Register\<close> over the descriptors the collector describes: an
  invalid descriptor, or one whose name was seen (registered before, or
  earlier in this collector) with other dimensions, ends it with an error; it
  collects the new identities without repeats, the dimensions of new names,
  and whether an identity was registered before.
\<close>

fun register_scan ::
  "'c registry \<Rightarrow> desc list \<Rightarrow> desc_id list \<Rightarrow> (string \<times> dim) list \<Rightarrow> bool \<Rightarrow>
   reg_error + desc_id list \<times> (string \<times> dim) list \<times> bool" where
  "register_scan r [] ids dims dup = Inr (ids, dims, dup)"
| "register_scan r (d # ds) ids dims dup =
     (if desc_err d \<noteq> None then Inl (InvalidDesc (fqName d))
      else
        let dup' = (dup \<or> desc_id d \<in> descIDs r);
            ids' = (if desc_id d \<in> set ids then ids else ids @ [desc_id d])
        in case dimHashesByName r (fqName d) of
             Some h \<Rightarrow> if h \<noteq> dim_hash d then Inl (InconsistentDesc (fqName d))
                       else register_scan r ds ids' dims dup'
           | None \<Rightarrow>
               (case map_of dims (fqName d) of
                  Some h \<Rightarrow> if h \<noteq> dim_hash d then Inl (InconsistentDesc (fqName d))
                            else register_scan r ds ids' dims dup'
                | None \<Rightarrow> register_scan r ds ids' (dims @ [(fqName d, dim_hash d)]) dup'))"

text \<open>
  \<open>Registry.Register\<close>: a collector that describes nothing is kept as
  unchecked; one whose identity is registered is refused as already
  registered; one that reuses a registered descriptor identity is refused;
  otherwise it is registered with its identities and the new names'
  dimensions.
\<close>

definition Register :: "('c \<Rightarrow> desc list) \<Rightarrow> 'c \<Rightarrow> 'c registry \<Rightarrow> reg_error + 'c registry" where
  "Register dsc c r =
     (case register_scan r (dsc c) [] [] False of
        Inl e \<Rightarrow> Inl e
      | Inr (ids, dims, dup) \<Rightarrow>
          if ids = [] then Inr (r\<lparr>uncheckedCollectors := uncheckedCollectors r @ [c]\<rparr>)
          else if collectorsByID r (set ids) \<noteq> None then Inl AlreadyRegistered
          else if dup then Inl (DuplicateDesc (fst (hd ids)))
          else Inr (r\<lparr>collectorsByID := (collectorsByID r)(set ids \<mapsto> c),
                      descIDs := descIDs r \<union> set ids,
                      dimHashesByName := dimHashesByName r ++ map_of dims\<rparr>))"

text \<open>
  \<open>Registry.Unregister\<close>: removes the collector with the same identity, if
  any, and its descriptor identities; the dimensions stay.
\<close>

definition Unregister :: "('c \<Rightarrow> desc list) \<Rightarrow> 'c \<Rightarrow> 'c registry \<Rightarrow> bool \<times> 'c registry" where
  "Unregister dsc c r =
     (let ids = set (map desc_id (dsc c)) in
      if collectorsByID r ids = None then (False, r)
      else (True, r\<lparr>collectorsByID := (collectorsByID r)(ids := None), descIDs := descIDs r - ids\<rparr>))"

text \<open>
  \<open>MustRegister(cs...)\<close>: registers in turn and panics (\<open>Inl\<close>) on the
  first error.
\<close>

fun MustRegister :: "('c \<Rightarrow> desc list) \<Rightarrow> 'c list \<Rightarrow> 'c registry \<Rightarrow> reg_error + 'c registry" where
  "MustRegister dsc [] r = Inr r"
| "MustRegister dsc (c # cs) r =
     (case Register dsc c r of Inl e \<Rightarrow> Inl e | Inr r' \<Rightarrow> MustRegister dsc cs r')"

subsection \<open>Reachable registries\<close>

inductive reg_reachable :: "('c \<Rightarrow> desc list) \<Rightarrow> 'c registry \<Rightarrow> bool" for dsc where
  reg_empty: "reg_reachable dsc empty_registry"
| reg_register: "reg_reachable dsc r \<Longrightarrow> Register dsc c r = Inr r' \<Longrightarrow> reg_reachable dsc r'"
| reg_unregister: "reg_reachable dsc r \<Longrightarrow> reg_reachable dsc (snd (Unregister dsc c r))"

text \<open>
  The registry's invariant: the registered identities are exactly the union
  of the registered collectors' identities, and two registered collectors
  share no descriptor identity.
\<close>

definition registry_inv :: "'c registry \<Rightarrow> bool" where
  "registry_inv r \<longleftrightarrow>
     descIDs r = \<Union> (dom (collectorsByID r)) \<and>
     (\<forall>k1 \<in> dom (collectorsByID r). \<forall>k2 \<in> dom (collectorsByID r). k1 \<noteq> k2 \<longrightarrow> k1 \<inter> k2 = {})"

subsection \<open>Lemmas: one registration\<close>

lemma register_scan_Inr:
  "register_scan r ds ids dims dup = Inr (ids', dims', dup') \<Longrightarrow>
   set ids' = set ids \<union> desc_id ` set ds \<and>
   (dup' \<longleftrightarrow> dup \<or> (\<exists>d \<in> set ds. desc_id d \<in> descIDs r))"
proof (induction r ds ids dims dup rule: register_scan.induct)
  case (1 r ids dims dup)
  then show ?case by simp
next
  case (2 r d ds ids dims dup)
  then show ?case
    by (auto simp: Let_def split: if_splits option.splits)
qed

lemma Register_Inr:
  assumes "Register dsc c r = Inr r'"
  shows "r' = r\<lparr>uncheckedCollectors := uncheckedCollectors r @ [c]\<rparr> \<or>
    (\<exists>dims. desc_id ` set (dsc c) \<noteq> {} \<and> collectorsByID r (desc_id ` set (dsc c)) = None \<and>
       desc_id ` set (dsc c) \<inter> descIDs r = {} \<and>
       r' = r\<lparr>collectorsByID := (collectorsByID r)(desc_id ` set (dsc c) \<mapsto> c),
              descIDs := descIDs r \<union> desc_id ` set (dsc c),
              dimHashesByName := dimHashesByName r ++ map_of dims\<rparr>)"
proof -
  obtain ids dims dup where sc: "register_scan r (dsc c) [] [] False = Inr (ids, dims, dup)"
    using assms by (auto simp: Register_def split: sum.splits)
  from register_scan_Inr [OF sc] have ids: "set ids = desc_id ` set (dsc c)"
    and dup: "dup \<longleftrightarrow> (\<exists>d \<in> set (dsc c). desc_id d \<in> descIDs r)" by simp_all
  show ?thesis
    using assms ids dup by (auto simp: Register_def sc split: if_splits)
qed

lemma register_scan_fresh:
  assumes "list_all (\<lambda>d. desc_err d = None) ds" "distinct (map fqName ds)"
    and "\<forall>d \<in> set ds. dimHashesByName r (fqName d) = None \<and> desc_id d \<notin> descIDs r \<and>
                      map_of dims (fqName d) = None \<and> desc_id d \<notin> set ids"
  shows "register_scan r ds ids dims dup =
           Inr (ids @ map desc_id ds, dims @ map (\<lambda>d. (fqName d, dim_hash d)) ds, dup)"
  using assms
proof (induction ds arbitrary: ids dims)
  case Nil
  then show ?case by simp
next
  case (Cons d ds)
  have nd: "\<forall>d' \<in> set ds. fqName d' \<noteq> fqName d" using Cons.prems(2) by (auto simp: image_iff)
  have ih: "register_scan r ds (ids @ [desc_id d]) (dims @ [(fqName d, dim_hash d)]) dup =
      Inr ((ids @ [desc_id d]) @ map desc_id ds,
           (dims @ [(fqName d, dim_hash d)]) @ map (\<lambda>d. (fqName d, dim_hash d)) ds, dup)"
  proof (rule Cons.IH)
    show "list_all (\<lambda>d. desc_err d = None) ds" using Cons.prems(1) by simp
    show "distinct (map fqName ds)" using Cons.prems(2) by simp
    show "\<forall>d' \<in> set ds. dimHashesByName r (fqName d') = None \<and> desc_id d' \<notin> descIDs r \<and>
        map_of (dims @ [(fqName d, dim_hash d)]) (fqName d') = None \<and> desc_id d' \<notin> set (ids @ [desc_id d])"
      using Cons.prems(3) nd by (auto simp: desc_id_def)
  qed
  with Cons.prems show ?case by (simp add: Let_def)
qed

lemma Register_fresh:
  assumes "list_all (\<lambda>d. desc_err d = None) (dsc c)" "distinct (map fqName (dsc c))" "dsc c \<noteq> []"
    and "\<forall>d \<in> set (dsc c). dimHashesByName r (fqName d) = None \<and> desc_id d \<notin> descIDs r"
    and "collectorsByID r (desc_id ` set (dsc c)) = None"
  shows "Register dsc c r =
    Inr (r\<lparr>collectorsByID := (collectorsByID r)(desc_id ` set (dsc c) \<mapsto> c),
           descIDs := descIDs r \<union> desc_id ` set (dsc c),
           dimHashesByName := dimHashesByName r ++ map_of (map (\<lambda>d. (fqName d, dim_hash d)) (dsc c))\<rparr>)"
proof -
  have "register_scan r (dsc c) [] [] False =
      Inr (map desc_id (dsc c), map (\<lambda>d. (fqName d, dim_hash d)) (dsc c), False)"
    using register_scan_fresh [OF assms(1,2), of r "[]" "[]" False] assms(4) by simp
  with assms(3,5) show ?thesis by (simp add: Register_def)
qed

lemma register_scan_keeps_dims:
  "register_scan r ds ids dims dup = Inr (ids', dims', dup') \<Longrightarrow>
   dimHashesByName r n \<noteq> None \<Longrightarrow> map_of dims n = None \<Longrightarrow> map_of dims' n = None"
proof (induction r ds ids dims dup rule: register_scan.induct)
  case (1 r ids dims dup)
  then show ?case by simp
next
  case (2 r d ds ids dims dup)
  then show ?case by (cases "n = fqName d") (auto simp: Let_def split: if_splits option.splits)
qed

lemma register_scan_names:
  "register_scan r ds ids dims dup = Inr (ids', dims', dup') \<Longrightarrow>
   fst ` set dims' \<subseteq> fst ` set dims \<union> fqName ` set ds"
proof (induction ds arbitrary: ids dims dup)
  case Nil
  then show ?case by simp
next
  case (Cons d ds)
  let ?dup = "dup \<or> desc_id d \<in> descIDs r"
  let ?ids = "if desc_id d \<in> set ids then ids else ids @ [desc_id d]"
  have "register_scan r ds ?ids dims ?dup = Inr (ids', dims', dup') \<or>
        register_scan r ds ?ids (dims @ [(fqName d, dim_hash d)]) ?dup = Inr (ids', dims', dup')"
    using Cons.prems by (auto simp: Let_def split: if_splits option.splits)
  then show ?case
  proof
    assume "register_scan r ds ?ids dims ?dup = Inr (ids', dims', dup')"
    from Cons.IH [OF this] show ?thesis by auto
  next
    assume "register_scan r ds ?ids (dims @ [(fqName d, dim_hash d)]) ?dup = Inr (ids', dims', dup')"
    from Cons.IH [OF this] show ?thesis by auto
  qed
qed

lemma Register_keeps:
  assumes "Register dsc c r = Inr r'"
  shows "collectorsByID r K = Some x \<Longrightarrow> collectorsByID r' K = Some x"
    and "dimHashesByName r n = Some h \<Longrightarrow> dimHashesByName r' n = Some h"
proof -
  obtain ids dims dup where sc: "register_scan r (dsc c) [] [] False = Inr (ids, dims, dup)"
    using assms by (auto simp: Register_def split: sum.splits)
  show "collectorsByID r K = Some x \<Longrightarrow> collectorsByID r' K = Some x"
    using assms by (auto simp: Register_def sc split: if_splits)
  assume h: "dimHashesByName r n = Some h"
  have "map_of dims n = None" using register_scan_keeps_dims [OF sc, of n] h by simp
  with h assms show "dimHashesByName r' n = Some h"
    by (auto simp: Register_def sc map_add_def split: if_splits)
qed

lemma Register_single_dim:
  assumes "Register dsc c r = Inr r'" "dsc c = [d]"
  shows "dimHashesByName r' (fqName d) = Some (dim_hash d)"
  using assms by (auto simp: Register_def Let_def map_add_def split: if_splits option.splits)

lemma Register_registers:
  assumes "Register dsc c r = Inr r'" "dsc c \<noteq> []"
  shows "collectorsByID r' (desc_id ` set (dsc c)) = Some c"
proof -
  obtain ids dims dup where sc: "register_scan r (dsc c) [] [] False = Inr (ids, dims, dup)"
    using assms by (auto simp: Register_def split: sum.splits)
  from register_scan_Inr [OF sc] have ids: "set ids = desc_id ` set (dsc c)" by simp
  with assms(2) have "ids \<noteq> []" by auto
  with assms(1) ids show ?thesis by (auto simp: Register_def sc split: if_splits)
qed

lemma Register_other_name:
  assumes "Register dsc c r = Inr r'" "n \<notin> fqName ` set (dsc c)"
  shows "dimHashesByName r' n = dimHashesByName r n \<and> ((n, l) \<in> descIDs r' \<longleftrightarrow> (n, l) \<in> descIDs r)"
proof -
  obtain ids dims dup where sc: "register_scan r (dsc c) [] [] False = Inr (ids, dims, dup)"
    using assms by (auto simp: Register_def split: sum.splits)
  from register_scan_Inr [OF sc] have ids: "set ids = desc_id ` set (dsc c)" by simp
  from register_scan_names [OF sc] assms(2) have "map_of dims n = None"
    by (auto simp: map_of_eq_None_iff)
  moreover have "(n, l) \<notin> set ids" using ids assms(2) by (auto simp: desc_id_def)
  ultimately show ?thesis using assms(1) by (auto simp: Register_def sc map_add_def split: if_splits)
qed

lemma Unregister_collectors:
  "collectorsByID (snd (Unregister dsc c r)) = (collectorsByID r)(desc_id ` set (dsc c) := None)"
  by (auto simp: Unregister_def Let_def)

lemma Unregister_dims [simp]:
  "dimHashesByName (snd (Unregister dsc c r)) = dimHashesByName r"
  by (simp add: Unregister_def Let_def)

lemma registry_inv_empty: "registry_inv empty_registry"
  by (simp add: registry_inv_def empty_registry_def)

lemma registry_inv_key:
  "registry_inv r \<Longrightarrow> collectorsByID r K = Some x \<Longrightarrow> K \<subseteq> descIDs r"
  by (auto simp: registry_inv_def)

lemma registry_inv_Register:
  "registry_inv r \<Longrightarrow> Register dsc c r = Inr r' \<Longrightarrow> registry_inv r'"
proof -
  assume inv: "registry_inv r" and reg: "Register dsc c r = Inr r'"
  let ?K = "desc_id ` set (dsc c)"
  from Register_Inr [OF reg] show ?thesis
  proof
    assume "r' = r\<lparr>uncheckedCollectors := uncheckedCollectors r @ [c]\<rparr>"
    with inv show ?thesis by (simp add: registry_inv_def)
  next
    assume "\<exists>dims. ?K \<noteq> {} \<and> collectorsByID r ?K = None \<and> ?K \<inter> descIDs r = {} \<and>
       r' = r\<lparr>collectorsByID := (collectorsByID r)(?K \<mapsto> c), descIDs := descIDs r \<union> ?K,
              dimHashesByName := dimHashesByName r ++ map_of dims\<rparr>"
    then obtain dims where new: "collectorsByID r ?K = None" and disj: "?K \<inter> descIDs r = {}"
      and r': "r' = r\<lparr>collectorsByID := (collectorsByID r)(?K \<mapsto> c), descIDs := descIDs r \<union> ?K,
              dimHashesByName := dimHashesByName r ++ map_of dims\<rparr>" by blast
    have ids: "descIDs r = \<Union> (dom (collectorsByID r))"
      and pw: "\<forall>k1 \<in> dom (collectorsByID r). \<forall>k2 \<in> dom (collectorsByID r). k1 \<noteq> k2 \<longrightarrow> k1 \<inter> k2 = {}"
      using inv by (simp_all add: registry_inv_def)
    have d: "dom (collectorsByID r') = insert ?K (dom (collectorsByID r))" by (simp add: r')
    have k: "\<forall>k \<in> dom (collectorsByID r). ?K \<inter> k = {} \<and> k \<inter> ?K = {}" using disj ids by blast
    have "\<forall>k1 \<in> dom (collectorsByID r'). \<forall>k2 \<in> dom (collectorsByID r'). k1 \<noteq> k2 \<longrightarrow> k1 \<inter> k2 = {}"
      unfolding d using pw k by (intro ballI impI) (elim insertE; simp)
    moreover have "descIDs r' = \<Union> (dom (collectorsByID r'))" unfolding d by (simp add: r' ids Un_ac)
    ultimately show ?thesis by (simp add: registry_inv_def)
  qed
qed

lemma registry_inv_Unregister:
  assumes "registry_inv r"
  shows "registry_inv (snd (Unregister dsc c r))"
proof -
  let ?K = "set (map desc_id (dsc c))"
  show ?thesis
  proof (cases "collectorsByID r ?K = None")
    case True
    with assms show ?thesis by (simp add: Unregister_def)
  next
    case False
    then have K: "?K \<in> dom (collectorsByID r)" by auto
    have pw: "\<forall>k1 \<in> dom (collectorsByID r). \<forall>k2 \<in> dom (collectorsByID r). k1 \<noteq> k2 \<longrightarrow> k1 \<inter> k2 = {}"
      using assms by (simp add: registry_inv_def)
    have "\<Union> (dom (collectorsByID r)) - ?K = \<Union> (dom (collectorsByID r) - {?K})"
      using pw K by blast
    moreover have "dom ((collectorsByID r)(?K := None)) = dom (collectorsByID r) - {?K}" by simp
    ultimately show ?thesis
      using assms False pw by (simp add: Unregister_def registry_inv_def Let_def del: set_map)
  qed
qed

text \<open>Every reachable registry satisfies the invariant.\<close>

lemma reg_reachable_inv: "reg_reachable dsc r \<Longrightarrow> registry_inv r"
proof (induction rule: reg_reachable.induct)
  case reg_empty
  show ?case by (rule registry_inv_empty)
next
  case (reg_register r c r')
  from reg_register.IH reg_register.hyps(2) show ?case by (rule registry_inv_Register)
next
  case (reg_unregister r c)
  from reg_unregister.IH show ?case by (rule registry_inv_Unregister)
qed

end
