(* ===== verification/Exporter.thy ===== *)
theory Exporter
  imports Registry Collector
begin

text \<open>
  Registration and startup. \<open>exporter.Register\<close>
  (\<open>src/exporter/ttn_exporter.go\<close>, lines 180-186) is \<open>exporter_Register\<close>:
  it registers the version collector and the ttn collector with the default
  registry (\<open>MustRegister\<close>, a panic on error) and unregisters the Go
  collector. The collectors the registry holds are \<open>exp_collector\<close>s whose
  \<open>describe\<close> is the ttn collector's \<open>Describe\<close>, the version collector's
  single build-info gauge (\<open>version.NewCollector\<close>), and the library's Go and
  process collectors with their descriptor lists as parameters (they depend
  on the client_golang version, which the repository does not pin).
  \<open>default_registry\<close> is client_golang's \<open>init\<close>. \<open>serverMetrics\<close> and
  \<open>main_run\<close> are \<open>src/main.go\<close>: the metrics handler is added to the
  default mux (\<open>http.Handle\<close> panics on an empty or a repeated pattern; the
  pattern syntax of newer Go versions is not modelled), the token and
  gateway are read from the environment, \<open>Register\<close> runs, and the server
  listens.
\<close>

datatype exp_collector =
    TtnColl ttnCollector
  | VersionColl string "(string \<times> string) list"
  | GoColl "desc list"
  | ProcessColl "desc list"

definition version_help :: "string \<Rightarrow> string" where
  "version_help program =
     ''A metric with a constant '' @ CHR 0x27 # ''1'' @ CHR 0x27 #
     '' value labeled by version, revision, branch, goversion from which '' @ program @
     '' was built, and the goos and goarch for the build.''"

definition version_label_names :: "string list" where
  "version_label_names = [''branch'', ''goarch'', ''goos'', ''goversion'', ''revision'', ''tags'', ''version'']"

definition version_NewCollector :: "string \<Rightarrow> string list \<Rightarrow> exp_collector" where
  "version_NewCollector program vals = VersionColl program (zip version_label_names vals)"

fun describe :: "exp_collector \<Rightarrow> desc list" where
  "describe (TtnColl c) = Describe c"
| "describe (VersionColl p ls) = [NewDesc (BuildFQName p [] ''build_info'') (version_help p) [] ls]"
| "describe (GoColl ds) = ds"
| "describe (ProcessColl ds) = ds"

type_synonym exp_registry = "exp_collector registry"

definition default_registry :: "desc list \<Rightarrow> desc list \<Rightarrow> reg_error + exp_registry" where
  "default_registry pds gds = MustRegister describe [ProcessColl pds, GoColl gds] empty_registry"

definition exporter_Register ::
  "string \<Rightarrow> string \<Rightarrow> string list \<Rightarrow> desc list \<Rightarrow> exp_registry \<Rightarrow> reg_error + exp_registry" where
  "exporter_Register tok gw bvals gds r =
     (let collector = newTtnCollector tok gw in
      case MustRegister describe [version_NewCollector ''ttn_exporter'' bvals] r of
        Inl e \<Rightarrow> Inl e
      | Inr r1 \<Rightarrow>
          (case MustRegister describe [TtnColl collector] r1 of
             Inl e \<Rightarrow> Inl e
           | Inr r2 \<Rightarrow> Inr (snd (Unregister describe (GoColl gds) r2))))"

subsection \<open>Startup: main.go\<close>

definition listenAddress_default :: string where
  "listenAddress_default = '':9101''"

definition metricPath_default :: string where
  "metricPath_default = ''/metrics''"

record process =
  mux :: "string list"
  reg :: exp_registry

datatype server_end =
    HandlePanic string
  | RegisterPanic reg_error
  | Listening process string

definition getenv :: "(string \<rightharpoonup> string) \<Rightarrow> string \<Rightarrow> string" where
  "getenv env k = (case env k of Some v \<Rightarrow> v | None \<Rightarrow> [])"

definition http_Handle :: "string \<Rightarrow> string list \<Rightarrow> string + string list" where
  "http_Handle pattern m =
     (if pattern = [] then Inl ''http: invalid pattern''
      else if pattern \<in> set m then Inl (''http: multiple registrations for '' @ pattern)
      else Inr (m @ [pattern]))"

definition serverMetrics ::
  "(string \<rightharpoonup> string) \<Rightarrow> string list \<Rightarrow> desc list \<Rightarrow> string \<Rightarrow> string \<Rightarrow> process \<Rightarrow> server_end" where
  "serverMetrics env bvals gds listenAddress metricsPath p =
     (case http_Handle metricsPath (mux p) of
        Inl e \<Rightarrow> HandlePanic e
      | Inr m \<Rightarrow>
          (let apiToken = getenv env ''TTN_TOKEN'';
               gwName = getenv env ''TTN_GATEWAY_NAME''
           in case exporter_Register apiToken gwName bvals gds (reg p) of
                Inl e \<Rightarrow> RegisterPanic e
              | Inr r \<Rightarrow> Listening (p\<lparr>mux := m, reg := r\<rparr>) listenAddress))"

text \<open>
  \<open>main\<close>: the two flags are declared with their defaults but
  \<open>flag.Parse\<close> is never called, so \<open>serverMetrics\<close> always gets the
  defaults. \<open>log.Fatal\<close> is reached only if the server stops.
\<close>

definition main_run ::
  "(string \<rightharpoonup> string) \<Rightarrow> string list \<Rightarrow> desc list \<Rightarrow> process \<Rightarrow> string list \<times> server_end" where
  "main_run env bvals gds p =
     ([''Starting ttn_exporter''], serverMetrics env bvals gds listenAddress_default metricPath_default p)"

text \<open>
  The names the exporter registers: the version collector's build-info gauge
  and the three descriptors \<open>Describe\<close> sends.
\<close>

definition ttn_names :: "string list" where
  "ttn_names = [''ttn_exporter_build_info'', ''ttn_up'', ''ttn_uplink_count'', ''ttn_downlink_count'']"

text \<open>
  An abridged descriptor set of client_golang's process and Go collectors,
  for the witnesses below (the real sets depend on the library version).
\<close>

definition example_process_descs :: "desc list" where
  "example_process_descs = [NewDesc ''process_cpu_seconds_total'' ''Total user and system CPU time spent in seconds.'' [] []]"

definition example_go_descs :: "desc list" where
  "example_go_descs =
     [NewDesc ''go_goroutines'' ''Number of goroutines that currently exist.'' [] [],
      NewDesc ''go_threads'' ''Number of OS threads created.'' [] []]"

subsection \<open>Lemmas: registration\<close>

lemma version_desc:
  "describe (version_NewCollector ''ttn_exporter'' bvals) =
     [NewDesc ''ttn_exporter_build_info'' (version_help ''ttn_exporter'') [] (zip version_label_names bvals)]"
  by (simp add: version_NewCollector_def BuildFQName_def)

lemma valid_build_info: "IsValidMetricName ''ttn_exporter_build_info''"
  by (simp add: IsValidMetricName_def metric_name_char_def)

lemma exporter_Register_steps:
  assumes "exporter_Register tok gw bvals gds r = Inr r'"
  obtains r1 r2 where "Register describe (version_NewCollector ''ttn_exporter'' bvals) r = Inr r1"
    "Register describe (TtnColl (newTtnCollector tok gw)) r1 = Inr r2"
    "r' = snd (Unregister describe (GoColl gds) r2)"
  using assms by (auto simp: exporter_Register_def Let_def split: sum.splits)

lemma exporter_Register_fresh:
  assumes inv: "registry_inv r"
    and free: "\<forall>n \<in> set ttn_names. dimHashesByName r n = None \<and> (\<forall>l. (n, l) \<notin> descIDs r)"
    and go: "\<forall>d \<in> set gds. fqName d \<notin> set ttn_names"
  shows "\<exists>r'. exporter_Register tok gw bvals gds r = Inr r' \<and>
    collectorsByID r' (desc_id ` set (Describe (newTtnCollector tok gw))) = Some (TtnColl (newTtnCollector tok gw)) \<and>
    collectorsByID r' (desc_id ` set (describe (version_NewCollector ''ttn_exporter'' bvals))) =
      Some (version_NewCollector ''ttn_exporter'' bvals) \<and>
    collectorsByID r' (desc_id ` set gds) = None"
proof -
  let ?v = "version_NewCollector ''ttn_exporter'' bvals"
  let ?c = "TtnColl (newTtnCollector tok gw)"
  let ?vk = "desc_id ` set (describe ?v)"
  let ?tk = "desc_id ` set (describe ?c)"
  let ?gk = "desc_id ` set gds"
  have vk_free: "collectorsByID r ?vk = None"
  proof (rule ccontr)
    assume "collectorsByID r ?vk \<noteq> None"
    then obtain x where "collectorsByID r ?vk = Some x" by blast
    from registry_inv_key [OF inv this] free show False
      by (simp add: version_desc desc_id_def NewDesc_def ttn_names_def)
  qed
  have tk_free: "collectorsByID r ?tk = None"
  proof (rule ccontr)
    assume "collectorsByID r ?tk \<noteq> None"
    then obtain x where "collectorsByID r ?tk = Some x" by blast
    from registry_inv_key [OF inv this] free show False
      by (simp add: Describe_descs desc_id_def NewDesc_def ttn_names_def)
  qed
  let ?r1 = "r\<lparr>collectorsByID := (collectorsByID r)(?vk \<mapsto> ?v), descIDs := descIDs r \<union> ?vk,
     dimHashesByName := dimHashesByName r ++ map_of (map (\<lambda>d. (fqName d, dim_hash d)) (describe ?v))\<rparr>"
  have r1: "Register describe ?v r = Inr ?r1"
  proof (rule Register_fresh)
    show "list_all (\<lambda>d. desc_err d = None) (describe ?v)"
      by (simp add: version_desc NewDesc_def IsValidMetricName_def metric_name_char_def)
    show "distinct (map fqName (describe ?v))" "describe ?v \<noteq> []" by (simp_all add: version_desc)
    have "dimHashesByName r ''ttn_exporter_build_info'' = None"
      "\<forall>l. (''ttn_exporter_build_info'', l) \<notin> descIDs r" using free by (simp_all add: ttn_names_def)
    then show "\<forall>d \<in> set (describe ?v). dimHashesByName r (fqName d) = None \<and> desc_id d \<notin> descIDs r"
      by (simp add: version_desc NewDesc_def desc_id_def)
    show "collectorsByID r ?vk = None" by (rule vk_free)
  qed
  have up_tk: "(''ttn_up'', []) \<in> ?tk" by (simp add: Describe_descs desc_id_def NewDesc_def)
  have up_vk: "(''ttn_up'', []) \<notin> ?vk" by (simp add: version_desc desc_id_def NewDesc_def)
  have tv: "?tk \<noteq> ?vk" using up_tk up_vk by blast
  let ?r2 = "?r1\<lparr>collectorsByID := (collectorsByID ?r1)(?tk \<mapsto> ?c), descIDs := descIDs ?r1 \<union> ?tk,
     dimHashesByName := dimHashesByName ?r1 ++ map_of (map (\<lambda>d. (fqName d, dim_hash d)) (describe ?c))\<rparr>"
  have r2: "Register describe ?c ?r1 = Inr ?r2"
  proof (rule Register_fresh)
    show "list_all (\<lambda>d. desc_err d = None) (describe ?c)"
      by (simp add: Describe_descs NewDesc_def IsValidMetricName_def metric_name_char_def)
    show "distinct (map fqName (describe ?c))" "describe ?c \<noteq> []" by (simp_all add: Describe_descs NewDesc_def)
    have "\<forall>n \<in> {''ttn_up'', ''ttn_uplink_count'', ''ttn_downlink_count''}.
        dimHashesByName r n = None \<and> (\<forall>l. (n, l) \<notin> descIDs r)" using free by (simp add: ttn_names_def)
    then show "\<forall>d \<in> set (describe ?c). dimHashesByName ?r1 (fqName d) = None \<and> desc_id d \<notin> descIDs ?r1"
      by (simp add: Describe_descs version_desc NewDesc_def desc_id_def map_add_def)
    show "collectorsByID ?r1 ?tk = None" using tk_free tv by simp
  qed
  have up_gk: "(''ttn_up'', []) \<notin> ?gk" using go by (auto simp: desc_id_def ttn_names_def)
  have bi_vk: "(''ttn_exporter_build_info'', zip version_label_names bvals) \<in> ?vk"
    by (simp add: version_desc desc_id_def NewDesc_def)
  have bi_gk: "(''ttn_exporter_build_info'', zip version_label_names bvals) \<notin> ?gk"
    using go by (auto simp: desc_id_def ttn_names_def)
  have gt: "?gk \<noteq> ?tk" "?gk \<noteq> ?vk" using up_tk up_gk bi_vk bi_gk by blast+
  have m1: "MustRegister describe [?v] r = Inr ?r1" using r1 by simp
  have m2: "MustRegister describe [?c] ?r1 = Inr ?r2" using r2 by simp
  have e: "exporter_Register tok gw bvals gds r = Inr (snd (Unregister describe (GoColl gds) ?r2))"
    unfolding exporter_Register_def Let_def by (simp only: m1 m2 sum.case)
  show ?thesis
    using tv gt not_sym [OF tv] not_sym [OF gt(1)] not_sym [OF gt(2)] by (simp add: e Unregister_collectors)
qed

lemma default_registry_ok:
  assumes "default_registry pds gds = Inr r0" "\<forall>d \<in> set (pds @ gds). fqName d \<notin> set ttn_names"
  shows "reg_reachable describe r0 \<and>
    (\<forall>n \<in> set ttn_names. dimHashesByName r0 n = None \<and> (\<forall>l. (n, l) \<notin> descIDs r0))"
proof -
  obtain r1 where s1: "Register describe (ProcessColl pds) empty_registry = Inr r1"
    and s2: "Register describe (GoColl gds) r1 = Inr r0"
    using assms(1) by (auto simp: default_registry_def split: sum.splits)
  have "reg_reachable describe r0" using s1 s2 by (blast intro: reg_empty reg_register)
  moreover have "\<forall>n \<in> set ttn_names. dimHashesByName r0 n = None \<and> (\<forall>l. (n, l) \<notin> descIDs r0)"
  proof (intro ballI conjI allI)
    fix n l assume n: "n \<in> set ttn_names"
    have np: "n \<notin> fqName ` set (describe (ProcessColl pds))" and ng: "n \<notin> fqName ` set (describe (GoColl gds))"
      using assms(2) n by auto
    from Register_other_name [OF s1 np, of l] Register_other_name [OF s2 ng, of l]
    show "dimHashesByName r0 n = None" "(n, l) \<notin> descIDs r0" by (simp_all add: empty_registry_def)
  qed
  ultimately show ?thesis by blast
qed

lemma example_default_registry:
  "\<exists>r0. default_registry example_process_descs example_go_descs = Inr r0 \<and> reg_reachable describe r0 \<and>
     (\<forall>n \<in> set ttn_names. dimHashesByName r0 n = None \<and> (\<forall>l. (n, l) \<notin> descIDs r0))"
proof -
  have names: "\<forall>d \<in> set (example_process_descs @ example_go_descs). fqName d \<notin> set ttn_names"
    by (simp add: example_process_descs_def example_go_descs_def NewDesc_def ttn_names_def)
  have "\<exists>r0. default_registry example_process_descs example_go_descs = Inr r0"
    by (simp add: default_registry_def example_process_descs_def example_go_descs_def Register_def NewDesc_def
        IsValidMetricName_def metric_name_char_def desc_id_def empty_registry_def dim_hash_def)
  then show ?thesis using default_registry_ok names by blast
qed

subsection \<open>Properties of registration and startup\<close>

text \<open>
  C14. \<open>serverMetrics\<close> on a process whose registry is consistent and does not
  yet hold the exporter's names registers the metrics path and, with the
  token and gateway read from \<open>TTN_TOKEN\<close> and \<open>TTN_GATEWAY_NAME\<close> (the
  empty string when unset), the ttn collector and the version collector, and
  removes the Go collector; it then listens.
\<close>

theorem serverMetrics_registers:
  assumes inv: "registry_inv (reg p)"
    and free: "\<forall>n \<in> set ttn_names. dimHashesByName (reg p) n = None \<and> (\<forall>l. (n, l) \<notin> descIDs (reg p))"
    and go: "\<forall>d \<in> set gds. fqName d \<notin> set ttn_names"
    and path: "mp \<noteq> []" "mp \<notin> set (mux p)"
  shows "\<exists>p'. serverMetrics env bvals gds la mp p = Listening p' la \<and> mux p' = mux p @ [mp] \<and>
    collectorsByID (reg p') (desc_id ` set (Describe (newTtnCollector (getenv env ''TTN_TOKEN'') (getenv env ''TTN_GATEWAY_NAME'')))) =
      Some (TtnColl (newTtnCollector (getenv env ''TTN_TOKEN'') (getenv env ''TTN_GATEWAY_NAME''))) \<and>
    collectorsByID (reg p') (desc_id ` set (describe (version_NewCollector ''ttn_exporter'' bvals))) =
      Some (version_NewCollector ''ttn_exporter'' bvals) \<and>
    collectorsByID (reg p') (desc_id ` set gds) = None"
proof -
  obtain r' where e: "exporter_Register (getenv env ''TTN_TOKEN'') (getenv env ''TTN_GATEWAY_NAME'') bvals gds (reg p) = Inr r'"
    and facts: "collectorsByID r' (desc_id ` set (Describe (newTtnCollector (getenv env ''TTN_TOKEN'') (getenv env ''TTN_GATEWAY_NAME'')))) =
      Some (TtnColl (newTtnCollector (getenv env ''TTN_TOKEN'') (getenv env ''TTN_GATEWAY_NAME'')))"
      "collectorsByID r' (desc_id ` set (describe (version_NewCollector ''ttn_exporter'' bvals))) =
      Some (version_NewCollector ''ttn_exporter'' bvals)"
      "collectorsByID r' (desc_id ` set gds) = None"
    using exporter_Register_fresh [OF inv free go] by blast
  have "serverMetrics env bvals gds la mp p = Listening (p\<lparr>mux := mux p @ [mp], reg := r'\<rparr>) la"
    using path e by (simp add: serverMetrics_def http_Handle_def Let_def)
  with facts show ?thesis by auto
qed

theorem serverMetrics_registers_witness:
  "\<exists>r0. registry_inv r0 \<and>
     (\<forall>n \<in> set ttn_names. dimHashesByName r0 n = None \<and> (\<forall>l. (n, l) \<notin> descIDs r0)) \<and>
     (\<forall>d \<in> set example_go_descs. fqName d \<notin> set ttn_names) \<and> ''/metrics'' \<noteq> [] \<and> ''/metrics'' \<notin> set [] \<and>
     (\<exists>p'. serverMetrics Map.empty [] example_go_descs '':9101'' ''/metrics'' \<lparr>mux = [], reg = r0\<rparr> = Listening p' '':9101'' \<and>
        mux p' = [''/metrics''] \<and>
        collectorsByID (reg p') (desc_id ` set (Describe (newTtnCollector [] []))) = Some (TtnColl (newTtnCollector [] [])) \<and>
        collectorsByID (reg p') (desc_id ` set (describe (version_NewCollector ''ttn_exporter'' []))) =
          Some (version_NewCollector ''ttn_exporter'' []) \<and>
        collectorsByID (reg p') (desc_id ` set example_go_descs) = None)"
proof -
  obtain r0 where r0: "reg_reachable describe r0"
    "\<forall>n \<in> set ttn_names. dimHashesByName r0 n = None \<and> (\<forall>l. (n, l) \<notin> descIDs r0)"
    using example_default_registry by blast
  have inv: "registry_inv r0" using reg_reachable_inv [OF r0(1)] .
  have go: "\<forall>d \<in> set example_go_descs. fqName d \<notin> set ttn_names"
    by (simp add: example_go_descs_def NewDesc_def ttn_names_def)
  have "registry_inv (reg \<lparr>mux = [], reg = r0\<rparr>)" using inv by simp
  from serverMetrics_registers [OF this _ go, of "''/metrics''" Map.empty "[]" "'':9101''"] r0(2) inv go
  show ?thesis by (auto simp: getenv_def)
qed

text \<open>
  C15. \<open>exporter.Register\<close> can run only once per registry: a second call,
  for any token and gateway, fails with \<open>AlreadyRegistered\<close> on the version
  collector, which \<open>MustRegister\<close> turns into a panic.
\<close>

theorem exporter_Register_twice:
  assumes "exporter_Register tok gw bvals gds r = Inr r'"
    and "''ttn_exporter_build_info'' \<notin> fqName ` set gds"
  shows "exporter_Register tok2 gw2 bvals gds r' = Inl AlreadyRegistered"
proof -
  let ?v = "version_NewCollector ''ttn_exporter'' bvals"
  let ?vd = "NewDesc ''ttn_exporter_build_info'' (version_help ''ttn_exporter'') [] (zip version_label_names bvals)"
  obtain r1 r2 where s1: "Register describe ?v r = Inr r1"
    and s2: "Register describe (TtnColl (newTtnCollector tok gw)) r1 = Inr r2"
    and s3: "r' = snd (Unregister describe (GoColl gds) r2)"
    using exporter_Register_steps [OF assms(1)] by blast
  have vk: "desc_id ` set (describe ?v) = {desc_id ?vd}" by (simp add: version_desc)
  have "collectorsByID r1 {desc_id ?vd} = Some ?v"
    using Register_registers [OF s1] vk by (simp add: version_desc)
  then have "collectorsByID r2 {desc_id ?vd} = Some ?v" by (rule Register_keeps(1) [OF s2])
  moreover have "desc_id ?vd \<notin> desc_id ` set gds"
    using assms(2) by (auto simp: desc_id_def NewDesc_def)
  then have "desc_id ` set gds \<noteq> {desc_id ?vd}" by blast
  ultimately have c: "collectorsByID r' {desc_id ?vd} = Some ?v"
    by (simp add: s3 Unregister_collectors)
  have "dimHashesByName r1 (fqName ?vd) = Some (dim_hash ?vd)"
    by (rule Register_single_dim [OF s1]) (simp add: version_desc)
  then have "dimHashesByName r2 (fqName ?vd) = Some (dim_hash ?vd)" by (rule Register_keeps(2) [OF s2])
  then have d: "dimHashesByName r' ''ttn_exporter_build_info'' = Some (dim_hash ?vd)"
    by (simp add: s3 NewDesc_def)
  have "Register describe ?v r' = Inl AlreadyRegistered"
    using c d by (simp add: Register_def version_desc valid_build_info Let_def NewDesc_def)
  then show ?thesis by (simp add: exporter_Register_def)
qed

theorem exporter_Register_twice_witness:
  "\<exists>r0 r'. exporter_Register ''KEY'' ''gw-1'' [] example_go_descs r0 = Inr r' \<and>
     ''ttn_exporter_build_info'' \<notin> fqName ` set example_go_descs \<and>
     exporter_Register ''KEY'' ''gw-2'' [] example_go_descs r' = Inl AlreadyRegistered"
proof -
  obtain r0 where r0: "reg_reachable describe r0"
    "\<forall>n \<in> set ttn_names. dimHashesByName r0 n = None \<and> (\<forall>l. (n, l) \<notin> descIDs r0)"
    using example_default_registry by blast
  have go: "\<forall>d \<in> set example_go_descs. fqName d \<notin> set ttn_names"
    and bi: "''ttn_exporter_build_info'' \<notin> fqName ` set example_go_descs"
    by (simp_all add: example_go_descs_def NewDesc_def ttn_names_def)
  obtain r' where r': "exporter_Register ''KEY'' ''gw-1'' [] example_go_descs r0 = Inr r'"
    using exporter_Register_fresh [OF reg_reachable_inv [OF r0(1)] r0(2) go] by blast
  show ?thesis using exporter_Register_twice [OF r' bi] r' bi by blast
qed



text \<open>
  C20. Started on the default registry (client_golang's process and Go
  collectors, whatever their descriptors, as long as they use none of the
  exporter's names), \<open>main\<close> logs its start line and, for any environment,
  ends up listening on \<open>:9101\<close> with \<open>/metrics\<close> as the only pattern of
  the mux and the ttn collector registered for the token and gateway read
  from the environment: the flags have no effect.
\<close>

theorem main_run_listens:
  assumes "default_registry pds gds = Inr r0" "\<forall>d \<in> set (pds @ gds). fqName d \<notin> set ttn_names"
  shows "\<exists>p'. main_run env bvals gds \<lparr>mux = [], reg = r0\<rparr> = ([''Starting ttn_exporter''], Listening p' '':9101'') \<and>
    mux p' = [''/metrics''] \<and>
    collectorsByID (reg p') (desc_id ` set (Describe (newTtnCollector (getenv env ''TTN_TOKEN'') (getenv env ''TTN_GATEWAY_NAME'')))) =
      Some (TtnColl (newTtnCollector (getenv env ''TTN_TOKEN'') (getenv env ''TTN_GATEWAY_NAME'')))"
proof -
  have r0: "reg_reachable describe r0"
    "\<forall>n \<in> set ttn_names. dimHashesByName r0 n = None \<and> (\<forall>l. (n, l) \<notin> descIDs r0)"
    using default_registry_ok [OF assms] by blast+
  have go: "\<forall>d \<in> set gds. fqName d \<notin> set ttn_names" using assms(2) by simp
  obtain r' where e: "exporter_Register (getenv env ''TTN_TOKEN'') (getenv env ''TTN_GATEWAY_NAME'') bvals gds r0 = Inr r'"
    and t: "collectorsByID r' (desc_id ` set (Describe (newTtnCollector (getenv env ''TTN_TOKEN'') (getenv env ''TTN_GATEWAY_NAME'')))) =
      Some (TtnColl (newTtnCollector (getenv env ''TTN_TOKEN'') (getenv env ''TTN_GATEWAY_NAME'')))"
    using exporter_Register_fresh [OF reg_reachable_inv [OF r0(1)] r0(2) go] by blast
  have "main_run env bvals gds \<lparr>mux = [], reg = r0\<rparr> =
      ([''Starting ttn_exporter''], Listening \<lparr>mux = [''/metrics''], reg = r'\<rparr> '':9101'')"
    by (simp add: main_run_def serverMetrics_def http_Handle_def listenAddress_default_def metricPath_default_def e)
  with t show ?thesis by auto
qed

theorem main_run_listens_witness:
  "\<exists>r0. default_registry example_process_descs example_go_descs = Inr r0 \<and>
     (\<forall>d \<in> set (example_process_descs @ example_go_descs). fqName d \<notin> set ttn_names) \<and>
     (\<exists>p'. main_run [''TTN_TOKEN'' \<mapsto> ''NNSXS.EXAMPLE''] [] example_go_descs \<lparr>mux = [], reg = r0\<rparr> =
          ([''Starting ttn_exporter''], Listening p' '':9101'') \<and> mux p' = [''/metrics''] \<and>
        collectorsByID (reg p') (desc_id ` set (Describe (newTtnCollector ''NNSXS.EXAMPLE'' []))) =
          Some (TtnColl (newTtnCollector ''NNSXS.EXAMPLE'' [])))"
proof -
  obtain r0 where r0: "default_registry example_process_descs example_go_descs = Inr r0"
    using example_default_registry by blast
  have names: "\<forall>d \<in> set (example_process_descs @ example_go_descs). fqName d \<notin> set ttn_names"
    by (simp add: example_process_descs_def example_go_descs_def NewDesc_def ttn_names_def)
  have g: "getenv [''TTN_TOKEN'' \<mapsto> ''NNSXS.EXAMPLE''] ''TTN_TOKEN'' = ''NNSXS.EXAMPLE''"
    "getenv [''TTN_TOKEN'' \<mapsto> ''NNSXS.EXAMPLE''] ''TTN_GATEWAY_NAME'' = []"
    by (simp_all add: getenv_def)
  show ?thesis
    using main_run_listens [OF r0 names, of "[''TTN_TOKEN'' \<mapsto> ''NNSXS.EXAMPLE'']" "[]"] r0 names
    unfolding g by blast
qed

end
