(* ===== verification/Spec2Isabelle.thy ===== *)
theory Spec2Isabelle
  imports Collector Exporter
begin

text \<open>
  \<^bold>\<open>A model of ttnPrometheusExporter.\<close>
  The exporter (\<open>src/main.go\<close>, \<open>src/exporter/ttn_exporter.go\<close>) serves
  Prometheus metrics for one gateway of The Things Stack. \<open>main\<close> logs a
  start line and calls \<open>serverMetrics\<close> with the default listen address
  and metrics path (the two flags are declared but \<open>flag.Parse\<close> is never
  called); \<open>serverMetrics\<close> adds the metrics handler to the default mux,
  reads the API token and gateway ID from the environment variables
  \<open>TTN_TOKEN\<close> and \<open>TTN_GATEWAY_NAME\<close>, and calls \<open>exporter.Register\<close>,
  which registers the version collector and a \<open>ttnCollector\<close>
  (\<open>newTtnCollector\<close>) with the default registry and unregisters the Go
  collector. On every scrape the registry calls the collector's
  \<open>Collect\<close>, which fetches
  \<open>/api/v3/gs/gateways/<id>/connection/stats\<close> with a bearer token, decodes
  the JSON body into \<open>GatewayConnectionStats\<close> and sends ten gauges.

  \<^bold>\<open>Theories.\<close>
  \<^item> \<open>Prelude\<close>: bytes and digits, \<open>go_int\<close> (Go's 64-bit \<open>int\<close> as a
    \<open>64 word\<close>), the decimal read/show roundtrip shared below.
  \<^item> \<open>Descriptors\<close>: the \<open>ttnCollector\<close> struct as a record, the
    \<open>namespace\<close> constant, \<open>newTtnCollector\<close>, \<open>Describe\<close>, and
    client_golang's \<open>NewDesc\<close>/\<open>BuildFQName\<close>/metric-name check that the
    constructor relies on.
  \<^item> \<open>GoFloat\<close>: IEEE binary64 values (\<open>float64\<close>: finite rationals, the
    signed zero, infinities, NaN), correct rounding to nearest-even with
    subnormals and overflow, \<open>strconv.ParseFloat\<close> (decimal and hex forms,
    underscores, \<open>inf\<close>/\<open>nan\<close>, range errors), \<open>strconv.ParseInt\<close>,
    \<open>FormatInt\<close> and the conversion \<open>float64(int)\<close>.
  \<^item> \<open>Json\<close>: the JSON value tree, Go's scanner as a fuel-bounded parser
    (\<open>parse_value\<close>, with the nesting limit 10000), a printer and the roundtrip
    \<open>json_parse (print_json v) = Some v\<close> for well-formed trees.
  \<^item> \<open>JsonDecode\<close>: how \<open>json.Unmarshal\<close> stores a tree into strings,
    \<open>int\<close>s, \<open>float64\<close>s, \<open>time.Time\<close>, slices and structs: \<open>null\<close>
    handling, type errors recorded and skipped, unknown keys ignored,
    case-insensitive key matching, and the abort on a \<open>time.Time\<close> error;
    \<open>Time.UnmarshalJSON\<close>'s acceptance is \<open>time.Parse\<close> with the layout
    \<open>RFC3339\<close> (\<open>time_Parse_RFC3339\<close>), to which it falls back.
  \<^item> \<open>Stats\<close>: the \<open>GatewayConnectionStats\<close> struct and its nested structs
    as records, their zero values, the per-struct field tables from the JSON
    tags, and \<open>Unmarshal_stats\<close>; an encoder for the link metrics and the
    counts, with decode-after-encode lemmas.
  \<^item> \<open>Collector\<close>: \<open>Collect\<close>, with the request (\<open>stats_url\<close>,
    \<open>NewRequest\<close> and \<open>url.Parse\<close>'s acceptance, \<open>Header_Add\<close>), the client
    (\<open>client_Do\<close>: the transport's header check, the \<open>*url.Error\<close> text
    with \<open>URL.String()\<close> and \<open>strconv.Quote\<close>, the redirect limit, the
    client's timeout, here 0 as \<open>&http.Client{}\<close> has it), the body read
    (\<open>ReadAll\<close>, open or closed bodies), the server and network as a
    parameter giving an \<open>http_outcome\<close>, and the channel sends and log lines
    as an \<open>event\<close> list with how the call ended (\<open>Returned\<close>,
    \<open>Panicked\<close>, \<open>Blocked\<close>).
  \<^item> \<open>Registry\<close>: client_golang's \<open>Registry.Register\<close>,
    \<open>Unregister\<close> and \<open>MustRegister\<close> over a record of its four maps, the
    reachable registries as an inductive step relation and the consistency
    invariant they keep.
  \<^item> \<open>Exporter\<close>: \<open>exporter.Register\<close> (\<open>exporter_Register\<close>), the
    version collector, the default registry, and \<open>src/main.go\<close>:
    \<open>serverMetrics\<close> (\<open>http.Handle\<close> on the default mux, \<open>os.Getenv\<close>,
    registration) and \<open>main_run\<close>.

  \<^bold>\<open>What is proved.\<close> C1-C13 describe one scrape: the values sent for a
  well-formed document (exact up to \<open>2^53\<close>, rounded above: C1, C13), and
  each other path of \<open>Collect\<close>: a read error gives \<open>ttn_up\<close> 0 (C2); a
  transport error (C3), a gateway ID that is not a valid URL path (C6), or a
  token with a control byte (C7) panic on a nil pointer without sending any
  metric, after logging the exact \<open>*url.Error\<close> text; a server that never
  answers blocks the scrape, the client having no timeout (C8); a refused
  redirect reports \<open>ttn_up\<close> 1 and zeros when the last response had no
  body, \<open>ttn_up\<close> 0 otherwise (C9); a body that is not JSON (C4), a count
  that is not a number string (C10), a count sent as a number (C11), or an
  HTTP error status (C5) are all reported with \<open>ttn_up\<close> 1; a timestamp
  \<open>time.Parse\<close> rejects truncates decoding (C12). C14-C16 describe startup
  and registration: \<open>serverMetrics\<close> registers the collectors and listens,
  a second \<open>Register\<close> panics with \<open>AlreadyRegistered\<close>, and registration
  keeps the registry reachable and consistent. C17 shows that every scrape
  that returns sends one of the two outcomes of the specification (a
  refinement), C18 that seven of the ten gauges sent are never described,
  C19 that decoding inverts encoding for the link metrics. The library
  lemmas prove the parser/printer roundtrip, the \<open>ParseInt\<close>/\<open>FormatInt\<close>
  roundtrip, exact and rounded float conversion, the decoding of encoded
  documents, and the registry invariant by rule induction.

  \<^bold>\<open>Fuel and bounds.\<close> \<open>json_parse\<close> runs \<open>parse_value\<close> with fuel
  \<open>2 * length s + 1\<close>: every call consumes at least one byte or closes a
  container, so this suffices for every input the printer produces (lemma
  \<open>parse_print\<close> needs only fuel above the printed length). Integers are
  kept at 64 bits; \<open>float64\<close> is exact rational arithmetic followed by one
  rounding step, so the exactness bound \<open>2^53\<close> is the binary64 one. A call
  that never returns is the value \<open>Blocked\<close> (\<open>DoBlocks\<close> from the
  client), not a missing result.

  \<^bold>\<open>Not modelled.\<close> \<open>http.ListenAndServe\<close>, \<open>promhttp.Handler\<close> and the
  text exposition are library I/O; the flag declarations have no effect
  since the flags are never parsed; the descriptor lists of the Go and
  process collectors depend on the client_golang version and are
  parameters; the network, TLS, DNS and clocks are the environment, given as
  the \<open>http_outcome\<close> parameter; log timestamps are not modelled;
  \<open>time.Time\<close> is kept as its text; \<open>strconv.Quote\<close> takes every valid
  non-ASCII rune as printable (\<open>unicode.IsPrint\<close>'s tables are not
  modelled); \<open>URL.String()\<close> is modelled for URLs with the exporter's
  scheme and host, which need no escaping.
\<close>

end
